theory Spec2Isabelle
  imports Complex_Main "HOL-Library.Char_ord" "HOL-Library.List_Lexorder"
    "HOL-Library.Product_Lexorder"
begin

section \<open>Data model\<close>

text \<open>
  One row of the traffic table, as the analysis functions see it after ingestion: the
  columns \<open>Year\<close> and \<open>Month\<close> are integers, the names are strings, \<open>Route\<close> is the column
  \<open>create_datetime_index\<close> adds, and the nine metric columns are numbers. Numbers are exact
  rationals here: every finite float is one, and the sums and quotients of the source are
  taken exactly. The three values a float quotient has beyond the finite ones are kept
  apart, in \<open>fval\<close> below.
\<close>

record TrafficRecord =
  Year :: int
  Month :: int
  AustralianPort :: string
  ForeignPort :: string
  Country :: string
  Route :: string
  Passengers_In :: rat
  Passengers_Out :: rat
  Passengers_Total :: rat
  Freight_In :: rat
  Freight_Out :: rat
  Freight_Total :: rat
  Mail_In :: rat
  Mail_Out :: rat
  Mail_Total :: rat

text \<open>The names of the metric columns, and the value of a row in such a column.\<close>

datatype colname =
    C_Passengers_In | C_Passengers_Out | C_Passengers_Total
  | C_Freight_In | C_Freight_Out | C_Freight_Total
  | C_Mail_In | C_Mail_Out | C_Mail_Total

fun col_value :: "colname \<Rightarrow> TrafficRecord \<Rightarrow> rat" where
  "col_value C_Passengers_In r = Passengers_In r"
| "col_value C_Passengers_Out r = Passengers_Out r"
| "col_value C_Passengers_Total r = Passengers_Total r"
| "col_value C_Freight_In r = Freight_In r"
| "col_value C_Freight_Out r = Freight_Out r"
| "col_value C_Freight_Total r = Freight_Total r"
| "col_value C_Mail_In r = Mail_In r"
| "col_value C_Mail_Out r = Mail_Out r"
| "col_value C_Mail_Total r = Mail_Total r"

datatype error = ValueError string | KeyError string

text \<open>
  A float that is the result of a division: finite, an infinity, or not a number.
  \<open>fdiv\<close> is the quotient of two finite numbers the way pandas computes it on columns,
  where a zero divisor raises nothing.
\<close>

datatype fval = Fin rat | PosInf | NegInf | NaN

definition fdiv :: "rat \<Rightarrow> rat \<Rightarrow> fval" where
  "fdiv a b =
     (if b \<noteq> 0 then Fin (a / b)
      else if a > 0 then PosInf
      else if a < 0 then NegInf
      else NaN)"

section \<open>Library operations the code calls\<close>

subsection \<open>Strings and number formatting\<close>

text \<open>\<open>sep.join(xs)\<close> of Python.\<close>

fun str_join :: "string \<Rightarrow> string list \<Rightarrow> string" where
  "str_join sep [] = []"
| "str_join sep [x] = x"
| "str_join sep (x # y # ys) = x @ sep @ str_join sep (y # ys)"

text \<open>The decimal digits of a natural number, and \<open>str\<close> of an integer.\<close>

definition digit_char :: "nat \<Rightarrow> char" where
  "digit_char d = ''0123456789'' ! d"

fun str_nat :: "nat \<Rightarrow> string" where
  "str_nat n = (if n < 10 then [digit_char n] else str_nat (n div 10) @ [digit_char (n mod 10)])"

declare str_nat.simps [simp del]

definition str_int :: "int \<Rightarrow> string" where
  "str_int i = (if i < 0 then ''-'' @ str_nat (nat (- i)) else str_nat (nat i))"

text \<open>\<open>int(x)\<close> of a number: the fractional part is cut off, towards zero.\<close>

definition int_of_number :: "rat \<Rightarrow> int" where
  "int_of_number x = (if x \<ge> 0 then \<lfloor>x\<rfloor> else \<lceil>x\<rceil>)"

text \<open>
  \<open>f"{x:.df}"\<close>: \<open>x\<close> with \<open>d\<close> digits after the point, the nearest such decimal to the
  exact value of \<open>x\<close>, a tie going to the even last digit; the sign of a negative \<open>x\<close> is
  kept when the digits are all zero.
\<close>

definition round_half_even :: "rat \<Rightarrow> nat" where
  "round_half_even x =
     (let f = \<lfloor>x\<rfloor>; d = x - of_int f
      in nat (if d < 1 / 2 then f else if d > 1 / 2 then f + 1
              else if even f then f else f + 1))"

definition fmt_fixed :: "nat \<Rightarrow> rat \<Rightarrow> string" where
  "fmt_fixed d x =
     (let q = round_half_even (\<bar>x\<bar> * 10 ^ d);
          frac = str_nat (q mod 10 ^ d)
      in (if x < 0 then ''-'' else []) @ str_nat (q div 10 ^ d) @
         (if d = 0 then [] else ''.'' @ replicate (d - length frac) (CHR ''0'') @ frac))"

fun fmt_fval :: "nat \<Rightarrow> fval \<Rightarrow> string" where
  "fmt_fval d (Fin x) = fmt_fixed d x"
| "fmt_fval d PosInf = ''inf''"
| "fmt_fval d NegInf = ''-inf''"
| "fmt_fval d NaN = ''nan''"

subsection \<open>Float columns\<close>

fun fadd :: "fval \<Rightarrow> fval \<Rightarrow> fval" where
  "fadd (Fin a) (Fin b) = Fin (a + b)"
| "fadd NaN _ = NaN"
| "fadd _ NaN = NaN"
| "fadd PosInf NegInf = NaN"
| "fadd NegInf PosInf = NaN"
| "fadd PosInf _ = PosInf"
| "fadd _ PosInf = PosInf"
| "fadd NegInf _ = NegInf"
| "fadd _ NegInf = NegInf"

text \<open>\<open>Series.mean()\<close>: the mean of the values that are not NaN, NaN when there is none.\<close>

definition fmean :: "fval list \<Rightarrow> fval" where
  "fmean vs =
     (let ws = filter (\<lambda>v. v \<noteq> NaN) vs
      in if ws = [] then NaN
         else (case fold fadd ws (Fin 0) of
                 Fin s \<Rightarrow> Fin (s / of_nat (length ws))
               | v \<Rightarrow> v))"

text \<open>
  The order of a float column that holds no NaN, as a key: minus infinity, the finite
  values, plus infinity.
\<close>

fun fkey :: "fval \<Rightarrow> int \<times> rat" where
  "fkey NegInf = (- 1, 0)"
| "fkey (Fin x) = (0, x)"
| "fkey PosInf = (1, 0)"
| "fkey NaN = (2, 0)"

subsection \<open>Frames\<close>

text \<open>
  \<open>sort_values(col, ascending=False)\<close> reverses the frame, sorts the keys ascending and
  reverses the outcome; rows with equal keys are left in the order a stable sort leaves
  them. \<open>head(n)\<close> is the first \<open>n\<close> rows, and all but the last \<open>-n\<close> when \<open>n\<close> is negative.
\<close>

definition sort_values_desc :: "('a \<Rightarrow> 'k::linorder) \<Rightarrow> 'a list \<Rightarrow> 'a list" where
  "sort_values_desc f xs = rev (sort_key f (rev xs))"

definition head :: "int \<Rightarrow> 'a list \<Rightarrow> 'a list" where
  "head n xs = (if n \<ge> 0 then take (nat n) xs else take (length xs - nat (- n)) xs)"

text \<open>
  \<open>nlargest(n, col)\<close> and \<open>nsmallest(n, col)\<close>: the first \<open>n\<close> rows in descending
  (ascending) order of the column, rows with equal values in their original order, rows
  whose value is NaN after all others; no row when \<open>n\<close> is not positive.
\<close>

definition nlargest :: "int \<Rightarrow> ('a \<Rightarrow> fval) \<Rightarrow> 'a list \<Rightarrow> 'a list" where
  "nlargest n col data =
     take (nat n) (sort_values_desc (\<lambda>r. fkey (col r)) (filter (\<lambda>r. col r \<noteq> NaN) data)
                   @ filter (\<lambda>r. col r = NaN) data)"

definition nsmallest :: "int \<Rightarrow> ('a \<Rightarrow> fval) \<Rightarrow> 'a list \<Rightarrow> 'a list" where
  "nsmallest n col data =
     take (nat n) (sort_key (\<lambda>r. fkey (col r)) (filter (\<lambda>r. col r \<noteq> NaN) data)
                   @ filter (\<lambda>r. col r = NaN) data)"

text \<open>
  A frame grouped by a name column: the metric columns it has, and per group key one row
  of their values. \<open>groupby(key)[cols].sum()\<close> has one row per distinct key, the keys in
  ascending order, each metric summed over the rows of the group.
\<close>

record gtable =
  columns :: "colname list"
  rows :: "(string \<times> (colname \<Rightarrow> rat)) list"

definition groupby_sum ::
  "(TrafficRecord \<Rightarrow> string) \<Rightarrow> colname list \<Rightarrow> TrafficRecord list \<Rightarrow> gtable" where
  "groupby_sum key cols data =
     \<lparr>columns = cols,
      rows = map (\<lambda>k. (k, \<lambda>c. sum_list (map (col_value c) (filter (\<lambda>r. key r = k) data))))
                 (sort (remdups (map key data)))\<rparr>"

text \<open>\<open>frame.empty\<close> of a frame indexed by its key: an axis of length zero.\<close>

definition frame_empty :: "gtable \<Rightarrow> bool" where
  "frame_empty t \<longleftrightarrow> rows t = [] \<or> columns t = []"

text \<open>\<open>Series.max()\<close> and \<open>Series.min()\<close>; \<open>None\<close> is the NaN of an empty column.\<close>

fun series_max :: "rat list \<Rightarrow> rat option" where
  "series_max [] = None"
| "series_max (x # xs) = Some (fold max xs x)"

fun series_min :: "rat list \<Rightarrow> rat option" where
  "series_min [] = None"
| "series_min (x # xs) = Some (fold min xs x)"

text \<open>One output row: the period, and the fields the analysis adds to it.\<close>

record result_row =
  row_year :: int
  row_month :: "int option"
  row_fields :: "string \<rightharpoonup> string"

text \<open>A loop that appends one result per item and stops at the first exception.\<close>

fun map_err :: "('a \<Rightarrow> error + 'b) \<Rightarrow> 'a list \<Rightarrow> error + 'b list" where
  "map_err f [] = Inr []"
| "map_err f (x # xs) =
     (case f x of
        Inl e \<Rightarrow> Inl e
      | Inr y \<Rightarrow> (case map_err f xs of Inl e \<Rightarrow> Inl e | Inr ys \<Rightarrow> Inr (y # ys)))"

section \<open>utilities.py\<close>

subsection \<open>filter_data_by_period\<close>

definition filter_data_by_period ::
  "TrafficRecord list \<Rightarrow> int \<Rightarrow> int \<Rightarrow> int \<Rightarrow> int \<Rightarrow> TrafficRecord list" where
  "filter_data_by_period data start_year start_month end_year end_month =
     filter (\<lambda>r. (Year r = start_year \<and> Month r \<ge> start_month) \<or>
                 (Year r > start_year \<and> Year r < end_year) \<or>
                 (Year r = end_year \<and> Month r \<le> end_month)) data"

subsection \<open>get_cargo_columns, get_default_cargo_weights\<close>

record cargo_cols =
  col_in :: colname
  col_out :: colname
  col_total :: colname

definition get_cargo_columns :: "string \<rightharpoonup> cargo_cols" where
  "get_cargo_columns =
     [''passengers'' \<mapsto> \<lparr>col_in = C_Passengers_In, col_out = C_Passengers_Out,
                          col_total = C_Passengers_Total\<rparr>,
      ''freight'' \<mapsto> \<lparr>col_in = C_Freight_In, col_out = C_Freight_Out,
                       col_total = C_Freight_Total\<rparr>,
      ''mail'' \<mapsto> \<lparr>col_in = C_Mail_In, col_out = C_Mail_Out, col_total = C_Mail_Total\<rparr>]"

record cargo_weights =
  w_passengers :: rat
  w_freight :: rat
  w_mail :: rat

definition get_default_cargo_weights :: cargo_weights where
  "get_default_cargo_weights = \<lparr>w_passengers = 1, w_freight = 10, w_mail = 20\<rparr>"

subsection \<open>filter_and_aggregate_by_period\<close>

text \<open>
  The parameter \<open>agg\<close> is \<open>period_data.groupby(group_col).agg(agg_dict).reset_index()\<close>
  as a function of \<open>period_data\<close>. Any \<open>aggregate_by\<close> other than \<open>'Month'\<close> takes the
  branch of the years.
\<close>

definition filter_and_aggregate_by_period ::
  "TrafficRecord list \<Rightarrow> int \<Rightarrow> int \<Rightarrow> int \<Rightarrow> int \<Rightarrow> (TrafficRecord list \<Rightarrow> 'a) \<Rightarrow> string
     \<Rightarrow> (int \<times> int option \<times> 'a) list" where
  "filter_and_aggregate_by_period df start_year start_month end_year end_month agg aggregate_by =
     (let filtered_df = filter_data_by_period df start_year start_month end_year end_month
      in if aggregate_by = ''Month'' then
           map (\<lambda>(year, month).
                  (year, Some month,
                   agg (filter (\<lambda>r. Year r = year \<and> Month r = month) filtered_df)))
               (sort (remdups (map (\<lambda>r. (Year r, Month r)) filtered_df)))
         else
           map (\<lambda>year. (year, None, agg (filter (\<lambda>r. Year r = year) filtered_df)))
               (sort (remdups (map Year filtered_df))))"

subsection \<open>get_top_entities\<close>

definition get_top_entities :: "'a list \<Rightarrow> ('a \<Rightarrow> fval) \<Rightarrow> string \<Rightarrow> int \<Rightarrow> 'a list" where
  "get_top_entities data sort_col level top_n =
     (if data = [] then data
      else if level = ''Least'' then nsmallest top_n sort_col data
      else nlargest top_n sort_col data)"

subsection \<open>format_results_summary\<close>

text \<open>
  \<open>metric_col\<close> is \<open>None\<close> when the caller passes \<open>None\<close> or a column the frame does not
  have, and the column's values otherwise.
\<close>

definition format_results_summary ::
  "'a list \<Rightarrow> ('a \<Rightarrow> fval) option \<Rightarrow> ('a \<Rightarrow> string) \<Rightarrow> int \<Rightarrow> int option
     \<Rightarrow> result_row \<times> string \<times> string" where
  "format_results_summary entities metric_col entity_col year month =
     (let (entity_names, avg_metric) =
            (if entities = [] then (''No data'', ''No data'')
             else (str_join '', '' (map entity_col entities),
                   (case metric_col of
                      Some col \<Rightarrow> fmt_fval 3 (fmean (map col entities))
                    | None \<Rightarrow> ''No data'')))
      in (\<lparr>row_year = year, row_month = month, row_fields = Map.empty\<rparr>, entity_names, avg_metric))"

section \<open>analysis_functions.py\<close>

subsection \<open>analyze_traffic_routes\<close>

definition col_mapping :: "string \<rightharpoonup> colname \<times> colname \<times> colname \<times> string" where
  "col_mapping =
     [''Passengers'' \<mapsto> (C_Passengers_In, C_Passengers_Out, C_Passengers_Total, []),
      ''Freight'' \<mapsto> (C_Freight_In, C_Freight_Out, C_Freight_Total, ''t''),
      ''Mail'' \<mapsto> (C_Mail_In, C_Mail_Out, C_Mail_Total, ''t'')]"

text \<open>
  The body of the loop over the three directions, for one column: \<open>extreme_value\<close>,
  \<open>tied_routes\<close> and \<open>formatted_value\<close> are the variables of that name, and
  \<open>direction_fields\<close> is the pair of the \<open>_Route\<close> and the \<open>_Value\<close> field. The extreme of
  a column with no value is NaN (\<open>None\<close>), which \<open>int\<close> refuses and the float format
  prints as \<open>nan\<close>.
\<close>

definition extreme_value :: "string \<Rightarrow> gtable \<Rightarrow> colname \<Rightarrow> rat option" where
  "extreme_value traffic_level route_data col =
     (if traffic_level = ''Most''
      then series_max (map (\<lambda>(k, v). v col) (rows route_data))
      else series_min (map (\<lambda>(k, v). v col) (rows route_data)))"

definition tied_routes :: "gtable \<Rightarrow> colname \<Rightarrow> rat \<Rightarrow> string list" where
  "tied_routes route_data col ev =
     map fst (filter (\<lambda>(k, v). v col = ev) (rows route_data))"

definition formatted_value :: "string \<Rightarrow> rat \<Rightarrow> string" where
  "formatted_value unit_suffix ev =
     (if unit_suffix = [] then str_int (int_of_number ev)
      else fmt_fixed 1 ev @ unit_suffix)"

definition direction_fields ::
  "string \<Rightarrow> string \<Rightarrow> gtable \<Rightarrow> colname \<Rightarrow> error + (string \<times> string)" where
  "direction_fields traffic_level unit_suffix route_data col =
     (if \<not> frame_empty route_data \<and> col \<in> set (columns route_data) then
        (case extreme_value traffic_level route_data col of
           None \<Rightarrow>
             (if unit_suffix = [] then Inl (ValueError ''cannot convert float NaN to integer'')
              else Inr ([], ''nan'' @ unit_suffix))
         | Some ev \<Rightarrow>
             Inr (str_join '', '' (tied_routes route_data col ev),
                  formatted_value unit_suffix ev))
      else Inr (''No data'', ''No data''))"

fun fill_directions ::
  "string \<Rightarrow> string \<Rightarrow> gtable \<Rightarrow> (string \<times> colname) list \<Rightarrow> result_row \<Rightarrow> error + result_row" where
  "fill_directions traffic_level unit_suffix route_data [] result_row = Inr result_row"
| "fill_directions traffic_level unit_suffix route_data ((direction, col) # ds) result_row =
     (case direction_fields traffic_level unit_suffix route_data col of
        Inl e \<Rightarrow> Inl e
      | Inr (routes_str, value_str) \<Rightarrow>
          fill_directions traffic_level unit_suffix route_data ds
            (result_row\<lparr>row_fields := (row_fields result_row)
               (direction @ ''_Route'' \<mapsto> routes_str, direction @ ''_Value'' \<mapsto> value_str)\<rparr>))"

text \<open>The statement \<open>filtered_df = df[...].copy()\<close> of \<open>analyze_traffic_routes\<close>.\<close>

definition traffic_routes_filtered_df ::
  "TrafficRecord list \<Rightarrow> int \<Rightarrow> int \<Rightarrow> int \<Rightarrow> int \<Rightarrow> TrafficRecord list" where
  "traffic_routes_filtered_df df start_year start_month end_year end_month =
     filter (\<lambda>r. (Year r = start_year \<and> Month r \<ge> start_month) \<or>
                 (Year r > start_year \<and> Year r < end_year) \<or>
                 (Year r = end_year \<and> Month r \<le> end_month)) df"

text \<open>One pass of either loop over the periods: the row of the records \<open>period_data\<close>.\<close>

definition period_row ::
  "string \<Rightarrow> colname \<times> colname \<times> colname \<times> string \<Rightarrow> result_row \<Rightarrow> TrafficRecord list
     \<Rightarrow> error + result_row" where
  "period_row traffic_level cols result_row period_data =
     (case cols of (in_col, out_col, total_col, unit_suffix) \<Rightarrow>
        fill_directions traffic_level unit_suffix
          (groupby_sum Route [in_col, out_col, total_col] period_data)
          [(''In'', in_col), (''Out'', out_col), (''Total'', total_col)] result_row)"

definition analyze_traffic_routes ::
  "TrafficRecord list \<Rightarrow> int \<Rightarrow> int \<Rightarrow> int \<Rightarrow> int \<Rightarrow> string \<Rightarrow> string \<Rightarrow> string
     \<Rightarrow> error + result_row list" where
  "analyze_traffic_routes df start_year start_month end_year end_month
       traffic_level traffic_type aggregate_by =
     (case col_mapping traffic_type of
        None \<Rightarrow> Inl (ValueError ''traffic_type must be Passengers, Freight, or Mail'')
      | Some cols \<Rightarrow>
          if traffic_level \<notin> set [''Most'', ''Least''] then
            Inl (ValueError ''traffic_level must be Most or Least'')
          else if aggregate_by \<notin> set [''Month'', ''Year''] then
            Inl (ValueError ''aggregate_by must be Month or Year'')
          else
            (let filtered_df =
                   traffic_routes_filtered_df df start_year start_month end_year end_month
             in if aggregate_by = ''Month'' then
                  map_err (\<lambda>(year, month).
                             period_row traffic_level cols
                               \<lparr>row_year = year, row_month = Some month, row_fields = Map.empty\<rparr>
                               (filter (\<lambda>r. Year r = year \<and> Month r = month) filtered_df))
                          (sort (remdups (map (\<lambda>r. (Year r, Month r)) filtered_df)))
                else
                  map_err (\<lambda>year.
                             period_row traffic_level cols
                               \<lparr>row_year = year, row_month = None, row_fields = Map.empty\<rparr>
                               (filter (\<lambda>r. Year r = year) filtered_df))
                          (sort (remdups (map Year filtered_df)))))"

text \<open>
  The same function on a frame that may lack metric columns: the names of the metric
  columns the frame has, and its records, whose values in a column the frame lacks are
  not read. Selecting the three columns of the traffic type from the grouped frame,
  \<open>period_data.groupby('Route')[[in_col, out_col, total_col]]\<close>, raises \<open>KeyError\<close> when
  one of them is not a column of the frame; this happens in the first pass of the loop
  over the periods, before the test \<open>col in route_data.columns\<close>.
\<close>

record frame =
  frame_columns :: "colname list"
  frame_records :: "TrafficRecord list"

definition groupby_route_select ::
  "colname list \<Rightarrow> colname list \<Rightarrow> TrafficRecord list \<Rightarrow> error + gtable" where
  "groupby_route_select present cols period_data =
     (if set cols \<subseteq> set present then Inr (groupby_sum Route cols period_data)
      else Inl (KeyError ''Columns not found''))"

definition period_row_frame ::
  "colname list \<Rightarrow> string \<Rightarrow> colname \<times> colname \<times> colname \<times> string \<Rightarrow> result_row
     \<Rightarrow> TrafficRecord list \<Rightarrow> error + result_row" where
  "period_row_frame present traffic_level cols result_row period_data =
     (case cols of (in_col, out_col, total_col, unit_suffix) \<Rightarrow>
        (case groupby_route_select present [in_col, out_col, total_col] period_data of
           Inl e \<Rightarrow> Inl e
         | Inr route_data \<Rightarrow>
             fill_directions traffic_level unit_suffix route_data
               [(''In'', in_col), (''Out'', out_col), (''Total'', total_col)] result_row))"

definition analyze_traffic_routes_frame ::
  "frame \<Rightarrow> int \<Rightarrow> int \<Rightarrow> int \<Rightarrow> int \<Rightarrow> string \<Rightarrow> string \<Rightarrow> string
     \<Rightarrow> error + result_row list" where
  "analyze_traffic_routes_frame df start_year start_month end_year end_month
       traffic_level traffic_type aggregate_by =
     (case col_mapping traffic_type of
        None \<Rightarrow> Inl (ValueError ''traffic_type must be Passengers, Freight, or Mail'')
      | Some cols \<Rightarrow>
          if traffic_level \<notin> set [''Most'', ''Least''] then
            Inl (ValueError ''traffic_level must be Most or Least'')
          else if aggregate_by \<notin> set [''Month'', ''Year''] then
            Inl (ValueError ''aggregate_by must be Month or Year'')
          else
            (let filtered_df =
                   traffic_routes_filtered_df (frame_records df)
                     start_year start_month end_year end_month
             in if aggregate_by = ''Month'' then
                  map_err (\<lambda>(year, month).
                             period_row_frame (frame_columns df) traffic_level cols
                               \<lparr>row_year = year, row_month = Some month, row_fields = Map.empty\<rparr>
                               (filter (\<lambda>r. Year r = year \<and> Month r = month) filtered_df))
                          (sort (remdups (map (\<lambda>r. (Year r, Month r)) filtered_df)))
                else
                  map_err (\<lambda>year.
                             period_row_frame (frame_columns df) traffic_level cols
                               \<lparr>row_year = year, row_month = None, row_fields = Map.empty\<rparr>
                               (filter (\<lambda>r. Year r = year) filtered_df))
                          (sort (remdups (map Year filtered_df)))))"

subsection \<open>analyze_port_flow_efficiency\<close>

record port_score =
  ps_port :: string
  balance_ratio :: fval
  efficiency :: fval
  total_volume :: rat

text \<open>\<open>1 - abs(1 - ratio)\<close> on a float.\<close>

fun efficiency_of :: "fval \<Rightarrow> fval" where
  "efficiency_of (Fin r) = Fin (1 - \<bar>1 - r\<bar>)"
| "efficiency_of PosInf = NegInf"
| "efficiency_of NegInf = NegInf"
| "efficiency_of NaN = NaN"

text \<open>
  The three columns the loop over \<open>cargo_types\<close> adds to \<open>port_data\<close>, for one port;
  \<open>0.001\<close> is taken as the decimal it is written as.
\<close>

definition score_port :: "string \<Rightarrow> cargo_cols \<Rightarrow> string \<times> (colname \<Rightarrow> rat) \<Rightarrow> port_score" where
  "score_port cargo_type mapping row =
     (case row of (port, v) \<Rightarrow>
        (let epsilon = (if cargo_type = ''passengers'' then 1 else 1 / 1000);
             ratio = fdiv (v (col_in mapping)) (v (col_out mapping) + epsilon)
         in \<lparr>ps_port = port, balance_ratio = ratio, efficiency = efficiency_of ratio,
             total_volume = v (col_in mapping) + v (col_out mapping)\<rparr>))"

text \<open>\<open>str.title()\<close>, which the code applies to the keys of the cargo mapping only.\<close>

definition title :: "string \<Rightarrow> string" where
  "title s =
     (if s = ''passengers'' then ''Passengers''
      else if s = ''freight'' then ''Freight''
      else if s = ''mail'' then ''Mail'' else s)"

text \<open>The body of the loop over \<open>cargo_types\<close>, for one period.\<close>

definition cargo_step ::
  "string \<Rightarrow> rat \<Rightarrow> int \<Rightarrow> gtable \<Rightarrow> string \<Rightarrow> result_row \<Rightarrow> result_row" where
  "cargo_step efficiency_level min_volume_threshold top_n port_data cargo_type result_row =
     (case get_cargo_columns cargo_type of
        None \<Rightarrow> result_row
      | Some mapping \<Rightarrow>
          if col_in mapping \<in> set (columns port_data) \<and> col_out mapping \<in> set (columns port_data)
          then
            (let scored = map (score_port cargo_type mapping) (rows port_data);
                 filtered_ports = filter (\<lambda>e. total_volume e \<ge> min_volume_threshold) scored;
                 top_ports = get_top_entities filtered_ports efficiency efficiency_level top_n
             in if top_ports \<noteq> [] then
                  result_row\<lparr>row_fields := (row_fields result_row)
                    (title cargo_type @ ''_Ports'' \<mapsto> str_join '', '' (map ps_port top_ports),
                     title cargo_type @ ''_Avg_Efficiency'' \<mapsto>
                       fmt_fval 3 (fmean (map efficiency top_ports)))\<rparr>
                else
                  result_row\<lparr>row_fields := (row_fields result_row)
                    (title cargo_type @ ''_Ports'' \<mapsto> ''No data'',
                     title cargo_type @ ''_Avg_Efficiency'' \<mapsto> ''No data'')\<rparr>)
          else result_row)"

text \<open>
  \<open>specific_ports\<close> is \<open>None\<close> or a list, and the empty list filters nothing. The keys of
  \<open>agg_dict\<close> are the in and out columns of the known cargo types, each once.
\<close>

definition restrict_ports :: "string list option \<Rightarrow> TrafficRecord list \<Rightarrow> TrafficRecord list" where
  "restrict_ports specific_ports filtered_df =
     (case specific_ports of
        None \<Rightarrow> filtered_df
      | Some ports \<Rightarrow>
          if ports \<noteq> [] then filter (\<lambda>r. AustralianPort r \<in> set ports) filtered_df
          else filtered_df)"

definition agg_dict_keys :: "string list \<Rightarrow> colname list" where
  "agg_dict_keys cargo_types =
     rev (remdups (rev (concat (map (\<lambda>cargo_type.
        (case get_cargo_columns cargo_type of
           None \<Rightarrow> []
         | Some mapping \<Rightarrow> [col_in mapping, col_out mapping])) cargo_types))))"

definition analyze_port_flow_efficiency ::
  "TrafficRecord list \<Rightarrow> int \<Rightarrow> int \<Rightarrow> int \<Rightarrow> int \<Rightarrow> string list \<Rightarrow> string \<Rightarrow> string
     \<Rightarrow> string list option \<Rightarrow> rat \<Rightarrow> int \<Rightarrow> error + result_row list" where
  "analyze_port_flow_efficiency df start_year start_month end_year end_month cargo_types
       aggregate_by efficiency_level specific_ports min_volume_threshold top_n =
     (let filtered_df = restrict_ports specific_ports
            (filter_data_by_period df start_year start_month end_year end_month);
          period_results = filter_and_aggregate_by_period filtered_df
            start_year start_month end_year end_month
            (groupby_sum AustralianPort (agg_dict_keys cargo_types)) aggregate_by
      in Inr (map (\<lambda>(year, month, port_data).
                    (case format_results_summary (rows port_data) None fst year month of
                       (result_row, _, _) \<Rightarrow>
                         fold (cargo_step efficiency_level min_volume_threshold top_n port_data)
                              cargo_types result_row))
                  period_results))"

subsection \<open>analyze_hub_utilization\<close>

record hub_row =
  Port :: string
  Total_Passengers :: rat
  Total_Freight :: rat
  Total_Mail :: rat
  Unique_Routes :: nat

text \<open>
  \<open>groupby('AustralianPort').agg(agg_dict).reset_index()\<close> with the three sums and the
  number of distinct routes, under the column names the code gives the frame.
\<close>

definition hub_agg :: "TrafficRecord list \<Rightarrow> hub_row list" where
  "hub_agg period_data =
     map (\<lambda>k. (let g = filter (\<lambda>r. AustralianPort r = k) period_data
               in \<lparr>Port = k,
                   Total_Passengers = sum_list (map Passengers_Total g),
                   Total_Freight = sum_list (map Freight_Total g),
                   Total_Mail = sum_list (map Mail_Total g),
                   Unique_Routes = length (remdups (map Route g))\<rparr>))
         (sort (remdups (map AustralianPort period_data)))"

definition totalPassengerEquiv :: "cargo_weights \<Rightarrow> hub_row \<Rightarrow> rat" where
  "totalPassengerEquiv cargo_weights h =
     Total_Passengers h + Total_Freight h * w_freight cargo_weights
       + Total_Mail h * w_mail cargo_weights"

definition utilizationScore :: "cargo_weights \<Rightarrow> hub_row \<Rightarrow> fval" where
  "utilizationScore cargo_weights h =
     fdiv (totalPassengerEquiv cargo_weights h) (of_nat (Unique_Routes h))"

definition hub_step ::
  "string \<Rightarrow> int \<Rightarrow> cargo_weights \<Rightarrow> int \<Rightarrow> hub_row list \<Rightarrow> result_row \<Rightarrow> result_row" where
  "hub_step utilization_level min_routes_threshold cargo_weights top_n hub_data result_row =
     (if hub_data \<noteq> [] then
        (let hub_data' = filter (\<lambda>h. int (Unique_Routes h) \<ge> min_routes_threshold) hub_data
         in if hub_data' \<noteq> [] then
              (let top_hubs = get_top_entities hub_data' (utilizationScore cargo_weights)
                                utilization_level top_n
               in result_row\<lparr>row_fields := (row_fields result_row)
                    (''Hub_Ports'' \<mapsto> str_join '', '' (map Port top_hubs),
                     ''Avg_Utilization_Score'' \<mapsto>
                       fmt_fval 1 (fmean (map (utilizationScore cargo_weights) top_hubs)),
                     ''Avg_Routes'' \<mapsto>
                       fmt_fval 1 (fmean (map (\<lambda>h. Fin (of_nat (Unique_Routes h))) top_hubs)))\<rparr>)
            else
              result_row\<lparr>row_fields := (row_fields result_row)
                (''Hub_Ports'' \<mapsto> ''No data'', ''Avg_Utilization_Score'' \<mapsto> ''No data'',
                 ''Avg_Routes'' \<mapsto> ''No data'')\<rparr>)
      else
        result_row\<lparr>row_fields := (row_fields result_row)
          (''Hub_Ports'' \<mapsto> ''No data'', ''Avg_Utilization_Score'' \<mapsto> ''No data'',
           ''Avg_Routes'' \<mapsto> ''No data'')\<rparr>)"

definition analyze_hub_utilization ::
  "TrafficRecord list \<Rightarrow> int \<Rightarrow> int \<Rightarrow> int \<Rightarrow> int \<Rightarrow> string \<Rightarrow> string
     \<Rightarrow> string list option \<Rightarrow> int \<Rightarrow> cargo_weights option \<Rightarrow> int \<Rightarrow> error + result_row list" where
  "analyze_hub_utilization df start_year start_month end_year end_month aggregate_by
       utilization_level specific_ports min_routes_threshold cargo_weights top_n =
     (let cargo_weights' =
            (case cargo_weights of None \<Rightarrow> get_default_cargo_weights | Some w \<Rightarrow> w);
          filtered_df = restrict_ports specific_ports
            (filter_data_by_period df start_year start_month end_year end_month);
          period_results = filter_and_aggregate_by_period filtered_df
            start_year start_month end_year end_month hub_agg aggregate_by
      in Inr (map (\<lambda>(year, month, hub_data).
                    (case format_results_summary hub_data None Port year month of
                       (result_row, _, _) \<Rightarrow>
                         hub_step utilization_level min_routes_threshold cargo_weights' top_n
                           hub_data result_row))
                  period_results))"

subsection \<open>analyze_geographical_patterns\<close>

record country_row =
  cr_Country :: string
  cr_Passengers_Total :: rat
  cr_Freight_Total :: rat
  cr_Mail_Total :: rat
  cr_Route :: nat

record connectivity_row =
  pc_AustralianPort :: string
  pc_Country :: nat
  pc_ForeignPort :: nat
  pc_Passengers_Total :: rat

record growth_row =
  g_Year :: int
  g_Country :: string
  g_Passengers_Total :: rat
  prev_year_passengers :: "rat option"
  growth_rate :: fval

datatype geo_frame =
    CountryPerformance "country_row list"
  | PortConnectivity "connectivity_row list"
  | RegionalGrowth "growth_row list"
  | EmptyFrame

definition country_totals :: "TrafficRecord list \<Rightarrow> country_row list" where
  "country_totals filtered_df =
     map (\<lambda>k. (let g = filter (\<lambda>r. Country r = k) filtered_df
               in \<lparr>cr_Country = k,
                   cr_Passengers_Total = sum_list (map Passengers_Total g),
                   cr_Freight_Total = sum_list (map Freight_Total g),
                   cr_Mail_Total = sum_list (map Mail_Total g),
                   cr_Route = length (remdups (map Route g))\<rparr>))
         (sort (remdups (map Country filtered_df)))"

definition port_connectivity :: "TrafficRecord list \<Rightarrow> connectivity_row list" where
  "port_connectivity filtered_df =
     map (\<lambda>k. (let g = filter (\<lambda>r. AustralianPort r = k) filtered_df
               in \<lparr>pc_AustralianPort = k,
                   pc_Country = length (remdups (map Country g)),
                   pc_ForeignPort = length (remdups (map ForeignPort g)),
                   pc_Passengers_Total = sum_list (map Passengers_Total g)\<rparr>))
         (sort (remdups (map AustralianPort filtered_df)))"

text \<open>
  \<open>groupby(['Year', 'Country']).agg({'Passengers_Total': 'sum'}).reset_index()\<close>: one row
  per pair of a year and a country, in ascending order of the pair.
\<close>

definition country_year_total :: "TrafficRecord list \<Rightarrow> int \<Rightarrow> string \<Rightarrow> rat" where
  "country_year_total filtered_df y c =
     sum_list (map Passengers_Total (filter (\<lambda>r. Year r = y \<and> Country r = c) filtered_df))"

definition yearly_country :: "TrafficRecord list \<Rightarrow> (int \<times> string \<times> rat) list" where
  "yearly_country filtered_df =
     map (\<lambda>(y, c). (y, c, country_year_total filtered_df y c))
         (sort (remdups (map (\<lambda>r. (Year r, Country r)) filtered_df)))"

text \<open>
  \<open>groupby('Country')['Passengers_Total'].shift(1)\<close> with the growth rate: each row gets
  the value of the row before it in its own country, and NaN (\<open>None\<close>) when there is none;
  \<open>seen\<close> holds the last value of every country above the current row.
\<close>

definition growth_of :: "rat \<Rightarrow> rat option \<Rightarrow> fval" where
  "growth_of cur prev =
     (case prev of
        None \<Rightarrow> NaN
      | Some p \<Rightarrow> (case fdiv (cur - p) p of Fin q \<Rightarrow> Fin (q * 100) | v \<Rightarrow> v))"

fun shift_growth :: "(string \<rightharpoonup> rat) \<Rightarrow> (int \<times> string \<times> rat) list \<Rightarrow> growth_row list" where
  "shift_growth seen [] = []"
| "shift_growth seen ((y, c, p) # rs) =
     \<lparr>g_Year = y, g_Country = c, g_Passengers_Total = p, prev_year_passengers = seen c,
      growth_rate = growth_of p (seen c)\<rparr> # shift_growth (seen(c \<mapsto> p)) rs"

text \<open>The rows of the latest year, without those that hold a NaN.\<close>

definition latest_growth :: "growth_row list \<Rightarrow> growth_row list" where
  "latest_growth yc =
     (case yc of
        [] \<Rightarrow> []
      | r # rs \<Rightarrow>
          (let latest_year = fold max (map g_Year rs) (g_Year r)
           in filter (\<lambda>r. prev_year_passengers r \<noteq> None \<and> growth_rate r \<noteq> NaN)
                     (filter (\<lambda>r. g_Year r = latest_year) yc)))"

definition analyze_geographical_patterns ::
  "TrafficRecord list \<Rightarrow> int \<Rightarrow> int \<Rightarrow> int \<Rightarrow> int \<Rightarrow> string \<Rightarrow> int \<Rightarrow> error + geo_frame" where
  "analyze_geographical_patterns df start_year start_month end_year end_month pattern_type top_n =
     (let filtered_df = filter_data_by_period df start_year start_month end_year end_month
      in if pattern_type = ''country_performance'' then
           Inr (CountryPerformance
                  (head top_n (sort_values_desc cr_Passengers_Total (country_totals filtered_df))))
         else if pattern_type = ''port_connectivity'' then
           Inr (PortConnectivity
                  (head top_n (sort_values_desc pc_Country (port_connectivity filtered_df))))
         else if pattern_type = ''regional_growth'' then
           Inr (RegionalGrowth
                  (head top_n (sort_values_desc (\<lambda>r. fkey (growth_rate r))
                     (latest_growth (shift_growth Map.empty (yearly_country filtered_df))))))
         else Inr EmptyFrame)"

section \<open>The specification's period predicate\<close>

text \<open>
  The inclusion predicate as the specification writes it, for a record of year \<open>Y\<close> and
  month \<open>M\<close>.
\<close>

definition spec_period_includes :: "int \<Rightarrow> int \<Rightarrow> int \<Rightarrow> int \<Rightarrow> int \<Rightarrow> int \<Rightarrow> bool" where
  "spec_period_includes Y M startYear startMonth endYear endMonth \<longleftrightarrow>
     (Y = startYear \<and> M \<ge> startMonth) \<or> (startYear < Y \<and> Y < endYear) \<or>
     (Y = endYear \<and> M \<le> endMonth)"

section \<open>Example records\<close>

text \<open>
  A record with the totals its in and out columns add up to, and the example table of
  the specification, extended by later months and years.
\<close>

definition mk_record ::
  "int \<Rightarrow> int \<Rightarrow> string \<Rightarrow> string \<Rightarrow> string \<Rightarrow> rat \<Rightarrow> rat \<Rightarrow> rat \<Rightarrow> rat \<Rightarrow> TrafficRecord" where
  "mk_record y m port foreign country p_in p_out f_in f_out =
     \<lparr>Year = y, Month = m, AustralianPort = port, ForeignPort = foreign, Country = country,
      Route = port @ ''-'' @ foreign,
      Passengers_In = p_in, Passengers_Out = p_out, Passengers_Total = p_in + p_out,
      Freight_In = f_in, Freight_Out = f_out, Freight_Total = f_in + f_out,
      Mail_In = 0, Mail_Out = 0, Mail_Total = 0\<rparr>"

definition sydney_london_jan85 :: TrafficRecord where
  "sydney_london_jan85 = mk_record 1985 1 ''Sydney'' ''London'' ''UK'' 100 80 (25 / 2) (5 / 4)"

definition melbourne_tokyo_jan85 :: TrafficRecord where
  "melbourne_tokyo_jan85 = mk_record 1985 1 ''Melbourne'' ''Tokyo'' ''Japan'' 40 40 0 0"

definition sydney_tokyo_dec85 :: TrafficRecord where
  "sydney_tokyo_dec85 = mk_record 1985 12 ''Sydney'' ''Tokyo'' ''Japan'' 50 50 3 3"

definition example_table :: "TrafficRecord list" where
  "example_table = [sydney_london_jan85, melbourne_tokyo_jan85, sydney_tokyo_dec85]"

definition perth_auckland_jan85 :: TrafficRecord where
  "perth_auckland_jan85 = mk_record 1985 1 ''Perth'' ''Auckland'' ''New Zealand'' 100 80 0 0"

text \<open>A bucket in which two routes have the same largest total.\<close>

definition tie_bucket :: "TrafficRecord list" where
  "tie_bucket = [sydney_london_jan85, melbourne_tokyo_jan85, perth_auckland_jan85]"

definition passenger_columns :: "colname list" where
  "passenger_columns = [C_Passengers_In, C_Passengers_Out, C_Passengers_Total]"

text \<open>
  Reading a decimal numeral back: the inverse of \<open>str_nat\<close> and \<open>str_int\<close>, used to say
  which number a formatted string denotes.
\<close>

definition digit_val :: "char \<Rightarrow> nat" where
  "digit_val c = of_char c - 48"

definition nat_of_str :: "string \<Rightarrow> nat" where
  "nat_of_str s = foldl (\<lambda>a c. 10 * a + digit_val c) 0 s"

definition int_of_str :: "string \<Rightarrow> int" where
  "int_of_str s =
     (case s of
        [] \<Rightarrow> 0
      | c # cs \<Rightarrow> if c = CHR ''-'' then - int (nat_of_str cs) else int (nat_of_str s))"

text \<open>
  The records of one period among the filtered records: those of a year and a month, or
  those of a year when the rows are per year.
\<close>

definition period_bucket :: "int \<Rightarrow> int option \<Rightarrow> TrafficRecord list \<Rightarrow> TrafficRecord list" where
  "period_bucket y m filtered_df =
     (case m of
        Some m' \<Rightarrow> filter (\<lambda>r. Year r = y \<and> Month r = m') filtered_df
      | None \<Rightarrow> filter (\<lambda>r. Year r = y) filtered_df)"

text \<open>
  The total of a metric column over the records of one route: the value of the route in
  the grouped table of these records.
\<close>

definition route_total :: "colname \<Rightarrow> TrafficRecord list \<Rightarrow> string \<Rightarrow> rat" where
  "route_total col period_data k =
     sum_list (map (col_value col) (filter (\<lambda>r. Route r = k) period_data))"

text \<open>The records of the period of an output row, among the filtered records.\<close>

definition row_bucket :: "TrafficRecord list \<Rightarrow> result_row \<Rightarrow> TrafficRecord list" where
  "row_bucket filtered_df row = period_bucket (row_year row) (row_month row) filtered_df"




definition freight_table :: "TrafficRecord list" where
  "freight_table =
     [mk_record 1985 1 ''Sydney'' ''London'' ''UK'' 100 80 (3 / 4) (245 / 2),
      mk_record 1985 1 ''Melbourne'' ''Tokyo'' ''Japan'' (81 / 2) 40 (1 / 2) 2]"

definition uk_growth_row :: growth_row where
  "uk_growth_row =
     \<lparr>g_Year = 1990, g_Country = ''UK'', g_Passengers_Total = 360,
      prev_year_passengers = Some 200, growth_rate = Fin 80\<rparr>"

text \<open>The rows of a frame of growth rates, and none for another frame.\<close>

fun growth_rows :: "geo_frame \<Rightarrow> growth_row list" where
  "growth_rows (RegionalGrowth rs) = rs"
| "growth_rows _ = []"

text \<open>The ports of the example table with their totals and route counts.\<close>

definition example_hubs :: "hub_row list" where
  "example_hubs = hub_agg example_table"

text \<open>
  The last value of every country among the rows \<open>xs\<close>, over \<open>seen\<close>: what \<open>shift_growth\<close>
  has in hand after it has passed \<open>xs\<close>.
\<close>

definition seen_after ::
  "(string \<rightharpoonup> rat) \<Rightarrow> (int \<times> string \<times> rat) list \<Rightarrow> (string \<rightharpoonup> rat)" where
  "seen_after seen xs = fold (\<lambda>(y, c, p) s. s(c \<mapsto> p)) xs seen"

text \<open>
  A country with no passengers in 1985 and in 1990, and a table of three countries over
  the years 1985, 1987 and 1990.
\<close>

definition fiji_85 :: TrafficRecord where
  "fiji_85 = mk_record 1985 3 ''Sydney'' ''Nadi'' ''Fiji'' 0 0 4 2"

definition fiji_90 :: TrafficRecord where
  "fiji_90 = mk_record 1990 3 ''Sydney'' ''Nadi'' ''Fiji'' 0 0 5 1"

definition zero_table :: "TrafficRecord list" where
  "zero_table = [fiji_85, fiji_90]"

definition japan_87 :: TrafficRecord where
  "japan_87 = mk_record 1987 1 ''Sydney'' ''Tokyo'' ''Japan'' 40 40 0 0"

definition japan_90 :: TrafficRecord where
  "japan_90 = mk_record 1990 1 ''Sydney'' ''Tokyo'' ''Japan'' 50 50 0 0"

definition growth_table :: "TrafficRecord list" where
  "growth_table =
     [mk_record 1985 1 ''Sydney'' ''London'' ''UK'' 100 100 0 0,
      japan_87,
      mk_record 1990 1 ''Sydney'' ''London'' ''UK'' 150 150 0 0,
      mk_record 1990 2 ''Perth'' ''London'' ''UK'' 30 30 0 0,
      japan_90,
      mk_record 1990 5 ''Sydney'' ''Auckland'' ''New Zealand'' 70 70 0 0]"

definition japan_growth_row :: growth_row where
  "japan_growth_row =
     \<lparr>g_Year = 1990, g_Country = ''Japan'', g_Passengers_Total = 100,
      prev_year_passengers = Some 80, growth_rate = Fin 25\<rparr>"

text \<open>A port with 50 in every metric column, and the columns of the passengers.\<close>

definition balanced_port :: "string \<times> (colname \<Rightarrow> rat)" where
  "balanced_port = (''Sydney'', \<lambda>c. 50)"

definition passengers_cols :: cargo_cols where
  "passengers_cols =
     \<lparr>col_in = C_Passengers_In, col_out = C_Passengers_Out, col_total = C_Passengers_Total\<rparr>"

text \<open>The value of a field of an output row, \<open>None\<close> when the row has no such field.\<close>

definition get_field :: "string \<Rightarrow> result_row \<Rightarrow> string option" where
  "get_field name row = row_fields row name"

section \<open>Verified properties\<close>

subsection \<open>The period filter\<close>

lemma in_period_same_year:
  fixes M :: int
  assumes "startMonth \<le> endMonth"
  shows "spec_period_includes Y M Y startMonth Y endMonth"
  using assms unfolding spec_period_includes_def by linarith

text \<open>
  C1. Both period filters, \<open>filter_data_by_period\<close> and the copy inside
  \<open>analyze_traffic_routes\<close>, keep exactly the records whose year \<open>Y\<close> and month \<open>M\<close>
  satisfy \<open>(Y = startYear and M \<ge> startMonth) or (startYear < Y < endYear) or
  (Y = endYear and M \<le> endMonth)\<close>, in their order. When the start and the end year
  are the same and the start month is not after the end month, every record of that
  year is kept, whatever its month.
\<close>

theorem period_filter_predicate:
  "filter_data_by_period data sy sm ey em =
     filter (\<lambda>r. spec_period_includes (Year r) (Month r) sy sm ey em) data
   \<and> traffic_routes_filtered_df data sy sm ey em =
     filter (\<lambda>r. spec_period_includes (Year r) (Month r) sy sm ey em) data
   \<and> (r \<in> set (filter_data_by_period data sy sm ey em) \<longleftrightarrow>
        r \<in> set data \<and> spec_period_includes (Year r) (Month r) sy sm ey em)
   \<and> (r \<in> set (traffic_routes_filtered_df data sy sm ey em) \<longleftrightarrow>
        r \<in> set data \<and> spec_period_includes (Year r) (Month r) sy sm ey em)
   \<and> (sy = ey \<and> sm \<le> em \<and> r \<in> set data \<and> Year r = sy \<longrightarrow>
        r \<in> set (filter_data_by_period data sy sm ey em) \<and>
        r \<in> set (traffic_routes_filtered_df data sy sm ey em))"
proof -
  have eq1: "filter_data_by_period data sy sm ey em =
      filter (\<lambda>r. spec_period_includes (Year r) (Month r) sy sm ey em) data"
    unfolding filter_data_by_period_def spec_period_includes_def
    by (rule filter_cong) auto
  have eq2: "traffic_routes_filtered_df data sy sm ey em =
      filter (\<lambda>r. spec_period_includes (Year r) (Month r) sy sm ey em) data"
    unfolding traffic_routes_filtered_df_def spec_period_includes_def
    by (rule filter_cong) auto
  have whole: "sy = ey \<and> sm \<le> em \<and> Year r = sy \<longrightarrow>
      spec_period_includes (Year r) (Month r) sy sm ey em"
    using in_period_same_year [where Y = sy and M = "Month r"] by auto
  have mem1: "r \<in> set (filter_data_by_period data sy sm ey em) \<longleftrightarrow>
      r \<in> set data \<and> spec_period_includes (Year r) (Month r) sy sm ey em"
    by (simp add: eq1)
  have mem2: "r \<in> set (traffic_routes_filtered_df data sy sm ey em) \<longleftrightarrow>
      r \<in> set data \<and> spec_period_includes (Year r) (Month r) sy sm ey em"
    by (simp add: eq2)
  show ?thesis
    using eq1 eq2 mem1 mem2 whole by blast
qed

text \<open>
  The period June to September 1985 over the example table: the record of January and
  the record of December 1985 both pass the two filters.
\<close>

theorem period_filter_predicate_witness:
  "(1985::int) = 1985 \<and> (6::int) \<le> 9 \<and> sydney_tokyo_dec85 \<in> set example_table
   \<and> Year sydney_tokyo_dec85 = 1985
   \<and> sydney_tokyo_dec85 \<in> set (filter_data_by_period example_table 1985 6 1985 9)
   \<and> sydney_tokyo_dec85 \<in> set (traffic_routes_filtered_df example_table 1985 6 1985 9)
   \<and> filter_data_by_period example_table 1985 6 1985 9 = example_table"
proof -
  have mem: "sydney_tokyo_dec85 \<in> set example_table"
    by (simp add: example_table_def)
  have yr: "Year sydney_tokyo_dec85 = 1985"
    by (simp add: sydney_tokyo_dec85_def mk_record_def)
  have all: "filter_data_by_period example_table 1985 6 1985 9 = example_table"
    by (simp add: filter_data_by_period_def example_table_def sydney_london_jan85_def
        melbourne_tokyo_jan85_def sydney_tokyo_dec85_def mk_record_def)
  show ?thesis
    using period_filter_predicate [of example_table 1985 6 1985 9 sydney_tokyo_dec85] mem yr all
    by simp
qed

subsection \<open>Balance ratio and efficiency\<close>

text \<open>
  C2, as the code computes it. The balance ratio of a port is \<open>In / (Out + \<epsilon>)\<close> with
  \<open>\<epsilon> = 1\<close> for the cargo type \<open>passengers\<close> and \<open>0.001\<close> for the others, and the efficiency
  is \<open>1 - |1 - ratio|\<close>, whenever \<open>Out + \<epsilon>\<close> is not zero; the ratio is 1 exactly when
  \<open>In = Out + \<epsilon>\<close>. With 50 passengers in and 50 out the ratio is therefore \<open>50 / 51\<close>
  and so is the efficiency; neither is 1.
\<close>

theorem balance_ratio_formula:
  "(v (col_out m) + (if cargo_type = ''passengers'' then 1 else 1 / 1000) \<noteq> 0 \<longrightarrow>
      balance_ratio (score_port cargo_type m (port, v)) =
        Fin (v (col_in m) / (v (col_out m) + (if cargo_type = ''passengers'' then 1 else 1 / 1000)))
    \<and> efficiency (score_port cargo_type m (port, v)) =
        Fin (1 - \<bar>1 - v (col_in m) / (v (col_out m)
                     + (if cargo_type = ''passengers'' then 1 else 1 / 1000))\<bar>)
    \<and> (balance_ratio (score_port cargo_type m (port, v)) = Fin 1 \<longleftrightarrow>
         v (col_in m) = v (col_out m) + (if cargo_type = ''passengers'' then 1 else 1 / 1000)))
   \<and> (cargo_type = ''passengers'' \<and> v (col_in m) = 50 \<and> v (col_out m) = 50 \<longrightarrow>
      balance_ratio (score_port cargo_type m (port, v)) = Fin (50 / 51)
    \<and> efficiency (score_port cargo_type m (port, v)) = Fin (50 / 51))"
proof -
  let ?eps = "if cargo_type = ''passengers'' then 1 else 1 / 1000 :: rat"
  have ratio: "balance_ratio (score_port cargo_type m (port, v)) =
      fdiv (v (col_in m)) (v (col_out m) + ?eps)"
    by (simp add: score_port_def Let_def)
  have eff: "efficiency (score_port cargo_type m (port, v)) =
      efficiency_of (fdiv (v (col_in m)) (v (col_out m) + ?eps))"
    by (simp add: score_port_def Let_def)
  have general: "v (col_out m) + ?eps \<noteq> 0 \<longrightarrow>
      balance_ratio (score_port cargo_type m (port, v)) =
        Fin (v (col_in m) / (v (col_out m) + ?eps))
    \<and> efficiency (score_port cargo_type m (port, v)) =
        Fin (1 - \<bar>1 - v (col_in m) / (v (col_out m) + ?eps)\<bar>)
    \<and> (balance_ratio (score_port cargo_type m (port, v)) = Fin 1 \<longleftrightarrow>
         v (col_in m) = v (col_out m) + ?eps)"
  proof
    assume nz: "v (col_out m) + ?eps \<noteq> 0"
    then have d: "fdiv (v (col_in m)) (v (col_out m) + ?eps) =
        Fin (v (col_in m) / (v (col_out m) + ?eps))"
      by (simp add: fdiv_def)
    have one: "v (col_in m) / (v (col_out m) + ?eps) = 1 \<longleftrightarrow>
        v (col_in m) = v (col_out m) + ?eps"
      using nz by (auto simp: divide_eq_1_iff)
    show "balance_ratio (score_port cargo_type m (port, v)) =
        Fin (v (col_in m) / (v (col_out m) + ?eps))
    \<and> efficiency (score_port cargo_type m (port, v)) =
        Fin (1 - \<bar>1 - v (col_in m) / (v (col_out m) + ?eps)\<bar>)
    \<and> (balance_ratio (score_port cargo_type m (port, v)) = Fin 1 \<longleftrightarrow>
         v (col_in m) = v (col_out m) + ?eps)"
      unfolding ratio eff d using one by simp
  qed
  have special: "cargo_type = ''passengers'' \<and> v (col_in m) = 50 \<and> v (col_out m) = 50 \<longrightarrow>
      balance_ratio (score_port cargo_type m (port, v)) = Fin (50 / 51)
    \<and> efficiency (score_port cargo_type m (port, v)) = Fin (50 / 51)"
    unfolding ratio eff by (simp add: fdiv_def)
  show ?thesis
    by (intro conjI general special)
qed

theorem balance_ratio_formula_witness:
  "snd balanced_port (col_out passengers_cols) + (if ''passengers'' = ''passengers'' then 1 else 1 / 1000) \<noteq> 0
   \<and> snd balanced_port (col_in passengers_cols) = 50
   \<and> snd balanced_port (col_out passengers_cols) = 50
   \<and> get_cargo_columns ''passengers'' = Some passengers_cols
   \<and> balance_ratio (score_port ''passengers'' passengers_cols balanced_port) = Fin (50 / 51)
   \<and> efficiency (score_port ''passengers'' passengers_cols balanced_port) = Fin (50 / 51)"
  using balance_ratio_formula [of "snd balanced_port" passengers_cols "''passengers''"
      "fst balanced_port"]
  by (simp add: balanced_port_def get_cargo_columns_def passengers_cols_def)

text \<open>
  The claim as the specification words it, ratio and efficiency both exactly 1 for 50 in
  and 50 out, does not hold of the code: the port with 50 in and 50 out has neither, and
  a table of one record with 50 passengers in and 50 out is reported with the average
  efficiency \<open>0.980\<close>.
\<close>

theorem balance_ratio_50_50_counterexample:
  "\<not> (balance_ratio (score_port ''passengers'' passengers_cols balanced_port) = Fin 1
      \<and> efficiency (score_port ''passengers'' passengers_cols balanced_port) = Fin 1)
   \<and> Passengers_In sydney_tokyo_dec85 = 50 \<and> Passengers_Out sydney_tokyo_dec85 = 50
   \<and> map (get_field ''Passengers_Avg_Efficiency'')
        (projr (analyze_port_flow_efficiency [sydney_tokyo_dec85] 1985 1 1985 12
                  [''passengers''] ''Year'' ''Most'' None 0 10)) = [Some ''0.980'']"
proof -
  have a: "\<not> (balance_ratio (score_port ''passengers'' passengers_cols balanced_port) = Fin 1
      \<and> efficiency (score_port ''passengers'' passengers_cols balanced_port) = Fin 1)"
    by (simp add: score_port_def fdiv_def Let_def balanced_port_def passengers_cols_def)
  have b: "Passengers_In sydney_tokyo_dec85 = 50" "Passengers_Out sydney_tokyo_dec85 = 50"
    by (simp_all add: sydney_tokyo_dec85_def mk_record_def)
  have c: "map (get_field ''Passengers_Avg_Efficiency'')
        (projr (analyze_port_flow_efficiency [sydney_tokyo_dec85] 1985 1 1985 12
                  [''passengers''] ''Year'' ''Most'' None 0 10)) = [Some ''0.980'']"
    by code_simp
  show ?thesis by (intro conjI a b c)
qed

subsection \<open>Enumerated parameters\<close>

lemma get_top_entities_level:
  "level \<noteq> ''Least'' \<Longrightarrow> get_top_entities d c level n = get_top_entities d c ''Most'' n"
  by (simp add: get_top_entities_def)

lemma aggregate_by_default:
  "a \<noteq> ''Month'' \<Longrightarrow>
   filter_and_aggregate_by_period df sy sm ey em agg a =
   filter_and_aggregate_by_period df sy sm ey em agg ''Year''"
  by (simp add: filter_and_aggregate_by_period_def)

lemma cargo_step_level:
  "level \<noteq> ''Least'' \<Longrightarrow> cargo_step level thr n t = cargo_step ''Most'' thr n t"
  by (intro ext) (simp add: cargo_step_def get_top_entities_level [of level] split: option.splits)

lemma hub_step_level:
  "level \<noteq> ''Least'' \<Longrightarrow> hub_step level thr w n = hub_step ''Most'' thr w n"
  by (intro ext) (simp add: hub_step_def Let_def get_top_entities_level [of level])

lemma col_mapping_None:
  "col_mapping traffic_type = None \<longleftrightarrow> traffic_type \<notin> {''Passengers'', ''Freight'', ''Mail''}"
  by (simp add: col_mapping_def)

lemma traffic_routes_invalid:
  assumes "traffic_type \<notin> {''Passengers'', ''Freight'', ''Mail''} \<or>
           traffic_level \<notin> {''Most'', ''Least''} \<or> aggregate_by \<notin> {''Month'', ''Year''}"
  shows "\<exists>msg. \<forall>df. analyze_traffic_routes df sy sm ey em traffic_level traffic_type aggregate_by
           = Inl (ValueError msg)"
proof (cases "col_mapping traffic_type")
  case None
  then show ?thesis by (simp add: analyze_traffic_routes_def)
next
  case (Some cols)
  then have "traffic_type \<in> {''Passengers'', ''Freight'', ''Mail''}"
    using col_mapping_None [of traffic_type] by auto
  with assms have "traffic_level \<notin> {''Most'', ''Least''} \<or> aggregate_by \<notin> {''Month'', ''Year''}"
    by blast
  with Some show ?thesis
    by (cases "traffic_level \<in> {''Most'', ''Least''}") (auto simp: analyze_traffic_routes_def)
qed

text \<open>
  C3, as the code handles its enumerated parameters. Only \<open>analyze_traffic_routes\<close>
  validates them: a traffic type, level or granularity outside its closed set makes it
  raise \<open>ValueError\<close>, the same for every table, so before any record is looked at.
  \<open>analyze_geographical_patterns\<close> returns an empty frame for an unknown pattern type,
  and \<open>analyze_port_flow_efficiency\<close> and \<open>analyze_hub_utilization\<close> never raise on
  these parameters: a level other than \<open>Least\<close> is treated as \<open>Most\<close>, a granularity other
  than \<open>Month\<close> as \<open>Year\<close>.
\<close>

theorem enum_parameter_handling:
  "(traffic_type \<notin> {''Passengers'', ''Freight'', ''Mail''} \<or>
    traffic_level \<notin> {''Most'', ''Least''} \<or> aggregate_by \<notin> {''Month'', ''Year''} \<longrightarrow>
      (\<exists>msg. \<forall>df'. analyze_traffic_routes df' sy sm ey em traffic_level traffic_type aggregate_by
                = Inl (ValueError msg)))
   \<and> (pattern_type \<notin> {''country_performance'', ''port_connectivity'', ''regional_growth''} \<longrightarrow>
        analyze_geographical_patterns df sy sm ey em pattern_type top_n = Inr EmptyFrame)
   \<and> (traffic_level \<noteq> ''Least'' \<longrightarrow>
        analyze_port_flow_efficiency df sy sm ey em cargo_types aggregate_by traffic_level ports thr top_n
        = analyze_port_flow_efficiency df sy sm ey em cargo_types aggregate_by ''Most'' ports thr top_n
      \<and> analyze_hub_utilization df sy sm ey em aggregate_by traffic_level ports min_routes w top_n
        = analyze_hub_utilization df sy sm ey em aggregate_by ''Most'' ports min_routes w top_n)
   \<and> (aggregate_by \<noteq> ''Month'' \<longrightarrow>
        analyze_port_flow_efficiency df sy sm ey em cargo_types aggregate_by traffic_level ports thr top_n
        = analyze_port_flow_efficiency df sy sm ey em cargo_types ''Year'' traffic_level ports thr top_n
      \<and> analyze_hub_utilization df sy sm ey em aggregate_by traffic_level ports min_routes w top_n
        = analyze_hub_utilization df sy sm ey em ''Year'' traffic_level ports min_routes w top_n)
   \<and> \<not> isl (analyze_port_flow_efficiency df sy sm ey em cargo_types aggregate_by traffic_level ports thr top_n)
   \<and> \<not> isl (analyze_hub_utilization df sy sm ey em aggregate_by traffic_level ports min_routes w top_n)"
proof -
  have a: "traffic_type \<notin> {''Passengers'', ''Freight'', ''Mail''} \<or>
      traffic_level \<notin> {''Most'', ''Least''} \<or> aggregate_by \<notin> {''Month'', ''Year''} \<longrightarrow>
      (\<exists>msg. \<forall>df'. analyze_traffic_routes df' sy sm ey em traffic_level traffic_type aggregate_by
                = Inl (ValueError msg))"
    using traffic_routes_invalid by blast
  have b: "pattern_type \<notin> {''country_performance'', ''port_connectivity'', ''regional_growth''} \<longrightarrow>
        analyze_geographical_patterns df sy sm ey em pattern_type top_n = Inr EmptyFrame"
    by (simp add: analyze_geographical_patterns_def)
  have c: "traffic_level \<noteq> ''Least'' \<longrightarrow>
        analyze_port_flow_efficiency df sy sm ey em cargo_types aggregate_by traffic_level ports thr top_n
        = analyze_port_flow_efficiency df sy sm ey em cargo_types aggregate_by ''Most'' ports thr top_n"
    by (simp add: analyze_port_flow_efficiency_def cargo_step_level [of traffic_level])
  have d: "traffic_level \<noteq> ''Least'' \<longrightarrow>
        analyze_hub_utilization df sy sm ey em aggregate_by traffic_level ports min_routes w top_n
        = analyze_hub_utilization df sy sm ey em aggregate_by ''Most'' ports min_routes w top_n"
    by (simp add: analyze_hub_utilization_def hub_step_level [of traffic_level])
  have e: "aggregate_by \<noteq> ''Month'' \<longrightarrow>
        analyze_port_flow_efficiency df sy sm ey em cargo_types aggregate_by traffic_level ports thr top_n
        = analyze_port_flow_efficiency df sy sm ey em cargo_types ''Year'' traffic_level ports thr top_n"
    by (simp add: analyze_port_flow_efficiency_def aggregate_by_default [of aggregate_by])
  have f: "aggregate_by \<noteq> ''Month'' \<longrightarrow>
        analyze_hub_utilization df sy sm ey em aggregate_by traffic_level ports min_routes w top_n
        = analyze_hub_utilization df sy sm ey em ''Year'' traffic_level ports min_routes w top_n"
    by (simp add: analyze_hub_utilization_def aggregate_by_default [of aggregate_by])
  have g: "\<not> isl (analyze_port_flow_efficiency df sy sm ey em cargo_types aggregate_by traffic_level ports thr top_n)"
    by (simp add: analyze_port_flow_efficiency_def Let_def)
  have h: "\<not> isl (analyze_hub_utilization df sy sm ey em aggregate_by traffic_level ports min_routes w top_n)"
    by (simp add: analyze_hub_utilization_def Let_def)
  show ?thesis using a b c d e f g h by blast
qed

text \<open>The four parameters set to values outside their sets, on the example table.\<close>

theorem enum_parameter_handling_witness:
  "''Cargo'' \<notin> {''Passengers'', ''Freight'', ''Mail''}
   \<and> ''bogus'' \<notin> {''country_performance'', ''port_connectivity'', ''regional_growth''}
   \<and> ''Best'' \<noteq> ''Least'' \<and> ''Week'' \<noteq> ''Month''
   \<and> (\<exists>msg. \<forall>df'. analyze_traffic_routes df' 1985 1 1985 12 ''Best'' ''Cargo'' ''Week''
                = Inl (ValueError msg))
   \<and> analyze_geographical_patterns example_table 1985 1 1985 12 ''bogus'' 10 = Inr EmptyFrame
   \<and> analyze_port_flow_efficiency example_table 1985 1 1985 12 [''passengers''] ''Week'' ''Best'' None 0 10
     = analyze_port_flow_efficiency example_table 1985 1 1985 12 [''passengers''] ''Year'' ''Most'' None 0 10"
proof -
  have "analyze_port_flow_efficiency example_table 1985 1 1985 12 [''passengers''] ''Week'' ''Best'' None 0 10
     = analyze_port_flow_efficiency example_table 1985 1 1985 12 [''passengers''] ''Week'' ''Most'' None 0 10"
    using enum_parameter_handling [of "''Cargo''" "''Best''" "''Week''" 1985 1 1985 12
      "''bogus''" example_table 10 "[''passengers'']" None 0 0 None]
    by simp
  moreover have "analyze_port_flow_efficiency example_table 1985 1 1985 12 [''passengers''] ''Week'' ''Most'' None 0 10
     = analyze_port_flow_efficiency example_table 1985 1 1985 12 [''passengers''] ''Year'' ''Most'' None 0 10"
    using enum_parameter_handling [of "''Cargo''" "''Most''" "''Week''" 1985 1 1985 12
      "''bogus''" example_table 10 "[''passengers'']" None 0 0 None]
    by simp
  ultimately show ?thesis
    using enum_parameter_handling [of "''Cargo''" "''Best''" "''Week''" 1985 1 1985 12
      "''bogus''" example_table 10 "[''passengers'']" None 0 0 None]
    by simp
qed

text \<open>
  The claim as the specification words it, that every entry point fails on such a value,
  does not hold: on the example table an unknown pattern type gives the empty frame, and
  an unknown level and granularity give the ranking of the year 1985.
\<close>

theorem enum_validation_counterexample:
  "analyze_geographical_patterns example_table 1985 1 1985 12 ''bogus'' 10 = Inr EmptyFrame
   \<and> \<not> isl (analyze_port_flow_efficiency example_table 1985 1 1985 12 [''passengers'']
               ''Week'' ''Best'' None 0 10)
   \<and> map (get_field ''Passengers_Ports'')
        (projr (analyze_port_flow_efficiency example_table 1985 1 1985 12 [''passengers'']
                  ''Week'' ''Best'' None 0 10)) = [Some ''Melbourne, Sydney'']
   \<and> map (get_field ''Hub_Ports'')
        (projr (analyze_hub_utilization example_table 1985 1 1985 12 ''Week'' ''Best''
                  None 1 None 10)) = [Some ''Sydney, Melbourne'']"
proof -
  have a: "analyze_geographical_patterns example_table 1985 1 1985 12 ''bogus'' 10 = Inr EmptyFrame"
    by (simp add: analyze_geographical_patterns_def)
  have b: "\<not> isl (analyze_port_flow_efficiency example_table 1985 1 1985 12 [''passengers'']
               ''Week'' ''Best'' None 0 10)"
    by (simp add: analyze_port_flow_efficiency_def Let_def)
  have c: "map (get_field ''Passengers_Ports'')
        (projr (analyze_port_flow_efficiency example_table 1985 1 1985 12 [''passengers'']
                  ''Week'' ''Best'' None 0 10)) = [Some ''Melbourne, Sydney'']"
    by code_simp
  have d: "map (get_field ''Hub_Ports'')
        (projr (analyze_hub_utilization example_table 1985 1 1985 12 ''Week'' ''Best''
                  None 1 None 10)) = [Some ''Sydney, Melbourne'']"
    by code_simp
  show ?thesis using a b c d by blast
qed

subsection \<open>Grouped tables and extremes\<close>

lemma series_max_Max: "vs \<noteq> [] \<Longrightarrow> series_max vs = Some (Max (set vs))"
proof (cases vs)
  case Nil
  assume "vs \<noteq> []"
  with Nil show ?thesis by simp
next
  case (Cons a list)
  have "fold max list a = Max (set (a # list))"
    by (rule Max.set_eq_fold [symmetric])
  with Cons show ?thesis by simp
qed

lemma series_min_Min: "vs \<noteq> [] \<Longrightarrow> series_min vs = Some (Min (set vs))"
proof (cases vs)
  case Nil
  assume "vs \<noteq> []"
  with Nil show ?thesis by simp
next
  case (Cons a list)
  have "fold min list a = Min (set (a # list))"
    by (rule Min.set_eq_fold [symmetric])
  with Cons show ?thesis by simp
qed

lemma groupby_sum_keys:
  "map fst (rows (groupby_sum key cols data)) = sort (remdups (map key data))"
  by (simp add: groupby_sum_def comp_def)

lemma groupby_sum_columns: "columns (groupby_sum key cols data) = cols"
  by (simp add: groupby_sum_def)

lemma groupby_sum_values:
  "map (\<lambda>(k, v). v col) (rows (groupby_sum key cols data)) =
   map (\<lambda>k. sum_list (map (col_value col) (filter (\<lambda>r. key r = k) data)))
       (sort (remdups (map key data)))"
  by (simp add: groupby_sum_def comp_def)

lemma groupby_sum_nonempty:
  "data \<noteq> [] \<Longrightarrow> cols \<noteq> [] \<Longrightarrow> \<not> frame_empty (groupby_sum key cols data)"
proof -
  assume d: "data \<noteq> []" and c: "cols \<noteq> []"
  have "set (sort (remdups (map key data))) = key ` set data" by simp
  with d have "sort (remdups (map key data)) \<noteq> []"
    by (metis empty_is_image set_empty)
  with c show ?thesis by (simp add: frame_empty_def groupby_sum_def)
qed

lemma keys_filter_pairs:
  "map fst (filter (\<lambda>(k, v). P k v) (map (\<lambda>k. (k, g k)) ks)) = filter (\<lambda>k. P k (g k)) ks"
  by (induction ks) auto

lemma groupby_sum_tied:
  "tied_routes (groupby_sum key cols data) col ev =
   filter (\<lambda>k. sum_list (map (col_value col) (filter (\<lambda>r. key r = k) data)) = ev)
          (sort (remdups (map key data)))"
  unfolding tied_routes_def groupby_sum_def
  using keys_filter_pairs [of "\<lambda>k v. v col = ev"
      "\<lambda>k c. sum_list (map (col_value c) (filter (\<lambda>r. key r = k) data))"
      "sort (remdups (map key data))"]
  by simp

lemma direction_fields_nonempty:
  assumes "\<not> frame_empty t" and "col \<in> set (columns t)"
  shows "\<exists>ev. extreme_value level t col = Some ev \<and>
           direction_fields level unit t col =
             Inr (str_join '', '' (tied_routes t col ev), formatted_value unit ev)"
proof -
  from assms(1) have ne: "map (\<lambda>(k, v). v col) (rows t) \<noteq> []"
    by (simp add: frame_empty_def)
  have "\<exists>ev. extreme_value level t col = Some ev"
    unfolding extreme_value_def
    using series_max_Max [OF ne] series_min_Min [OF ne] by simp
  then obtain ev where "extreme_value level t col = Some ev" ..
  with assms show ?thesis by (simp add: direction_fields_def)
qed

lemma extreme_attained:
  fixes total :: "string \<Rightarrow> rat" and most :: bool
  assumes "keys \<noteq> []"
  defines "ev \<equiv> (if most then Max (total ` set keys) else Min (total ` set keys))"
  shows "(if most then series_max (map total keys) else series_min (map total keys)) = Some ev"
    and "filter (\<lambda>k. total k = ev) keys \<noteq> []"
proof -
  have ne: "map total keys \<noteq> []" using assms(1) by simp
  show "(if most then series_max (map total keys) else series_min (map total keys)) = Some ev"
    using series_max_Max [OF ne] series_min_Min [OF ne] by (simp add: ev_def)
  have fin: "finite (total ` set keys)" by simp
  have ne': "total ` set keys \<noteq> {}" using assms(1) by simp
  have "ev \<in> total ` set keys"
    using Max_in [OF fin ne'] Min_in [OF fin ne'] by (simp add: ev_def)
  then obtain k where "k \<in> set keys" "total k = ev" by auto
  then have "k \<in> set (filter (\<lambda>k. total k = ev) keys)" by simp
  then show "filter (\<lambda>k. total k = ev) keys \<noteq> []" by (metis empty_iff empty_set)
qed

lemma sorted_keys_filter:
  fixes keys :: "string list"
  shows "sorted_wrt (<) (filter P (sort (remdups keys)))"
proof -
  have "sorted (sort (remdups keys))" "distinct (sort (remdups keys))" by simp_all
  then have "sorted_wrt (<) (sort (remdups keys))" by (simp add: strict_sorted_iff)
  then show ?thesis by (rule sorted_wrt_filter)
qed

text \<open>
  For the grouped table of a non-empty list of records and any of its metric columns, the
  extreme is the maximum of the group totals when the level is \<open>Most\<close> and the minimum
  otherwise; the tied keys are exactly the group keys whose total equals the extreme,
  there is at least one, and they are in strictly ascending order.
\<close>

lemma grouped_extreme_ties:
  assumes "period_data \<noteq> []" and "col \<in> set cols"
  shows "\<exists>ev. extreme_value level (groupby_sum Route cols period_data) col = Some ev
     \<and> ev = (if level = ''Most''
             then Max ((\<lambda>k. sum_list (map (col_value col) (filter (\<lambda>r. Route r = k) period_data)))
                        ` Route ` set period_data)
             else Min ((\<lambda>k. sum_list (map (col_value col) (filter (\<lambda>r. Route r = k) period_data)))
                        ` Route ` set period_data))
     \<and> set (tied_routes (groupby_sum Route cols period_data) col ev) =
         {k \<in> Route ` set period_data.
            sum_list (map (col_value col) (filter (\<lambda>r. Route r = k) period_data)) = ev}
     \<and> tied_routes (groupby_sum Route cols period_data) col ev \<noteq> []
     \<and> sorted_wrt (<) (tied_routes (groupby_sum Route cols period_data) col ev)
     \<and> direction_fields level unit (groupby_sum Route cols period_data) col =
         Inr (str_join '', '' (tied_routes (groupby_sum Route cols period_data) col ev),
              formatted_value unit ev)"
proof -
  let ?t = "groupby_sum Route cols period_data"
  let ?total = "\<lambda>k. sum_list (map (col_value col) (filter (\<lambda>r. Route r = k) period_data))"
  let ?keys = "sort (remdups (map Route period_data))"
  let ?ev = "if level = ''Most'' then Max (?total ` Route ` set period_data)
             else Min (?total ` Route ` set period_data)"
  have keys_set: "set ?keys = Route ` set period_data" by simp
  have keys_ne: "?keys \<noteq> []"
  proof
    assume "?keys = []"
    then have "set ?keys = {}" by (simp only: set_empty)
    with keys_set assms(1) show False by simp
  qed
  have vals: "map (\<lambda>(k, v). v col) (rows ?t) = map ?total ?keys"
    by (rule groupby_sum_values)
  have tied: "tied_routes ?t col ?ev = filter (\<lambda>k. ?total k = ?ev) ?keys"
    by (rule groupby_sum_tied)
  have ex: "extreme_value level ?t col = Some ?ev"
    unfolding extreme_value_def vals
    using extreme_attained(1) [OF keys_ne, of "level = ''Most''" ?total]
    by (simp only: keys_set)
  have tied_ne: "tied_routes ?t col ?ev \<noteq> []"
    unfolding tied
    by (rule extreme_attained(2) [OF keys_ne, of ?total "level = ''Most''", unfolded keys_set])
  have tied_set: "set (tied_routes ?t col ?ev) =
      {k \<in> Route ` set period_data. ?total k = ?ev}"
    unfolding tied set_filter keys_set by (rule refl)
  have tied_sorted: "sorted_wrt (<) (tied_routes ?t col ?ev)"
    unfolding tied by (rule sorted_keys_filter)
  have nonempty: "\<not> frame_empty ?t"
    using assms by (intro groupby_sum_nonempty) auto
  have cols: "col \<in> set (columns ?t)" using assms(2) by (simp add: groupby_sum_columns)
  from direction_fields_nonempty [OF nonempty cols, of level unit] ex
  have fields: "direction_fields level unit ?t col =
      Inr (str_join '', '' (tied_routes ?t col ?ev), formatted_value unit ?ev)"
    by simp
  show ?thesis
    by (intro exI [of _ ?ev] conjI ex refl tied_set tied_ne tied_sorted fields)
qed

subsection \<open>Formatting numbers\<close>

lemma digit_char_digit: "d < 10 \<Longrightarrow> digit_char d \<in> set ''0123456789''"
  unfolding digit_char_def by (rule nth_mem) simp

lemma digit_val_digit_char: "d < 10 \<Longrightarrow> digit_val (digit_char d) = d"
proof -
  assume "d < 10"
  then have "d \<in> set [0..<10]" by simp
  moreover have "[0..<10] = [0, 1, 2, 3, 4, 5, 6, 7, 8, 9::nat]" by code_simp
  ultimately have "d \<in> set [0, 1, 2, 3, 4, 5, 6, 7, 8, 9::nat]" by simp
  then show ?thesis
    by (auto simp: digit_val_def digit_char_def)
qed

lemma str_nat_small: "n < 10 \<Longrightarrow> str_nat n = [digit_char n]"
  by (simp add: str_nat.simps)

lemma str_nat_digits: "set (str_nat n) \<subseteq> set ''0123456789''"
proof (induction n rule: str_nat.induct)
  case (1 n)
  show ?case
  proof (cases "n < 10")
    case True
    then show ?thesis using digit_char_digit [of n] by (simp add: str_nat_small)
  next
    case False
    have "n mod 10 < 10" by simp
    then have d: "digit_char (n mod 10) \<in> set ''0123456789''" by (rule digit_char_digit)
    have "str_nat n = str_nat (n div 10) @ [digit_char (n mod 10)]"
      using False by (subst str_nat.simps) simp
    with 1 [OF False] d show ?thesis by auto
  qed
qed

lemma str_nat_nonempty: "str_nat n \<noteq> []"
  by (subst str_nat.simps) simp

lemma nat_of_str_append:
  "nat_of_str (s @ [c]) = 10 * nat_of_str s + digit_val c"
  by (simp add: nat_of_str_def)

lemma nat_of_str_str_nat: "nat_of_str (str_nat n) = n"
proof (induction n rule: str_nat.induct)
  case (1 n)
  show ?case
  proof (cases "n < 10")
    case True
    then show ?thesis
      using digit_val_digit_char [of n] by (simp add: str_nat_small nat_of_str_def)
  next
    case False
    have "str_nat n = str_nat (n div 10) @ [digit_char (n mod 10)]"
      using False by (subst str_nat.simps) simp
    then have "nat_of_str (str_nat n) = 10 * (n div 10) + n mod 10"
      using 1 [OF False] digit_val_digit_char [of "n mod 10"]
      by (simp add: nat_of_str_append)
    then show ?thesis by simp
  qed
qed

lemma str_nat_no_minus: "str_nat n = c # cs \<Longrightarrow> c \<noteq> CHR ''-''"
proof
  assume a: "str_nat n = c # cs" and b: "c = CHR ''-''"
  then have "CHR ''-'' \<in> set (str_nat n)" by simp
  with str_nat_digits [of n] show False by auto
qed

lemma int_of_str_str_int: "int_of_str (str_int i) = i"
proof (cases "i < 0")
  case True
  then show ?thesis
    by (simp add: str_int_def int_of_str_def nat_of_str_str_nat)
next
  case False
  obtain c cs where cs: "str_nat (nat i) = c # cs"
    using str_nat_nonempty [of "nat i"] by (cases "str_nat (nat i)") auto
  then have "c \<noteq> CHR ''-''" by (rule str_nat_no_minus)
  with False cs show ?thesis
    using nat_of_str_str_nat [of "nat i"] by (simp add: str_int_def int_of_str_def)
qed

lemma int_of_number_truncates:
  "\<bar>of_int (int_of_number x)\<bar> \<le> \<bar>x\<bar> \<and> \<bar>x - of_int (int_of_number x)\<bar> < 1
   \<and> (0 \<le> x \<longrightarrow> 0 \<le> int_of_number x) \<and> (x \<le> 0 \<longrightarrow> int_of_number x \<le> 0)"
  unfolding int_of_number_def by (cases "0 \<le> x") (simp_all, linarith+)

lemma round_half_even_near:
  assumes "0 \<le> x"
  shows "\<bar>x - of_nat (round_half_even x)\<bar> \<le> 1 / 2"
proof -
  have f0: "0 \<le> \<lfloor>x\<rfloor>" using assms by simp
  have lo: "of_int \<lfloor>x\<rfloor> \<le> x" and hi: "x < of_int \<lfloor>x\<rfloor> + 1" by linarith+
  show ?thesis
    unfolding round_half_even_def Let_def
    using f0 lo hi by (auto simp: of_nat_nat) 
qed

lemma fmt_fixed_one:
  "fmt_fixed 1 x =
     (if x < 0 then ''-'' else []) @ str_nat (round_half_even (\<bar>x\<bar> * 10) div 10) @ ''.'' @
     [digit_char (round_half_even (\<bar>x\<bar> * 10) mod 10)]"
proof -
  have "str_nat (round_half_even (\<bar>x\<bar> * 10) mod 10)
      = [digit_char (round_half_even (\<bar>x\<bar> * 10) mod 10)]"
    by (rule str_nat_small) simp
  then show ?thesis by (simp add: fmt_fixed_def Let_def)
qed

lemma col_mapping_suffix:
  "col_mapping traffic_type = Some (in_col, out_col, total_col, unit_suffix) \<Longrightarrow>
   (traffic_type = ''Passengers'' \<longrightarrow> unit_suffix = []) \<and>
   (traffic_type \<noteq> ''Passengers'' \<longrightarrow> unit_suffix = ''t'')"
  by (auto simp: col_mapping_def split: if_splits)

text \<open>
  The traffic type \<open>Passengers\<close> has the empty unit suffix, \<open>Freight\<close> and \<open>Mail\<close> have
  \<open>t\<close>. With the empty suffix the formatted value is the decimal numeral of the value
  with its fractional part cut off (towards zero). With a suffix it is an optional minus
  sign, the digits of the integer part, a point, exactly one digit, and then the suffix
  with nothing in between, where the digits are those of the value rounded to one decimal
  place.
\<close>

lemma formatted_value_shape:
  "(col_mapping traffic_type = Some (in_col, out_col, total_col, unit_suffix) \<longrightarrow>
      (traffic_type = ''Passengers'' \<longrightarrow> unit_suffix = []) \<and>
      (traffic_type \<noteq> ''Passengers'' \<longrightarrow> unit_suffix = ''t''))
   \<and> formatted_value [] x = str_int (int_of_number x)
   \<and> int_of_str (formatted_value [] x) = int_of_number x
   \<and> \<bar>of_int (int_of_number x)\<bar> \<le> \<bar>x\<bar> \<and> \<bar>x - of_int (int_of_number x)\<bar> < 1
   \<and> (suffix \<noteq> [] \<longrightarrow>
        (\<exists>q. formatted_value suffix x =
               (if x < 0 then ''-'' else []) @ str_nat (q div 10) @ ''.'' @
               [digit_char (q mod 10)] @ suffix
           \<and> \<bar>\<bar>x\<bar> * 10 - of_nat q\<bar> \<le> 1 / 2
           \<and> nat_of_str (str_nat (q div 10)) = q div 10
           \<and> digit_val (digit_char (q mod 10)) = q mod 10
           \<and> set (str_nat (q div 10)) \<subseteq> set ''0123456789''
           \<and> digit_char (q mod 10) \<in> set ''0123456789''))"
proof -
  have a: "col_mapping traffic_type = Some (in_col, out_col, total_col, unit_suffix) \<longrightarrow>
      (traffic_type = ''Passengers'' \<longrightarrow> unit_suffix = []) \<and>
      (traffic_type \<noteq> ''Passengers'' \<longrightarrow> unit_suffix = ''t'')"
    using col_mapping_suffix by blast
  have b: "formatted_value [] x = str_int (int_of_number x)"
    by (simp add: formatted_value_def)
  have c: "int_of_str (formatted_value [] x) = int_of_number x"
    by (simp add: b int_of_str_str_int)
  have d: "\<bar>of_int (int_of_number x)\<bar> \<le> \<bar>x\<bar>" and e: "\<bar>x - of_int (int_of_number x)\<bar> < 1"
    using int_of_number_truncates [of x] by blast+
  have f: "suffix \<noteq> [] \<longrightarrow>
        (\<exists>q. formatted_value suffix x =
               (if x < 0 then ''-'' else []) @ str_nat (q div 10) @ ''.'' @
               [digit_char (q mod 10)] @ suffix
           \<and> \<bar>\<bar>x\<bar> * 10 - of_nat q\<bar> \<le> 1 / 2
           \<and> nat_of_str (str_nat (q div 10)) = q div 10
           \<and> digit_val (digit_char (q mod 10)) = q mod 10
           \<and> set (str_nat (q div 10)) \<subseteq> set ''0123456789''
           \<and> digit_char (q mod 10) \<in> set ''0123456789'')"
  proof
    assume ne: "suffix \<noteq> []"
    let ?q = "round_half_even (\<bar>x\<bar> * 10)"
    have 1: "formatted_value suffix x =
               (if x < 0 then ''-'' else []) @ str_nat (?q div 10) @ ''.'' @
               [digit_char (?q mod 10)] @ suffix"
      using ne by (simp add: formatted_value_def fmt_fixed_one del: One_nat_def)
    have 2: "\<bar>\<bar>x\<bar> * 10 - of_nat ?q\<bar> \<le> 1 / 2"
      by (rule round_half_even_near) simp
    have 3: "nat_of_str (str_nat (?q div 10)) = ?q div 10"
      by (rule nat_of_str_str_nat)
    have lt: "?q mod 10 < 10" by simp
    have 4: "digit_val (digit_char (?q mod 10)) = ?q mod 10"
      using lt by (rule digit_val_digit_char)
    have 5: "set (str_nat (?q div 10)) \<subseteq> set ''0123456789''"
      by (rule str_nat_digits)
    have 6: "digit_char (?q mod 10) \<in> set ''0123456789''"
      using lt by (rule digit_char_digit)
    show "\<exists>q. formatted_value suffix x =
               (if x < 0 then ''-'' else []) @ str_nat (q div 10) @ ''.'' @
               [digit_char (q mod 10)] @ suffix
           \<and> \<bar>\<bar>x\<bar> * 10 - of_nat q\<bar> \<le> 1 / 2
           \<and> nat_of_str (str_nat (q div 10)) = q div 10
           \<and> digit_val (digit_char (q mod 10)) = q mod 10
           \<and> set (str_nat (q div 10)) \<subseteq> set ''0123456789''
           \<and> digit_char (q mod 10) \<in> set ''0123456789''"
      by (intro exI [of _ ?q] conjI 1 2 3 4 5 6)
  qed
  show ?thesis
    by (intro conjI a b c d e f)
qed

subsection \<open>The rows of analyze_traffic_routes\<close>

lemma direction_fields_total: "\<exists>p. direction_fields level unit t col = Inr p"
proof (cases "\<not> frame_empty t \<and> col \<in> set (columns t)")
  case True
  then show ?thesis
    using direction_fields_nonempty [of t col level unit] by blast
next
  case False
  then have "direction_fields level unit t col = Inr (''No data'', ''No data'')"
    unfolding direction_fields_def by (rule if_not_P)
  then show ?thesis by blast
qed

lemma fill_directions_total:
  "\<exists>row'. fill_directions level unit t ds row = Inr row' \<and>
          row_year row' = row_year row \<and> row_month row' = row_month row"
proof (induction ds arbitrary: row)
  case Nil
  show ?case by simp
next
  case (Cons d ds)
  obtain direction col where d: "d = (direction, col)" by (cases d)
  obtain routes_str value_str where p: "direction_fields level unit t col = Inr (routes_str, value_str)"
    using direction_fields_total [of level unit t col] by (metis surj_pair)
  let ?row = "row\<lparr>row_fields := (row_fields row)
               (direction @ ''_Route'' \<mapsto> routes_str, direction @ ''_Value'' \<mapsto> value_str)\<rparr>"
  from Cons.IH [of ?row] obtain row' where
    "fill_directions level unit t ds ?row = Inr row'"
    "row_year row' = row_year ?row" "row_month row' = row_month ?row" by blast
  then show ?case using d p by simp
qed

lemma period_row_total:
  "\<exists>row'. period_row level cols row period_data = Inr row' \<and>
          row_year row' = row_year row \<and> row_month row' = row_month row"
proof -
  obtain in_col out_col total_col unit where c: "cols = (in_col, out_col, total_col, unit)"
    by (cases cols)
  show ?thesis
    unfolding period_row_def c prod.case by (rule fill_directions_total)
qed

lemma map_err_Inr:
  "map_err f xs = Inr ys \<Longrightarrow> list_all2 (\<lambda>x y. f x = Inr y) xs ys"
proof (induction xs arbitrary: ys)
  case Nil
  then show ?case by simp
next
  case (Cons x xs)
  then show ?case
    by (auto split: sum.splits)
qed

lemma map_err_total:
  "(\<And>x. \<exists>y. f x = Inr y) \<Longrightarrow> \<exists>ys. map_err f xs = Inr ys"
proof (induction xs)
  case Nil
  show ?case by simp
next
  case (Cons x xs)
  from Cons.prems obtain y where "f x = Inr y" by blast
  moreover from Cons.IH [OF Cons.prems] obtain ys where "map_err f xs = Inr ys" by blast
  ultimately show ?case by simp
qed

text \<open>
  With valid parameters the function returns, and every row it returns is the row of
  its own period: the period's key, and the fields computed from the records of that
  period alone.
\<close>

lemma traffic_routes_month_rows:
  assumes "col_mapping traffic_type = Some cols" and "traffic_level \<in> {''Most'', ''Least''}"
  shows "\<exists>rows. analyze_traffic_routes df sy sm ey em traffic_level traffic_type ''Month'' = Inr rows
     \<and> list_all2 (\<lambda>(y, m) row. row_year row = y \<and> row_month row = Some m \<and>
          period_row traffic_level cols \<lparr>row_year = y, row_month = Some m, row_fields = Map.empty\<rparr>
            (period_bucket y (Some m) (traffic_routes_filtered_df df sy sm ey em)) = Inr row)
        (sort (remdups (map (\<lambda>r. (Year r, Month r)) (traffic_routes_filtered_df df sy sm ey em))))
        rows"
proof -
  let ?fd = "traffic_routes_filtered_df df sy sm ey em"
  let ?f = "\<lambda>(year, month). period_row traffic_level cols
              \<lparr>row_year = year, row_month = Some month, row_fields = Map.empty\<rparr>
              (filter (\<lambda>r. Year r = year \<and> Month r = month) ?fd)"
  let ?ps = "sort (remdups (map (\<lambda>r. (Year r, Month r)) ?fd))"
  have eq: "analyze_traffic_routes df sy sm ey em traffic_level traffic_type ''Month'' = map_err ?f ?ps"
    using assms by (auto simp: analyze_traffic_routes_def Let_def)
  have "\<exists>y. ?f x = Inr y" for x
  proof (cases x)
    case (Pair a b)
    from period_row_total [of traffic_level cols
        "\<lparr>row_year = a, row_month = Some b, row_fields = Map.empty\<rparr>"
        "filter (\<lambda>r. Year r = a \<and> Month r = b) ?fd"]
    show ?thesis unfolding Pair prod.case by blast
  qed
  then obtain rows where rows: "map_err ?f ?ps = Inr rows"
    using map_err_total [of ?f ?ps] by blast
  have "list_all2 (\<lambda>x y. ?f x = Inr y) ?ps rows"
    using rows by (rule map_err_Inr)
  then have "list_all2 (\<lambda>(y, m) row. row_year row = y \<and> row_month row = Some m \<and>
          period_row traffic_level cols \<lparr>row_year = y, row_month = Some m, row_fields = Map.empty\<rparr>
            (period_bucket y (Some m) ?fd) = Inr row) ?ps rows"
  proof (rule list_all2_mono)
    fix x row
    assume a: "?f x = Inr row"
    obtain y m where x: "x = (y, m)" by (cases x)
    from a x have p: "period_row traffic_level cols
        \<lparr>row_year = y, row_month = Some m, row_fields = Map.empty\<rparr>
        (filter (\<lambda>r. Year r = y \<and> Month r = m) ?fd) = Inr row" by simp
    from period_row_total [of traffic_level cols
        "\<lparr>row_year = y, row_month = Some m, row_fields = Map.empty\<rparr>"
        "filter (\<lambda>r. Year r = y \<and> Month r = m) ?fd"] p
    have "row_year row = y" "row_month row = Some m" by auto
    with p x show "(case x of (y, m) \<Rightarrow> \<lambda>row. row_year row = y \<and> row_month row = Some m \<and>
          period_row traffic_level cols \<lparr>row_year = y, row_month = Some m, row_fields = Map.empty\<rparr>
            (period_bucket y (Some m) ?fd) = Inr row) row"
      by (simp add: period_bucket_def)
  qed
  with eq rows show ?thesis by auto
qed

lemma traffic_routes_year_rows:
  assumes "col_mapping traffic_type = Some cols" and "traffic_level \<in> {''Most'', ''Least''}"
  shows "\<exists>rows. analyze_traffic_routes df sy sm ey em traffic_level traffic_type ''Year'' = Inr rows
     \<and> list_all2 (\<lambda>y row. row_year row = y \<and> row_month row = None \<and>
          period_row traffic_level cols \<lparr>row_year = y, row_month = None, row_fields = Map.empty\<rparr>
            (period_bucket y None (traffic_routes_filtered_df df sy sm ey em)) = Inr row)
        (sort (remdups (map Year (traffic_routes_filtered_df df sy sm ey em))))
        rows"
proof -
  let ?fd = "traffic_routes_filtered_df df sy sm ey em"
  let ?f = "\<lambda>year. period_row traffic_level cols
              \<lparr>row_year = year, row_month = None, row_fields = Map.empty\<rparr>
              (filter (\<lambda>r. Year r = year) ?fd)"
  let ?ps = "sort (remdups (map Year ?fd))"
  have eq: "analyze_traffic_routes df sy sm ey em traffic_level traffic_type ''Year'' = map_err ?f ?ps"
    using assms by (auto simp: analyze_traffic_routes_def Let_def)
  have "\<And>x. \<exists>y. ?f x = Inr y"
    using period_row_total by blast
  then obtain rows where rows: "map_err ?f ?ps = Inr rows"
    using map_err_total [of ?f ?ps] by blast
  have "list_all2 (\<lambda>x y. ?f x = Inr y) ?ps rows"
    using rows by (rule map_err_Inr)
  then have "list_all2 (\<lambda>y row. row_year row = y \<and> row_month row = None \<and>
          period_row traffic_level cols \<lparr>row_year = y, row_month = None, row_fields = Map.empty\<rparr>
            (period_bucket y None ?fd) = Inr row) ?ps rows"
  proof (rule list_all2_mono)
    fix y row
    assume p: "?f y = Inr row"
    from period_row_total [of traffic_level cols
        "\<lparr>row_year = y, row_month = None, row_fields = Map.empty\<rparr>"
        "filter (\<lambda>r. Year r = y) ?fd"] p
    have "row_year row = y" "row_month row = None" by auto
    with p show "row_year row = y \<and> row_month row = None \<and>
          period_row traffic_level cols \<lparr>row_year = y, row_month = None, row_fields = Map.empty\<rparr>
            (period_bucket y None ?fd) = Inr row"
      by (simp add: period_bucket_def)
  qed
  with eq rows show ?thesis by auto
qed

subsection \<open>Monthly rows\<close>

lemma month_keys_of_rows:
  "list_all2 (\<lambda>(y, m) row. row_year row = y \<and> row_month row = Some m \<and> Q y m row) ps out \<Longrightarrow>
   map (\<lambda>row. (row_year row, the (row_month row))) out = ps \<and>
   (\<forall>row \<in> set out. row_month row \<noteq> None)"
  by (induction ps out rule: list_all2_induct) auto

lemma sorted_distinct_keys:
  fixes xs :: "('a::linorder) list"
  shows "sorted_wrt (<) (sort (remdups xs)) \<and> set (sort (remdups xs)) = set xs \<and>
         length (sort (remdups xs)) = card (set xs)"
proof -
  have "sorted (sort (remdups xs))" "distinct (sort (remdups xs))" by simp_all
  then have "sorted_wrt (<) (sort (remdups xs))" by (simp add: strict_sorted_iff)
  moreover have "length (sort (remdups xs)) = card (set xs)"
    by (simp add: length_remdups_card_conv)
  ultimately show ?thesis by simp
qed

lemma aggregate_month_keys:
  "map (\<lambda>(y, m, a). (y, m)) (filter_and_aggregate_by_period df sy sm ey em agg ''Month'') =
   map (\<lambda>(y, m). (y, Some m))
     (sort (remdups (map (\<lambda>r. (Year r, Month r)) (filter_data_by_period df sy sm ey em))))"
  by (simp add: filter_and_aggregate_by_period_def Let_def split_def comp_def)

text \<open>
  C7. Under monthly granularity, with a valid traffic type and level,
  \<open>analyze_traffic_routes\<close> returns one row per distinct pair of year and month among the
  filtered records: as many rows as there are such pairs, their keys strictly ascending,
  and no row for a pair of year and month that no filtered record has. The buckets of
  \<open>filter_and_aggregate_by_period\<close> have the same keys.
\<close>

theorem monthly_rows_observed_periods:
  assumes "col_mapping traffic_type = Some cols" and "traffic_level \<in> {''Most'', ''Least''}"
  shows "\<exists>out. analyze_traffic_routes df sy sm ey em traffic_level traffic_type ''Month'' = Inr out
     \<and> length out =
         card ((\<lambda>r. (Year r, Month r)) ` set (traffic_routes_filtered_df df sy sm ey em))
     \<and> (\<forall>row \<in> set out. row_month row \<noteq> None)
     \<and> sorted_wrt (<) (map (\<lambda>row. (row_year row, the (row_month row))) out)
     \<and> set (map (\<lambda>row. (row_year row, the (row_month row))) out) =
         (\<lambda>r. (Year r, Month r)) ` set (traffic_routes_filtered_df df sy sm ey em)
     \<and> (\<forall>y m. (\<forall>r \<in> set (traffic_routes_filtered_df df sy sm ey em).
                  \<not> (Year r = y \<and> Month r = m)) \<longrightarrow>
              (\<forall>row \<in> set out. \<not> (row_year row = y \<and> row_month row = Some m)))
     \<and> map (\<lambda>(y, m, a). (y, m)) (filter_and_aggregate_by_period df sy sm ey em agg ''Month'') =
         map (\<lambda>(y, m). (y, Some m))
           (sort (remdups (map (\<lambda>r. (Year r, Month r)) (filter_data_by_period df sy sm ey em))))
     \<and> length (filter_and_aggregate_by_period df sy sm ey em agg ''Month'') =
         card ((\<lambda>r. (Year r, Month r)) ` set (filter_data_by_period df sy sm ey em))"
proof -
  let ?fd = "traffic_routes_filtered_df df sy sm ey em"
  let ?ps = "sort (remdups (map (\<lambda>r. (Year r, Month r)) ?fd))"
  let ?key = "\<lambda>row. (row_year row, the (row_month row))"
  from traffic_routes_month_rows [OF assms, of df sy sm ey em]
  obtain out where r: "analyze_traffic_routes df sy sm ey em traffic_level traffic_type ''Month''
      = Inr out"
    and all2: "list_all2 (\<lambda>(y, m) row. row_year row = y \<and> row_month row = Some m \<and>
          period_row traffic_level cols \<lparr>row_year = y, row_month = Some m, row_fields = Map.empty\<rparr>
            (period_bucket y (Some m) ?fd) = Inr row) ?ps out"
    by blast
  from month_keys_of_rows [OF all2]
  have keys: "map ?key out = ?ps" and months: "\<forall>row \<in> set out. row_month row \<noteq> None"
    by blast+
  have ps: "sorted_wrt (<) ?ps" "set ?ps = set (map (\<lambda>r. (Year r, Month r)) ?fd)"
    "length ?ps = card (set (map (\<lambda>r. (Year r, Month r)) ?fd))"
    using sorted_distinct_keys [of "map (\<lambda>r. (Year r, Month r)) ?fd"] by blast+
  have len: "length out = card ((\<lambda>r. (Year r, Month r)) ` set ?fd)"
    using keys ps(3) by (metis length_map list.set_map)
  have srt: "sorted_wrt (<) (map ?key out)" using keys ps(1) by simp
  have st: "set (map ?key out) = (\<lambda>r. (Year r, Month r)) ` set ?fd"
    using keys ps(2) by simp
  have absent: "\<forall>y m. (\<forall>r \<in> set ?fd. \<not> (Year r = y \<and> Month r = m)) \<longrightarrow>
              (\<forall>row \<in> set out. \<not> (row_year row = y \<and> row_month row = Some m))"
  proof (intro allI impI ballI notI)
    fix y m row
    assume none: "\<forall>r \<in> set ?fd. \<not> (Year r = y \<and> Month r = m)"
      and row: "row \<in> set out" and k: "row_year row = y \<and> row_month row = Some m"
    from row have "?key row \<in> set (map ?key out)" by simp
    with st k have "(y, m) \<in> (\<lambda>r. (Year r, Month r)) ` set ?fd" by simp
    with none show False by auto
  qed
  have agg: "map (\<lambda>(y, m, a). (y, m)) (filter_and_aggregate_by_period df sy sm ey em agg ''Month'') =
         map (\<lambda>(y, m). (y, Some m))
           (sort (remdups (map (\<lambda>r. (Year r, Month r)) (filter_data_by_period df sy sm ey em))))"
    by (rule aggregate_month_keys)
  have "length (map (\<lambda>(y, m, a). (y, m))
          (filter_and_aggregate_by_period df sy sm ey em agg ''Month'')) =
        length (sort (remdups (map (\<lambda>r. (Year r, Month r))
          (filter_data_by_period df sy sm ey em))))"
    by (simp only: agg length_map)
  then have agg_len: "length (filter_and_aggregate_by_period df sy sm ey em agg ''Month'') =
         card ((\<lambda>r. (Year r, Month r)) ` set (filter_data_by_period df sy sm ey em))"
    using sorted_distinct_keys [of "map (\<lambda>r. (Year r, Month r))
        (filter_data_by_period df sy sm ey em)"]
    by (simp only: length_map list.set_map)
  show ?thesis
    by (intro exI [of _ out] conjI r len months srt st absent agg agg_len)
qed

text \<open>
  The example table over the year 1985 has records in January and in December only: two
  rows, for (1985, 1) and (1985, 12), and none for the ten months in between.
\<close>

theorem monthly_rows_observed_periods_witness:
  "col_mapping ''Passengers'' = Some (C_Passengers_In, C_Passengers_Out, C_Passengers_Total, [])
   \<and> ''Most'' \<in> {''Most'', ''Least''}
   \<and> (\<exists>out. analyze_traffic_routes example_table 1985 1 1985 12 ''Most'' ''Passengers'' ''Month''
              = Inr out
          \<and> length out = 2
          \<and> sorted_wrt (<) (map (\<lambda>row. (row_year row, the (row_month row))) out)
          \<and> set (map (\<lambda>row. (row_year row, the (row_month row))) out) = {(1985, 1), (1985, 12)}
          \<and> (\<forall>row \<in> set out. \<not> (row_year row = 1985 \<and> row_month row = Some 6)))"
proof -
  have h1: "col_mapping ''Passengers'' =
      Some (C_Passengers_In, C_Passengers_Out, C_Passengers_Total, [])"
    by (simp add: col_mapping_def)
  have h2: "''Most'' \<in> {''Most'', ''Least''}" by simp
  have fd: "traffic_routes_filtered_df example_table 1985 1 1985 12 = example_table"
    by (simp add: traffic_routes_filtered_df_def example_table_def sydney_london_jan85_def
        melbourne_tokyo_jan85_def sydney_tokyo_dec85_def mk_record_def)
  have img: "(\<lambda>r. (Year r, Month r)) ` set example_table = {(1985, 1), (1985, 12)}"
    by (auto simp: example_table_def sydney_london_jan85_def
        melbourne_tokyo_jan85_def sydney_tokyo_dec85_def mk_record_def)
  have crd: "card {(1985::int, 1::int), (1985, 12)} = 2" by simp
  from monthly_rows_observed_periods [OF h1 h2, where df = example_table and sy = 1985
      and sm = 1 and ey = 1985 and em = 12 and agg = hub_agg]
  obtain out where
    r: "analyze_traffic_routes example_table 1985 1 1985 12 ''Most'' ''Passengers'' ''Month''
          = Inr out"
    and len: "length out = card ((\<lambda>r. (Year r, Month r)) `
          set (traffic_routes_filtered_df example_table 1985 1 1985 12))"
    and srt: "sorted_wrt (<) (map (\<lambda>row. (row_year row, the (row_month row))) out)"
    and st: "set (map (\<lambda>row. (row_year row, the (row_month row))) out) =
         (\<lambda>r. (Year r, Month r)) ` set (traffic_routes_filtered_df example_table 1985 1 1985 12)"
    and absent: "\<forall>y m. (\<forall>r \<in> set (traffic_routes_filtered_df example_table 1985 1 1985 12).
                  \<not> (Year r = y \<and> Month r = m)) \<longrightarrow>
              (\<forall>row \<in> set out. \<not> (row_year row = y \<and> row_month row = Some m))"
    by blast
  have len2: "length out = 2" using len by (simp only: fd img crd)
  have st2: "set (map (\<lambda>row. (row_year row, the (row_month row))) out) = {(1985, 1), (1985, 12)}"
    using st by (simp only: fd img)
  have "\<forall>r \<in> set (traffic_routes_filtered_df example_table 1985 1 1985 12).
      \<not> (Year r = 1985 \<and> Month r = 6)"
    unfolding fd
    by (simp add: example_table_def sydney_london_jan85_def
        melbourne_tokyo_jan85_def sydney_tokyo_dec85_def mk_record_def)
  with absent have june: "\<forall>row \<in> set out. \<not> (row_year row = 1985 \<and> row_month row = Some 6)"
    by blast
  show ?thesis
    by (intro conjI h1 h2 exI [of _ out] r len2 srt st2 june)
qed

subsection \<open>The row of a period\<close>

lemma list_all2_partner:
  "list_all2 P xs ys \<Longrightarrow> y \<in> set ys \<Longrightarrow> \<exists>x \<in> set xs. P x y"
  by (induction xs ys rule: list_all2_induct) auto

lemma traffic_routes_row_of_bucket:
  assumes "col_mapping traffic_type = Some cols" and "traffic_level \<in> {''Most'', ''Least''}"
    and "aggregate_by \<in> {''Month'', ''Year''}"
    and "analyze_traffic_routes df sy sm ey em traffic_level traffic_type aggregate_by = Inr out"
    and "row \<in> set out"
  shows "period_row traffic_level cols
           \<lparr>row_year = row_year row, row_month = row_month row, row_fields = Map.empty\<rparr>
           (period_bucket (row_year row) (row_month row)
              (traffic_routes_filtered_df df sy sm ey em)) = Inr row"
proof (cases "aggregate_by = ''Month''")
  case True
  from traffic_routes_month_rows [OF assms(1,2), of df sy sm ey em] assms(4) True
  have "list_all2 (\<lambda>(y, m) row. row_year row = y \<and> row_month row = Some m \<and>
          period_row traffic_level cols \<lparr>row_year = y, row_month = Some m, row_fields = Map.empty\<rparr>
            (period_bucket y (Some m) (traffic_routes_filtered_df df sy sm ey em)) = Inr row)
        (sort (remdups (map (\<lambda>r. (Year r, Month r)) (traffic_routes_filtered_df df sy sm ey em))))
        out"
    by auto
  from list_all2_partner [OF this assms(5)] show ?thesis by auto
next
  case False
  with assms(3) have y: "aggregate_by = ''Year''" by simp
  from traffic_routes_year_rows [OF assms(1,2), of df sy sm ey em] assms(4) y
  have "list_all2 (\<lambda>y row. row_year row = y \<and> row_month row = None \<and>
          period_row traffic_level cols \<lparr>row_year = y, row_month = None, row_fields = Map.empty\<rparr>
            (period_bucket y None (traffic_routes_filtered_df df sy sm ey em)) = Inr row)
        (sort (remdups (map Year (traffic_routes_filtered_df df sy sm ey em))))
        out"
    by auto
  from list_all2_partner [OF this assms(5)] show ?thesis by auto
qed

subsection \<open>Hub utilization\<close>

lemma hub_agg_routes:
  assumes "h \<in> set (hub_agg period_data)"
  shows "1 \<le> Unique_Routes h"
proof -
  from assms obtain r where r: "r \<in> set period_data"
    and h: "Unique_Routes h = length (remdups (map Route
        (filter (\<lambda>x. AustralianPort x = AustralianPort r) period_data)))"
    by (auto simp: hub_agg_def Let_def)
  define routes where "routes = remdups (map Route
      (filter (\<lambda>x. AustralianPort x = AustralianPort r) period_data))"
  from r have "r \<in> set (filter (\<lambda>x. AustralianPort x = AustralianPort r) period_data)"
    by simp
  then have "Route r \<in> set routes"
    by (simp add: routes_def)
  then have "routes \<noteq> []"
    by (metis empty_iff empty_set)
  then have "1 \<le> length routes"
    by (cases routes) simp_all
  with h show ?thesis by (simp only: routes_def)
qed

lemma aggregate_buckets:
  assumes "(y, m, a) \<in> set (filter_and_aggregate_by_period df sy sm ey em agg aggregate_by)"
  shows "\<exists>period_data. a = agg period_data"
  using assms
  by (auto simp: filter_and_aggregate_by_period_def Let_def split: if_splits)

text \<open>
  C9. In every bucket \<open>analyze_hub_utilization\<close> gets from
  \<open>filter_and_aggregate_by_period\<close>, every port has at least one distinct route, so for
  every threshold, zero and negative ones included, every port that passes the threshold
  filter has a utilization score that is a proper quotient: the divisor is not zero.
\<close>

theorem utilization_divisor_nonzero:
  assumes "(y, m, hub_data) \<in>
      set (filter_and_aggregate_by_period df sy sm ey em hub_agg aggregate_by)"
    and "h \<in> set (filter (\<lambda>h. int (Unique_Routes h) \<ge> min_routes_threshold) hub_data)"
  shows "1 \<le> Unique_Routes h
     \<and> (of_nat (Unique_Routes h) :: rat) \<noteq> 0
     \<and> utilizationScore cargo_weights h =
         Fin (totalPassengerEquiv cargo_weights h / of_nat (Unique_Routes h))"
proof -
  from aggregate_buckets [OF assms(1)] obtain period_data where
    "hub_data = hub_agg period_data" by blast
  moreover from assms(2) have "h \<in> set hub_data" by simp
  ultimately have r: "1 \<le> Unique_Routes h" using hub_agg_routes by blast
  then have nz: "(of_nat (Unique_Routes h) :: rat) \<noteq> 0" by simp
  then have "utilizationScore cargo_weights h =
         Fin (totalPassengerEquiv cargo_weights h / of_nat (Unique_Routes h))"
    by (simp add: utilizationScore_def fdiv_def)
  with r nz show ?thesis by blast
qed

text \<open>
  The year 1985 of the example table with the threshold \<open>-5\<close>: the first port,
  Melbourne, has one route and the score 80.
\<close>

theorem utilization_divisor_nonzero_witness:
  "(1985, None, example_hubs) \<in>
      set (filter_and_aggregate_by_period example_table 1985 1 1985 12 hub_agg ''Year'')
   \<and> hd example_hubs \<in> set (filter (\<lambda>h. int (Unique_Routes h) \<ge> - 5) example_hubs)
   \<and> 1 \<le> Unique_Routes (hd example_hubs)
   \<and> (of_nat (Unique_Routes (hd example_hubs)) :: rat) \<noteq> 0
   \<and> utilizationScore get_default_cargo_weights (hd example_hubs) =
       Fin (totalPassengerEquiv get_default_cargo_weights (hd example_hubs)
              / of_nat (Unique_Routes (hd example_hubs)))
   \<and> utilizationScore get_default_cargo_weights (hd example_hubs) = Fin 80"
proof -
  have h1: "(1985, None, example_hubs) \<in>
      set (filter_and_aggregate_by_period example_table 1985 1 1985 12 hub_agg ''Year'')"
    by code_simp
  have h2: "hd example_hubs \<in> set (filter (\<lambda>h. int (Unique_Routes h) \<ge> - 5) example_hubs)"
    by code_simp
  have v: "utilizationScore get_default_cargo_weights (hd example_hubs) = Fin 80"
    by code_simp
  note inst = utilization_divisor_nonzero [OF h1 h2, of get_default_cargo_weights]
  show ?thesis
    by (intro conjI h1 h2 v inst [THEN conjunct1] inst [THEN conjunct2, THEN conjunct1]
        inst [THEN conjunct2, THEN conjunct2])
qed

subsection \<open>Regional growth\<close>

lemma seen_after_Nil: "seen_after seen [] = seen"
  by (simp add: seen_after_def)

lemma seen_after_Cons: "seen_after seen ((y, c, p) # xs) = seen_after (seen(c \<mapsto> p)) xs"
  by (simp add: seen_after_def)

lemma shift_growth_mem:
  "row \<in> set (shift_growth seen ys) \<Longrightarrow>
   \<exists>xs y c p zs. ys = xs @ (y, c, p) # zs \<and>
     row = \<lparr>g_Year = y, g_Country = c, g_Passengers_Total = p,
            prev_year_passengers = seen_after seen xs c,
            growth_rate = growth_of p (seen_after seen xs c)\<rparr>"
proof (induction ys arbitrary: seen)
  case Nil
  then show ?case by simp
next
  case (Cons a ys)
  obtain y0 c0 p0 where a: "a = (y0, c0, p0)" by (cases a)
  from Cons.prems a consider
    (hd) "row = \<lparr>g_Year = y0, g_Country = c0, g_Passengers_Total = p0,
            prev_year_passengers = seen c0, growth_rate = growth_of p0 (seen c0)\<rparr>"
    | (tl) "row \<in> set (shift_growth (seen(c0 \<mapsto> p0)) ys)"
    by auto
  then show ?case
  proof cases
    case hd
    have "a # ys = [] @ (y0, c0, p0) # ys" using a by simp
    moreover have "seen_after seen [] c0 = seen c0" by (simp only: seen_after_Nil)
    ultimately show ?thesis using hd by metis
  next
    case tl
    from Cons.IH [OF tl] obtain xs y c p zs where
      ys: "ys = xs @ (y, c, p) # zs" and
      row: "row = \<lparr>g_Year = y, g_Country = c, g_Passengers_Total = p,
            prev_year_passengers = seen_after (seen(c0 \<mapsto> p0)) xs c,
            growth_rate = growth_of p (seen_after (seen(c0 \<mapsto> p0)) xs c)\<rparr>"
      by blast
    have "a # ys = (a # xs) @ (y, c, p) # zs" using ys by simp
    moreover have "seen_after seen (a # xs) c = seen_after (seen(c0 \<mapsto> p0)) xs c"
      unfolding a by (simp only: seen_after_Cons)
    ultimately show ?thesis using row by metis
  qed
qed

lemma shift_growth_entry:
  "\<lparr>g_Year = y, g_Country = c, g_Passengers_Total = p,
     prev_year_passengers = seen_after seen xs c,
     growth_rate = growth_of p (seen_after seen xs c)\<rparr>
   \<in> set (shift_growth seen (xs @ (y, c, p) # zs))"
proof (induction xs arbitrary: seen)
  case Nil
  show ?case by (simp add: seen_after_Nil)
next
  case (Cons a xs)
  obtain y0 c0 p0 where a: "a = (y0, c0, p0)" by (cases a)
  have s: "seen_after seen (a # xs) = seen_after (seen(c0 \<mapsto> p0)) xs"
    unfolding a by (rule seen_after_Cons)
  have "set (shift_growth (seen(c0 \<mapsto> p0)) (xs @ (y, c, p) # zs))
      \<subseteq> set (shift_growth seen ((a # xs) @ (y, c, p) # zs))"
    unfolding a by auto
  with Cons.IH [of "seen(c0 \<mapsto> p0)"] show ?case
    unfolding s by blast
qed

lemma seen_after_lookup:
  "seen_after seen xs c =
     (case filter (\<lambda>(y', c', p'). c' = c) xs of
        [] \<Rightarrow> seen c
      | z # zs \<Rightarrow> Some (snd (snd (last (z # zs)))))"
proof (induction xs arbitrary: seen)
  case Nil
  show ?case by (simp add: seen_after_Nil)
next
  case (Cons a xs)
  obtain y0 c0 p0 where a: "a = (y0, c0, p0)" by (cases a)
  have s1: "seen_after seen (a # xs) = seen_after (seen(c0 \<mapsto> p0)) xs"
    unfolding a by (rule seen_after_Cons)
  show ?case
    unfolding s1 Cons.IH [of "seen(c0 \<mapsto> p0)"] using a
    by (auto split: list.splits)
qed

lemma yearly_country_split:
  assumes "yearly_country fd = xs @ (y, c, p) # zs"
  shows "p = country_year_total fd y c"
    and "\<exists>r \<in> set fd. Year r = y \<and> Country r = c"
    and "\<forall>(y', c', p') \<in> set xs. (y', c') < (y, c) \<and> p' = country_year_total fd y' c' \<and>
           (\<exists>r \<in> set fd. Year r = y' \<and> Country r = c')"
    and "\<forall>(y', c', p') \<in> set zs. (y, c) < (y', c')"
proof -
  let ?ks = "sort (remdups (map (\<lambda>r. (Year r, Country r)) fd))"
  let ?f = "\<lambda>(y, c). (y, c, country_year_total fd y c)"
  have srt: "sorted_wrt (<) ?ks" and st: "set ?ks = set (map (\<lambda>r. (Year r, Country r)) fd)"
    using sorted_distinct_keys [of "map (\<lambda>r. (Year r, Country r)) fd"] by blast+
  from assms have "map ?f ?ks = xs @ (y, c, p) # zs" by (simp add: yearly_country_def)
  then obtain ks1 k ks2 where ks: "?ks = ks1 @ k # ks2" and x: "map ?f ks1 = xs"
    and k: "?f k = (y, c, p)" and z: "map ?f ks2 = zs"
    by (auto simp: map_eq_append_conv map_eq_Cons_conv)
  from k have kk: "k = (y, c)" and p: "p = country_year_total fd y c"
    by (auto simp: split_def)
  show "p = country_year_total fd y c" by (rule p)
  have "k \<in> set ?ks" using ks by simp
  with st kk show "\<exists>r \<in> set fd. Year r = y \<and> Country r = c" by auto
  from srt ks have before: "\<forall>a \<in> set ks1. a < k" and after: "\<forall>b \<in> set ks2. k < b"
    by (auto simp: sorted_wrt_append)
  show "\<forall>(y', c', p') \<in> set xs. (y', c') < (y, c) \<and> p' = country_year_total fd y' c' \<and>
           (\<exists>r \<in> set fd. Year r = y' \<and> Country r = c')"
  proof (intro ballI, clarify)
    fix y' c' p'
    assume "(y', c', p') \<in> set xs"
    with x obtain a where a: "a \<in> set ks1" "?f a = (y', c', p')" by auto
    then have a': "a = (y', c')" "p' = country_year_total fd y' c'" by (auto simp: split_def)
    from a(1) ks have "a \<in> set ?ks" by simp
    with st a' have "\<exists>r \<in> set fd. Year r = y' \<and> Country r = c'" by auto
    with a a' before kk
    show "(y', c') < (y, c) \<and> p' = country_year_total fd y' c' \<and>
           (\<exists>r \<in> set fd. Year r = y' \<and> Country r = c')" by blast
  qed
  show "\<forall>(y', c', p') \<in> set zs. (y, c) < (y', c')"
  proof (intro ballI, clarify)
    fix y' c' p'
    assume "(y', c', p') \<in> set zs"
    with z obtain b where b: "b \<in> set ks2" "?f b = (y', c', p')" by auto
    then have "b = (y', c')" by (auto simp: split_def)
    with b after kk show "(y, c) < (y', c')" by blast
  qed
qed

lemma shift_growth_years: "map g_Year (shift_growth seen ys) = map fst ys"
  by (induction ys arbitrary: seen) auto

lemma yearly_country_years: "fst ` set (yearly_country fd) = Year ` set fd"
proof -
  have "fst ` set (yearly_country fd) =
      fst ` set (sort (remdups (map (\<lambda>r. (Year r, Country r)) fd)))"
    by (force simp: yearly_country_def split_def)
  also have "\<dots> = Year ` set fd" by force
  finally show ?thesis .
qed

lemma growth_years:
  "g_Year ` set (shift_growth seen (yearly_country fd)) = Year ` set fd"
proof -
  have "g_Year ` set (shift_growth seen (yearly_country fd)) =
      set (map g_Year (shift_growth seen (yearly_country fd)))" by simp
  also have "\<dots> = set (map fst (yearly_country fd))" by (simp only: shift_growth_years)
  also have "\<dots> = Year ` set fd" using yearly_country_years [of fd] by simp
  finally show ?thesis .
qed

lemma latest_growth_mem:
  "row \<in> set (latest_growth gs) \<longleftrightarrow>
     row \<in> set gs \<and> g_Year row = Max (g_Year ` set gs) \<and>
     prev_year_passengers row \<noteq> None \<and> growth_rate row \<noteq> NaN"
proof (cases gs)
  case Nil
  then show ?thesis by (simp add: latest_growth_def)
next
  case (Cons r rs)
  have "fold max (map g_Year rs) (g_Year r) = Max (set (g_Year r # map g_Year rs))"
    by (rule Max.set_eq_fold [symmetric])
  then have "fold max (map g_Year rs) (g_Year r) = Max (g_Year ` set gs)"
    using Cons by simp
  then show ?thesis using Cons by (auto simp: latest_growth_def Let_def)
qed

text \<open>A row with a baseline has a record of its country in an earlier year.\<close>

lemma growth_row_baseline:
  assumes "row \<in> set (shift_growth Map.empty (yearly_country fd))"
    and "prev_year_passengers row \<noteq> None"
  shows "\<exists>r \<in> set fd. Country r = g_Country row \<and> Year r < g_Year row"
proof -
  from shift_growth_mem [OF assms(1)] obtain xs y c p zs where
    yc: "yearly_country fd = xs @ (y, c, p) # zs" and
    row: "row = \<lparr>g_Year = y, g_Country = c, g_Passengers_Total = p,
            prev_year_passengers = seen_after Map.empty xs c,
            growth_rate = growth_of p (seen_after Map.empty xs c)\<rparr>"
    by blast
  from assms(2) row have "seen_after Map.empty xs c \<noteq> None" by simp
  then have "filter (\<lambda>(y', c', p'). c' = c) xs \<noteq> []"
    by (auto simp: seen_after_lookup [of Map.empty xs c])
  then obtain e where "e \<in> set (filter (\<lambda>(y', c', p'). c' = c) xs)"
    by (meson last_in_set)
  then obtain y' p' where e: "(y', c, p') \<in> set xs" by auto
  from yearly_country_split(3) [OF yc] e
  have "(y', c) < (y, c)" and "\<exists>r \<in> set fd. Year r = y' \<and> Country r = c" by auto
  then have "y' < y" and "\<exists>r \<in> set fd. Year r = y' \<and> Country r = c" by auto
  with row show ?thesis by auto
qed

lemma growth_row_observed:
  assumes "row \<in> set (shift_growth seen (yearly_country fd))"
  shows "\<exists>r \<in> set fd. Year r = g_Year row \<and> Country r = g_Country row"
proof -
  from shift_growth_mem [OF assms] obtain xs y c p zs where
    yc: "yearly_country fd = xs @ (y, c, p) # zs" and
    row: "g_Year row = y" "g_Country row = c"
    by force
  from yearly_country_split(2) [OF yc] row show ?thesis by simp
qed

lemma regional_growth_unfold:
  "analyze_geographical_patterns df sy sm ey em ''regional_growth'' top_n =
   Inr (RegionalGrowth (head top_n (sort_values_desc (\<lambda>r. fkey (growth_rate r))
     (latest_growth (shift_growth Map.empty
        (yearly_country (filter_data_by_period df sy sm ey em)))))))"
  by (simp add: analyze_geographical_patterns_def Let_def)

lemma set_head_subset: "set (head n xs) \<subseteq> set xs"
  by (auto simp: head_def dest: in_set_takeD)

lemma set_sort_values_desc: "set (sort_values_desc f xs) = set xs"
  by (simp add: sort_values_desc_def)

lemma sort_values_desc_sorted:
  "sorted_wrt (\<lambda>a b. f a \<ge> f b) (sort_values_desc f xs)"
proof -
  have "sorted (map f (sort_key f (rev xs)))" by simp
  then have "sorted_wrt (\<lambda>a b. f a \<le> f b) (sort_key f (rev xs))"
    by (simp only: sorted_map)
  then show ?thesis
    unfolding sort_values_desc_def by (simp only: sorted_wrt_rev)
qed

lemma head_sorted: "sorted_wrt P xs \<Longrightarrow> sorted_wrt P (head n xs)"
  by (simp add: head_def sorted_wrt_take)

lemma length_head: "0 \<le> n \<Longrightarrow> int (length (head n xs)) \<le> n"
  by (simp add: head_def)

lemma head_all: "int (length xs) \<le> n \<Longrightarrow> head n xs = xs"
  by (simp add: head_def)

lemma sorted_le_last:
  fixes xs :: "('a::linorder) list"
  shows "sorted xs \<Longrightarrow> x \<in> set xs \<Longrightarrow> x \<le> last xs"
  by (induction xs) auto

text \<open>
  The row of a country in a year it is observed in: its baseline is the total of the
  last row of the same country above it.
\<close>

lemma yearly_country_decomp:
  assumes "r \<in> set fd" and "Year r = y" and "Country r = c"
  shows "\<exists>ks1 ks2.
      yearly_country fd =
        map (\<lambda>(y, c). (y, c, country_year_total fd y c)) ks1 @
        (y, c, country_year_total fd y c) #
        map (\<lambda>(y, c). (y, c, country_year_total fd y c)) ks2
      \<and> sorted ks1 \<and> (\<forall>k \<in> set ks1. k < (y, c)) \<and> (\<forall>k \<in> set ks2. (y, c) < k)
      \<and> set ks1 \<union> set ks2 \<union> {(y, c)} = (\<lambda>r. (Year r, Country r)) ` set fd"
proof -
  let ?ks = "sort (remdups (map (\<lambda>r. (Year r, Country r)) fd))"
  have srt: "sorted_wrt (<) ?ks" and st: "set ?ks = set (map (\<lambda>r. (Year r, Country r)) fd)"
    using sorted_distinct_keys [of "map (\<lambda>r. (Year r, Country r)) fd"] by blast+
  from assms have "(y, c) \<in> set ?ks" using st by force
  then obtain ks1 ks2 where ks: "?ks = ks1 @ (y, c) # ks2"
    by (meson split_list)
  from srt have s1: "sorted_wrt (<) ks1" and lt: "\<forall>k \<in> set ks1. k < (y, c)"
    and gt: "\<forall>k \<in> set ks2. (y, c) < k"
    unfolding ks by (auto simp: sorted_wrt_append)
  from s1 have s1': "sorted ks1" by (rule strict_sorted_imp_sorted)
  have yc: "yearly_country fd =
        map (\<lambda>(y, c). (y, c, country_year_total fd y c)) ks1 @
        (y, c, country_year_total fd y c) #
        map (\<lambda>(y, c). (y, c, country_year_total fd y c)) ks2"
    unfolding yearly_country_def ks by simp
  have su: "set ks1 \<union> set ks2 \<union> {(y, c)} = (\<lambda>r. (Year r, Country r)) ` set fd"
    using st unfolding ks by auto
  show ?thesis
    by (intro exI [of _ ks1] exI [of _ ks2] conjI yc s1' lt gt su)
qed

lemma baseline_previous_observed:
  assumes cur: "r \<in> set fd" "Year r = L" "Country r = c"
    and base: "b \<in> set fd" "Year b = B" "Country b = c" "B < L"
    and gap: "\<forall>x \<in> set fd. Country x = c \<longrightarrow> Year x \<le> B \<or> L \<le> Year x"
  shows "\<lparr>g_Year = L, g_Country = c, g_Passengers_Total = country_year_total fd L c,
           prev_year_passengers = Some (country_year_total fd B c),
           growth_rate = growth_of (country_year_total fd L c)
                           (Some (country_year_total fd B c))\<rparr>
         \<in> set (shift_growth Map.empty (yearly_country fd))"
proof -
  let ?f = "\<lambda>(y, c). (y, c, country_year_total fd y c)"
  from yearly_country_decomp [OF cur] obtain ks1 ks2 where
    yc: "yearly_country fd = map ?f ks1 @ (L, c, country_year_total fd L c) # map ?f ks2"
    and s1: "sorted ks1" and lt: "\<forall>k \<in> set ks1. k < (L, c)"
    and gt: "\<forall>k \<in> set ks2. (L, c) < k"
    and su: "set ks1 \<union> set ks2 \<union> {(L, c)} = (\<lambda>r. (Year r, Country r)) ` set fd"
    by blast
  let ?ws = "filter (\<lambda>(y', c'). c' = c) ks1"
  have "(B, c) \<in> (\<lambda>r. (Year r, Country r)) ` set fd" using base by force
  with su have "(B, c) \<in> set ks1 \<union> set ks2 \<union> {(L, c)}" by simp
  moreover have "(B, c) \<noteq> (L, c)" using base(4) by simp
  moreover have "(B, c) \<notin> set ks2"
  proof
    assume "(B, c) \<in> set ks2"
    with gt have "(L, c) < (B, c)" by blast
    with base(4) show False by simp
  qed
  ultimately have bk: "(B, c) \<in> set ks1" by blast
  then have bw: "(B, c) \<in> set ?ws" by simp
  then have ne: "?ws \<noteq> []" by (metis empty_iff empty_set)
  have sw: "sorted ?ws" using s1 by (rule sorted_wrt_filter)
  obtain y' c' where l: "last ?ws = (y', c')" by (cases "last ?ws")
  from ne have lin: "last ?ws \<in> set ?ws" by (rule last_in_set)
  with l have c': "c' = c" and lk: "(y', c) \<in> set ks1" by auto
  from lk lt have "(y', c) < (L, c)" by blast
  then have yL: "y' < L" by simp
  from lk su have "(y', c) \<in> (\<lambda>r. (Year r, Country r)) ` set fd" by blast
  then obtain x where "x \<in> set fd" "Year x = y'" "Country x = c" by auto
  with gap yL have le: "y' \<le> B" by force
  from sorted_le_last [OF sw bw] l c' have "(B, c) \<le> (y', c)" by simp
  then have "B \<le> y'" by auto
  with le have y': "y' = B" by simp
  have flt: "filter (\<lambda>(y', c', p'). c' = c) (map ?f ks1) = map ?f ?ws"
    by (induction ks1) (auto simp: split_def)
  have "last (map ?f ?ws) = ?f (last ?ws)" using ne by (rule last_map)
  also have "\<dots> = (B, c, country_year_total fd B c)" using l c' y' by simp
  finally have last: "last (map ?f ?ws) = (B, c, country_year_total fd B c)" .
  have mne: "map ?f ?ws \<noteq> []" using ne by simp
  have "seen_after Map.empty (map ?f ks1) c = Some (country_year_total fd B c)"
    unfolding seen_after_lookup [of Map.empty "map ?f ks1" c] flt
    using mne last by (cases "map ?f ?ws") simp_all
  with shift_growth_entry [of L c "country_year_total fd L c" Map.empty "map ?f ks1" "map ?f ks2"]
  show ?thesis unfolding yc by simp
qed

lemma growth_of_defined:
  "prev \<noteq> 0 \<Longrightarrow> growth_of cur (Some prev) = Fin ((cur - prev) / prev * 100)"
  "prev \<noteq> 0 \<or> cur \<noteq> 0 \<Longrightarrow> growth_of cur (Some prev) \<noteq> NaN"
  by (auto simp: growth_of_def fdiv_def)

lemma length_sort_values_desc: "length (sort_values_desc f xs) = length xs"
  by (simp add: sort_values_desc_def)

text \<open>
  C10, as the code computes it. Let a country have records in the latest year \<open>L\<close> of
  the filtered records and in an earlier year \<open>B\<close>, with no record in a year between
  the two, whether \<open>B\<close> is the calendar year before \<open>L\<close> or not. Then the country's row
  of the year \<open>L\<close> has the total of the year \<open>B\<close> as its baseline. When the baseline is
  not zero the growth rate is the quotient \<open>(cur - prev) / prev * 100\<close>; when the baseline
  and the current total are not both zero the row is among the rows of the latest year
  that are ranked, and it is in the output when \<open>top_n\<close> is at least their number.
\<close>

theorem growth_baseline_previous_observed_year:
  assumes "fd = filter_data_by_period df sy sm ey em"
    and "\<forall>x \<in> set fd. Year x \<le> L"
    and "r \<in> set fd" and "Year r = L" and "Country r = c"
    and "b \<in> set fd" and "Year b = B" and "Country b = c" and "B < L"
    and "\<forall>x \<in> set fd. Country x = c \<longrightarrow> Year x \<le> B \<or> L \<le> Year x"
    and "cur = country_year_total fd L c" and "prev = country_year_total fd B c"
    and "row = \<lparr>g_Year = L, g_Country = c, g_Passengers_Total = cur,
                 prev_year_passengers = Some prev, growth_rate = growth_of cur (Some prev)\<rparr>"
  shows "row \<in> set (shift_growth Map.empty (yearly_country fd))
     \<and> (prev \<noteq> 0 \<longrightarrow> growth_rate row = Fin ((cur - prev) / prev * 100))
     \<and> (prev \<noteq> 0 \<or> cur \<noteq> 0 \<longrightarrow>
          row \<in> set (latest_growth (shift_growth Map.empty (yearly_country fd))))
     \<and> ((prev \<noteq> 0 \<or> cur \<noteq> 0) \<and>
        int (length (latest_growth (shift_growth Map.empty (yearly_country fd)))) \<le> top_n \<longrightarrow>
          (\<exists>out. analyze_geographical_patterns df sy sm ey em ''regional_growth'' top_n
                   = Inr (RegionalGrowth out) \<and> row \<in> set out))"
proof -
  let ?gs = "shift_growth Map.empty (yearly_country fd)"
  let ?sorted = "sort_values_desc (\<lambda>r. fkey (growth_rate r)) (latest_growth ?gs)"
  have mem: "row \<in> set ?gs"
    unfolding assms(13) assms(11) assms(12)
    by (rule baseline_previous_observed [OF assms(3-10)])
  have rate: "prev \<noteq> 0 \<longrightarrow> growth_rate row = Fin ((cur - prev) / prev * 100)"
    unfolding assms(13) using growth_of_defined(1) [of prev cur] by simp
  have "g_Year ` set ?gs = Year ` set fd" by (rule growth_years)
  moreover have "Max (Year ` set fd) = L"
  proof (rule Max_eqI)
    show "finite (Year ` set fd)" by simp
    show "\<And>y. y \<in> Year ` set fd \<Longrightarrow> y \<le> L" using assms(2) by auto
    show "L \<in> Year ` set fd" using assms(3,4) by force
  qed
  ultimately have latest: "g_Year row = Max (g_Year ` set ?gs)"
    unfolding assms(13) by simp
  have kept: "prev \<noteq> 0 \<or> cur \<noteq> 0 \<longrightarrow> row \<in> set (latest_growth ?gs)"
  proof
    assume "prev \<noteq> 0 \<or> cur \<noteq> 0"
    then have "growth_rate row \<noteq> NaN"
      unfolding assms(13) using growth_of_defined(2) [of prev cur] by simp
    moreover have "prev_year_passengers row \<noteq> None" unfolding assms(13) by simp
    ultimately show "row \<in> set (latest_growth ?gs)"
      using mem latest by (simp add: latest_growth_mem)
  qed
  have out: "(prev \<noteq> 0 \<or> cur \<noteq> 0) \<and> int (length (latest_growth ?gs)) \<le> top_n \<longrightarrow>
          (\<exists>out. analyze_geographical_patterns df sy sm ey em ''regional_growth'' top_n
                   = Inr (RegionalGrowth out) \<and> row \<in> set out)"
  proof
    assume a: "(prev \<noteq> 0 \<or> cur \<noteq> 0) \<and> int (length (latest_growth ?gs)) \<le> top_n"
    then have "int (length ?sorted) \<le> top_n" by (simp only: length_sort_values_desc)
    then have h: "head top_n ?sorted = ?sorted" by (rule head_all)
    from a kept have "row \<in> set (latest_growth ?gs)" by blast
    then have "row \<in> set (head top_n ?sorted)"
      unfolding h by (simp only: set_sort_values_desc)
    moreover have "analyze_geographical_patterns df sy sm ey em ''regional_growth'' top_n
        = Inr (RegionalGrowth (head top_n ?sorted))"
      unfolding assms(1) by (rule regional_growth_unfold)
    ultimately show "\<exists>out. analyze_geographical_patterns df sy sm ey em ''regional_growth'' top_n
                   = Inr (RegionalGrowth out) \<and> row \<in> set out"
      by blast
  qed
  show ?thesis
    by (intro conjI mem rate kept out)
qed

text \<open>
  The claim as the specification words it does not hold: Fiji has records in 1985 and in
  the latest year 1990, with no passengers in either, and the function returns no row,
  the growth rate of zero over zero being NaN.
\<close>

theorem growth_gap_counterexample:
  "filter_data_by_period zero_table 1985 1 1990 12 = [fiji_85, fiji_90]
   \<and> Country fiji_85 = ''Fiji'' \<and> Country fiji_90 = ''Fiji''
   \<and> Year fiji_85 = 1985 \<and> Year fiji_90 = 1990
   \<and> analyze_geographical_patterns zero_table 1985 1 1990 12 ''regional_growth'' 10
       = Inr (RegionalGrowth [])"
proof -
  have a: "filter_data_by_period zero_table 1985 1 1990 12 = [fiji_85, fiji_90]"
    by (simp add: filter_data_by_period_def zero_table_def fiji_85_def fiji_90_def mk_record_def)
  have b: "Country fiji_85 = ''Fiji''" "Country fiji_90 = ''Fiji''"
    "Year fiji_85 = 1985" "Year fiji_90 = 1990"
    by (simp_all add: fiji_85_def fiji_90_def mk_record_def)
  have c: "analyze_geographical_patterns zero_table 1985 1 1990 12 ''regional_growth'' 10
       = Inr (RegionalGrowth [])"
    by code_simp
  show ?thesis by (intro conjI a b c)
qed

text \<open>
  Japan has records in 1987 and in the latest year 1990 and none in between: its row of
  1990 has the total of 1987 as baseline, a growth of 25 per cent, and is in the output
  for \<open>top_n = 10\<close>.
\<close>

theorem growth_baseline_previous_observed_year_witness:
  "list_all (\<lambda>x. Year x \<le> 1990) (filter_data_by_period growth_table 1985 1 1990 12)
   \<and> japan_90 \<in> set (filter_data_by_period growth_table 1985 1 1990 12)
   \<and> Year japan_90 = 1990 \<and> Country japan_90 = ''Japan''
   \<and> japan_87 \<in> set (filter_data_by_period growth_table 1985 1 1990 12)
   \<and> Year japan_87 = 1987 \<and> Country japan_87 = ''Japan'' \<and> (1987::int) < 1990
   \<and> list_all (\<lambda>x. Country x = ''Japan'' \<longrightarrow> Year x \<le> 1987 \<or> 1990 \<le> Year x)
         (filter_data_by_period growth_table 1985 1 1990 12)
   \<and> country_year_total (filter_data_by_period growth_table 1985 1 1990 12) 1990 ''Japan'' = 100
   \<and> country_year_total (filter_data_by_period growth_table 1985 1 1990 12) 1987 ''Japan'' = 80
   \<and> \<not> ((80::rat) = 0 \<and> (100::rat) = 0)
   \<and> int (length (latest_growth (shift_growth Map.empty
         (yearly_country (filter_data_by_period growth_table 1985 1 1990 12))))) \<le> 10
   \<and> growth_rate japan_growth_row = Fin ((100 - 80) / 80 * 100)
   \<and> japan_growth_row \<in> set (latest_growth (shift_growth Map.empty
         (yearly_country (filter_data_by_period growth_table 1985 1 1990 12))))
   \<and> (\<exists>out. analyze_geographical_patterns growth_table 1985 1 1990 12 ''regional_growth'' 10
               = Inr (RegionalGrowth out) \<and> japan_growth_row \<in> set out)"
proof -
  let ?fd = "filter_data_by_period growth_table 1985 1 1990 12"
  have fd: "?fd = growth_table"
    by (simp add: filter_data_by_period_def growth_table_def japan_87_def japan_90_def
        mk_record_def)
  have h2: "\<forall>x \<in> set ?fd. Year x \<le> 1990"
    unfolding fd by (simp add: growth_table_def japan_87_def japan_90_def mk_record_def)
  have h3: "japan_90 \<in> set ?fd" unfolding fd by (simp add: growth_table_def)
  have h4: "Year japan_90 = 1990" and h5: "Country japan_90 = ''Japan''"
    by (simp_all add: japan_90_def mk_record_def)
  have h6: "japan_87 \<in> set ?fd" unfolding fd by (simp add: growth_table_def)
  have h7: "Year japan_87 = 1987" and h8: "Country japan_87 = ''Japan''"
    by (simp_all add: japan_87_def mk_record_def)
  have h9: "(1987::int) < 1990" by simp
  have h10: "\<forall>x \<in> set ?fd. Country x = ''Japan'' \<longrightarrow> Year x \<le> 1987 \<or> 1990 \<le> Year x"
    unfolding fd by (simp add: growth_table_def japan_87_def japan_90_def mk_record_def)
  have h11: "country_year_total ?fd 1990 ''Japan'' = 100" by code_simp
  have h12: "country_year_total ?fd 1987 ''Japan'' = 80" by code_simp
  have g: "growth_of 100 (Some 80) = Fin 25" by code_simp
  have h13: "japan_growth_row = \<lparr>g_Year = 1990, g_Country = ''Japan'',
      g_Passengers_Total = 100, prev_year_passengers = Some 80,
      growth_rate = growth_of 100 (Some 80)\<rparr>"
    unfolding g by (rule japan_growth_row_def)
  have nz: "(80::rat) \<noteq> 0 \<or> (100::rat) \<noteq> 0" by simp
  have len: "int (length (latest_growth (shift_growth Map.empty (yearly_country ?fd)))) \<le> 10"
    by code_simp
  note inst = growth_baseline_previous_observed_year [OF refl h2 h3 h4 h5 h6 h7 h8 h9 h10
      h11 [symmetric] h12 [symmetric] h13, of 10]
  have c1: "growth_rate japan_growth_row = Fin ((100 - 80) / 80 * 100)"
    using inst by simp
  have c2: "japan_growth_row \<in> set (latest_growth (shift_growth Map.empty (yearly_country ?fd)))"
    using inst nz by blast
  have c3: "\<exists>out. analyze_geographical_patterns growth_table 1985 1 1990 12 ''regional_growth'' 10
               = Inr (RegionalGrowth out) \<and> japan_growth_row \<in> set out"
    using inst nz len by blast
  have h2': "list_all (\<lambda>x. Year x \<le> 1990) ?fd"
    using h2 by (simp only: list_all_iff)
  have h10': "list_all (\<lambda>x. Country x = ''Japan'' \<longrightarrow> Year x \<le> 1987 \<or> 1990 \<le> Year x) ?fd"
    using h10 by (simp only: list_all_iff)
  have nz': "\<not> ((80::rat) = 0 \<and> (100::rat) = 0)" by simp
  show ?thesis
    by (intro conjI h2' h3 h4 h5 h6 h7 h8 h9 h10' h11 h12 nz' len c1 c2 c3)
qed

subsection \<open>The fields of a row\<close>

lemma fill_directions_three:
  assumes "direction_fields level unit t c1 = Inr (r1, v1)"
    and "direction_fields level unit t c2 = Inr (r2, v2)"
    and "direction_fields level unit t c3 = Inr (r3, v3)"
  shows "fill_directions level unit t [(''In'', c1), (''Out'', c2), (''Total'', c3)] row0 =
     Inr (row0\<lparr>row_fields := (row_fields row0)
            (''In_Route'' \<mapsto> r1, ''In_Value'' \<mapsto> v1,
             ''Out_Route'' \<mapsto> r2, ''Out_Value'' \<mapsto> v2,
             ''Total_Route'' \<mapsto> r3, ''Total_Value'' \<mapsto> v3)\<rparr>)"
  using assms by simp

lemma three_fields_lookup:
  assumes "row = row0\<lparr>row_fields := (row_fields row0)
            (''In_Route'' \<mapsto> r1, ''In_Value'' \<mapsto> v1,
             ''Out_Route'' \<mapsto> r2, ''Out_Value'' \<mapsto> v2,
             ''Total_Route'' \<mapsto> r3, ''Total_Value'' \<mapsto> v3)\<rparr>"
  shows "get_field ''In_Route'' row = Some r1" "get_field ''In_Value'' row = Some v1"
    "get_field ''Out_Route'' row = Some r2" "get_field ''Out_Value'' row = Some v2"
    "get_field ''Total_Route'' row = Some r3" "get_field ''Total_Value'' row = Some v3"
  unfolding assms by (simp_all add: get_field_def)

text \<open>
  The row of a non-empty list of records has, for each of the three directions, the
  joined tied keys of the direction's column in the \<open>_Route\<close> field and the formatted
  extreme in the \<open>_Value\<close> field.
\<close>

lemma period_row_fields:
  assumes ne: "period_data \<noteq> []"
    and row: "period_row level (c1, c2, c3, unit) row0 period_data = Inr row"
    and dir: "(direction, col) \<in> set [(''In'', c1), (''Out'', c2), (''Total'', c3)]"
  shows "\<exists>ev. extreme_value level (groupby_sum Route [c1, c2, c3] period_data) col = Some ev
     \<and> get_field (direction @ ''_Route'') row =
         Some (str_join '', '' (tied_routes (groupby_sum Route [c1, c2, c3] period_data) col ev))
     \<and> get_field (direction @ ''_Value'') row = Some (formatted_value unit ev)"
proof -
  let ?t = "groupby_sum Route [c1, c2, c3] period_data"
  have nonempty: "\<not> frame_empty ?t"
    using ne by (intro groupby_sum_nonempty) simp_all
  have cols: "c1 \<in> set (columns ?t)" "c2 \<in> set (columns ?t)" "c3 \<in> set (columns ?t)"
    by (simp_all add: groupby_sum_columns)
  from direction_fields_nonempty [OF nonempty cols(1), of level unit] obtain e1 where
    e1: "extreme_value level ?t c1 = Some e1"
    "direction_fields level unit ?t c1 =
       Inr (str_join '', '' (tied_routes ?t c1 e1), formatted_value unit e1)" by blast
  from direction_fields_nonempty [OF nonempty cols(2), of level unit] obtain e2 where
    e2: "extreme_value level ?t c2 = Some e2"
    "direction_fields level unit ?t c2 =
       Inr (str_join '', '' (tied_routes ?t c2 e2), formatted_value unit e2)" by blast
  from direction_fields_nonempty [OF nonempty cols(3), of level unit] obtain e3 where
    e3: "extreme_value level ?t c3 = Some e3"
    "direction_fields level unit ?t c3 =
       Inr (str_join '', '' (tied_routes ?t c3 e3), formatted_value unit e3)" by blast
  have "period_row level (c1, c2, c3, unit) row0 period_data =
      fill_directions level unit ?t [(''In'', c1), (''Out'', c2), (''Total'', c3)] row0"
    by (simp add: period_row_def)
  with row fill_directions_three [OF e1(2) e2(2) e3(2), of row0]
  have r: "row = row0\<lparr>row_fields := (row_fields row0)
            (''In_Route'' \<mapsto> str_join '', '' (tied_routes ?t c1 e1),
             ''In_Value'' \<mapsto> formatted_value unit e1,
             ''Out_Route'' \<mapsto> str_join '', '' (tied_routes ?t c2 e2),
             ''Out_Value'' \<mapsto> formatted_value unit e2,
             ''Total_Route'' \<mapsto> str_join '', '' (tied_routes ?t c3 e3),
             ''Total_Value'' \<mapsto> formatted_value unit e3)\<rparr>"
    by simp
  note f = three_fields_lookup [OF r]
  from dir consider (i) "direction = ''In''" "col = c1" | (o) "direction = ''Out''" "col = c2"
    | (t) "direction = ''Total''" "col = c3"
    by auto
  then show ?thesis
  proof cases
    case i
    have "''In'' @ ''_Route'' = ''In_Route''" "''In'' @ ''_Value'' = ''In_Value''" by simp_all
    with i e1(1) f(1,2) show ?thesis by simp
  next
    case o
    have "''Out'' @ ''_Route'' = ''Out_Route''" "''Out'' @ ''_Value'' = ''Out_Value''"
      by simp_all
    with o e2(1) f(3,4) show ?thesis by simp
  next
    case t
    have "''Total'' @ ''_Route'' = ''Total_Route''" "''Total'' @ ''_Value'' = ''Total_Value''"
      by simp_all
    with t e3(1) f(5,6) show ?thesis by simp
  qed
qed

text \<open>
  With valid parameters the function returns, and every row it returns is the row of a
  period that has a record.
\<close>

lemma traffic_routes_returns:
  assumes "col_mapping traffic_type = Some cols" and "traffic_level \<in> {''Most'', ''Least''}"
    and "aggregate_by \<in> {''Month'', ''Year''}"
  shows "\<exists>out. analyze_traffic_routes df sy sm ey em traffic_level traffic_type aggregate_by
           = Inr out"
proof (cases "aggregate_by = ''Month''")
  case True
  then show ?thesis
    using traffic_routes_month_rows [OF assms(1,2), of df sy sm ey em] by blast
next
  case False
  with assms(3) have "aggregate_by = ''Year''" by simp
  then show ?thesis
    using traffic_routes_year_rows [OF assms(1,2), of df sy sm ey em] by blast
qed

lemma traffic_routes_bucket_nonempty:
  assumes "col_mapping traffic_type = Some cols" and "traffic_level \<in> {''Most'', ''Least''}"
    and "aggregate_by \<in> {''Month'', ''Year''}"
    and "analyze_traffic_routes df sy sm ey em traffic_level traffic_type aggregate_by = Inr out"
    and "row \<in> set out"
  shows "period_bucket (row_year row) (row_month row)
           (traffic_routes_filtered_df df sy sm ey em) \<noteq> []"
proof (cases "aggregate_by = ''Month''")
  case True
  let ?fd = "traffic_routes_filtered_df df sy sm ey em"
  from traffic_routes_month_rows [OF assms(1,2), of df sy sm ey em] assms(4) True
  have "list_all2 (\<lambda>(y, m) row. row_year row = y \<and> row_month row = Some m \<and>
          period_row traffic_level cols \<lparr>row_year = y, row_month = Some m, row_fields = Map.empty\<rparr>
            (period_bucket y (Some m) ?fd) = Inr row)
        (sort (remdups (map (\<lambda>r. (Year r, Month r)) ?fd))) out"
    by auto
  from list_all2_partner [OF this assms(5)] obtain y m where
    k: "(y, m) \<in> set (sort (remdups (map (\<lambda>r. (Year r, Month r)) ?fd)))"
    and r: "row_year row = y" "row_month row = Some m"
    by auto
  from k obtain x where "x \<in> set ?fd" "Year x = y" "Month x = m" by auto
  then have "x \<in> set (period_bucket y (Some m) ?fd)" by (simp add: period_bucket_def)
  with r show ?thesis by auto
next
  case False
  let ?fd = "traffic_routes_filtered_df df sy sm ey em"
  from False assms(3) have yr: "aggregate_by = ''Year''" by simp
  from traffic_routes_year_rows [OF assms(1,2), of df sy sm ey em] assms(4) yr
  have "list_all2 (\<lambda>y row. row_year row = y \<and> row_month row = None \<and>
          period_row traffic_level cols \<lparr>row_year = y, row_month = None, row_fields = Map.empty\<rparr>
            (period_bucket y None ?fd) = Inr row)
        (sort (remdups (map Year ?fd))) out"
    by auto
  from list_all2_partner [OF this assms(5)] obtain y where
    k: "y \<in> set (sort (remdups (map Year ?fd)))"
    and r: "row_year row = y" "row_month row = None"
    by auto
  from k obtain x where "x \<in> set ?fd" "Year x = y" by auto
  then have "x \<in> set (period_bucket y None ?fd)" by (simp add: period_bucket_def)
  with r show ?thesis by auto
qed

lemma list_all2_partner_left:
  "list_all2 P xs ys \<Longrightarrow> x \<in> set xs \<Longrightarrow> \<exists>y \<in> set ys. P x y"
  by (induction xs ys rule: list_all2_induct) auto

text \<open>Every filtered record has the row of its period in the output.\<close>

lemma traffic_routes_covers:
  assumes "col_mapping traffic_type = Some cols" and "traffic_level \<in> {''Most'', ''Least''}"
    and "aggregate_by \<in> {''Month'', ''Year''}"
    and "analyze_traffic_routes df sy sm ey em traffic_level traffic_type aggregate_by = Inr out"
    and "r \<in> set (traffic_routes_filtered_df df sy sm ey em)"
  shows "\<exists>row \<in> set out. row_year row = Year r \<and>
           row_month row = (if aggregate_by = ''Month'' then Some (Month r) else None)"
proof (cases "aggregate_by = ''Month''")
  case True
  let ?fd = "traffic_routes_filtered_df df sy sm ey em"
  from traffic_routes_month_rows [OF assms(1,2), of df sy sm ey em] assms(4) True
  have l: "list_all2 (\<lambda>(y, m) row. row_year row = y \<and> row_month row = Some m \<and>
          period_row traffic_level cols \<lparr>row_year = y, row_month = Some m, row_fields = Map.empty\<rparr>
            (period_bucket y (Some m) ?fd) = Inr row)
        (sort (remdups (map (\<lambda>r. (Year r, Month r)) ?fd))) out"
    by auto
  have "(Year r, Month r) \<in> set (sort (remdups (map (\<lambda>r. (Year r, Month r)) ?fd)))"
    using assms(5) by auto
  from list_all2_partner_left [OF l this] True show ?thesis by auto
next
  case False
  let ?fd = "traffic_routes_filtered_df df sy sm ey em"
  from False assms(3) have yr: "aggregate_by = ''Year''" by simp
  from traffic_routes_year_rows [OF assms(1,2), of df sy sm ey em] assms(4) yr
  have l: "list_all2 (\<lambda>y row. row_year row = y \<and> row_month row = None \<and>
          period_row traffic_level cols \<lparr>row_year = y, row_month = None, row_fields = Map.empty\<rparr>
            (period_bucket y None ?fd) = Inr row)
        (sort (remdups (map Year ?fd))) out"
    by auto
  have "Year r \<in> set (sort (remdups (map Year ?fd)))"
    using assms(5) by auto
  from list_all2_partner_left [OF l this] False show ?thesis by auto
qed

text \<open>
  The two fields of a direction in a row of the output: the extreme of the direction's
  column over the routes of the row's period, the routes that attain it, and the
  formatted extreme.
\<close>

lemma traffic_routes_row_fields:
  assumes cm: "col_mapping traffic_type = Some (in_col, out_col, total_col, unit_suffix)"
    and lv: "traffic_level \<in> {''Most'', ''Least''}"
    and ag: "aggregate_by \<in> {''Month'', ''Year''}"
    and res: "analyze_traffic_routes df sy sm ey em traffic_level traffic_type aggregate_by
                = Inr out"
    and row: "row \<in> set out"
    and dir: "(direction, col) \<in> set [(''In'', in_col), (''Out'', out_col), (''Total'', total_col)]"
  shows "\<exists>ev tied.
       row_bucket (traffic_routes_filtered_df df sy sm ey em) row \<noteq> []
     \<and> extreme_value traffic_level
         (groupby_sum Route [in_col, out_col, total_col]
            (row_bucket (traffic_routes_filtered_df df sy sm ey em) row)) col = Some ev
     \<and> ev = (if traffic_level = ''Most''
             then Max (route_total col (row_bucket (traffic_routes_filtered_df df sy sm ey em) row)
                        ` Route ` set (row_bucket (traffic_routes_filtered_df df sy sm ey em) row))
             else Min (route_total col (row_bucket (traffic_routes_filtered_df df sy sm ey em) row)
                        ` Route ` set (row_bucket (traffic_routes_filtered_df df sy sm ey em) row)))
     \<and> tied = tied_routes
         (groupby_sum Route [in_col, out_col, total_col]
            (row_bucket (traffic_routes_filtered_df df sy sm ey em) row)) col ev
     \<and> set tied = {k \<in> Route ` set (row_bucket (traffic_routes_filtered_df df sy sm ey em) row).
           route_total col (row_bucket (traffic_routes_filtered_df df sy sm ey em) row) k = ev}
     \<and> tied \<noteq> [] \<and> sorted_wrt (<) tied
     \<and> get_field (direction @ ''_Route'') row = Some (str_join '', '' tied)
     \<and> get_field (direction @ ''_Value'') row = Some (formatted_value unit_suffix ev)"
proof -
  let ?b = "row_bucket (traffic_routes_filtered_df df sy sm ey em) row"
  let ?t = "groupby_sum Route [in_col, out_col, total_col] ?b"
  have ne: "?b \<noteq> []"
    unfolding row_bucket_def by (rule traffic_routes_bucket_nonempty [OF cm lv ag res row])
  have pr: "period_row traffic_level (in_col, out_col, total_col, unit_suffix)
           \<lparr>row_year = row_year row, row_month = row_month row, row_fields = Map.empty\<rparr> ?b
           = Inr row"
    unfolding row_bucket_def by (rule traffic_routes_row_of_bucket [OF cm lv ag res row])
  from period_row_fields [OF ne pr dir] obtain ev where
    ev: "extreme_value traffic_level ?t col = Some ev"
    and fr: "get_field (direction @ ''_Route'') row = Some (str_join '', '' (tied_routes ?t col ev))"
    and fv: "get_field (direction @ ''_Value'') row = Some (formatted_value unit_suffix ev)"
    by blast
  have mem: "col \<in> set [in_col, out_col, total_col]" using dir by auto
  from grouped_extreme_ties [OF ne mem, of traffic_level unit_suffix] ev
  have mx: "ev = (if traffic_level = ''Most''
             then Max ((\<lambda>k. sum_list (map (col_value col) (filter (\<lambda>r. Route r = k) ?b)))
                        ` Route ` set ?b)
             else Min ((\<lambda>k. sum_list (map (col_value col) (filter (\<lambda>r. Route r = k) ?b)))
                        ` Route ` set ?b))"
    and st: "set (tied_routes ?t col ev) =
         {k \<in> Route ` set ?b. sum_list (map (col_value col) (filter (\<lambda>r. Route r = k) ?b)) = ev}"
    and tn: "tied_routes ?t col ev \<noteq> []"
    and so: "sorted_wrt (<) (tied_routes ?t col ev)"
    by auto
  have rt: "route_total col ?b = (\<lambda>k. sum_list (map (col_value col) (filter (\<lambda>r. Route r = k) ?b)))"
    by (rule ext) (simp add: route_total_def)
  have mx': "ev = (if traffic_level = ''Most'' then Max (route_total col ?b ` Route ` set ?b)
             else Min (route_total col ?b ` Route ` set ?b))"
    unfolding rt by (rule mx)
  have st': "set (tied_routes ?t col ev) = {k \<in> Route ` set ?b. route_total col ?b k = ev}"
    unfolding rt by (rule st)
  show ?thesis
    by (intro exI [of _ ev] exI [of _ "tied_routes ?t col ev"] conjI ne ev mx' refl st' tn so fr fv)
qed

subsection \<open>Extremes and ties of a route table\<close>

text \<open>
  C4. With valid parameters \<open>analyze_traffic_routes\<close> returns rows, every filtered record
  has the row of its period among them, and in every row, for each of the three
  directions with its metric column: the records of the row's period are not empty; the
  extreme \<open>ev\<close> that the code takes from the grouped table of these records is the maximum
  of the route totals of the column when the level is \<open>Most\<close> and the minimum when it is
  \<open>Least\<close>; the tied routes of the code are exactly the routes of the period whose total
  equals the extreme, there is at least one, they are in strictly ascending lexicographic
  order, and the \<open>_Route\<close> field of the row is these routes joined by a comma and a space.
\<close>

theorem route_extremes_ties:
  assumes "col_mapping traffic_type = Some (in_col, out_col, total_col, unit_suffix)"
    and "traffic_level \<in> {''Most'', ''Least''}"
    and "aggregate_by \<in> {''Month'', ''Year''}"
  shows "\<exists>out.
       analyze_traffic_routes df sy sm ey em traffic_level traffic_type aggregate_by = Inr out
     \<and> (\<forall>r \<in> set (traffic_routes_filtered_df df sy sm ey em).
          \<exists>row \<in> set out. row_year row = Year r \<and>
             row_month row = (if aggregate_by = ''Month'' then Some (Month r) else None))
     \<and> (\<forall>row \<in> set out.
         \<forall>(direction, col) \<in> set [(''In'', in_col), (''Out'', out_col), (''Total'', total_col)].
          \<exists>ev tied.
             row_bucket (traffic_routes_filtered_df df sy sm ey em) row \<noteq> []
           \<and> extreme_value traffic_level
               (groupby_sum Route [in_col, out_col, total_col]
                  (row_bucket (traffic_routes_filtered_df df sy sm ey em) row)) col = Some ev
           \<and> ev = (if traffic_level = ''Most''
               then Max (route_total col (row_bucket (traffic_routes_filtered_df df sy sm ey em) row)
                     ` Route ` set (row_bucket (traffic_routes_filtered_df df sy sm ey em) row))
               else Min (route_total col (row_bucket (traffic_routes_filtered_df df sy sm ey em) row)
                     ` Route ` set (row_bucket (traffic_routes_filtered_df df sy sm ey em) row)))
           \<and> tied = tied_routes
               (groupby_sum Route [in_col, out_col, total_col]
                  (row_bucket (traffic_routes_filtered_df df sy sm ey em) row)) col ev
           \<and> set tied =
               {k \<in> Route ` set (row_bucket (traffic_routes_filtered_df df sy sm ey em) row).
                  route_total col (row_bucket (traffic_routes_filtered_df df sy sm ey em) row) k
                    = ev}
           \<and> tied \<noteq> [] \<and> sorted_wrt (<) tied
           \<and> get_field (direction @ ''_Route'') row = Some (str_join '', '' tied))"
proof -
  from traffic_routes_returns [OF assms, of df sy sm ey em] obtain out where
    res: "analyze_traffic_routes df sy sm ey em traffic_level traffic_type aggregate_by = Inr out"
    by blast
  have cover: "\<forall>r \<in> set (traffic_routes_filtered_df df sy sm ey em).
          \<exists>row \<in> set out. row_year row = Year r \<and>
             row_month row = (if aggregate_by = ''Month'' then Some (Month r) else None)"
    using traffic_routes_covers [OF assms res] by blast
  have fields: "\<forall>row \<in> set out.
         \<forall>(direction, col) \<in> set [(''In'', in_col), (''Out'', out_col), (''Total'', total_col)].
          \<exists>ev tied.
             row_bucket (traffic_routes_filtered_df df sy sm ey em) row \<noteq> []
           \<and> extreme_value traffic_level
               (groupby_sum Route [in_col, out_col, total_col]
                  (row_bucket (traffic_routes_filtered_df df sy sm ey em) row)) col = Some ev
           \<and> ev = (if traffic_level = ''Most''
               then Max (route_total col (row_bucket (traffic_routes_filtered_df df sy sm ey em) row)
                     ` Route ` set (row_bucket (traffic_routes_filtered_df df sy sm ey em) row))
               else Min (route_total col (row_bucket (traffic_routes_filtered_df df sy sm ey em) row)
                     ` Route ` set (row_bucket (traffic_routes_filtered_df df sy sm ey em) row)))
           \<and> tied = tied_routes
               (groupby_sum Route [in_col, out_col, total_col]
                  (row_bucket (traffic_routes_filtered_df df sy sm ey em) row)) col ev
           \<and> set tied =
               {k \<in> Route ` set (row_bucket (traffic_routes_filtered_df df sy sm ey em) row).
                  route_total col (row_bucket (traffic_routes_filtered_df df sy sm ey em) row) k
                    = ev}
           \<and> tied \<noteq> [] \<and> sorted_wrt (<) tied
           \<and> get_field (direction @ ''_Route'') row = Some (str_join '', '' tied)"
  proof (intro ballI, clarify)
    fix row direction col
    assume row: "row \<in> set out"
      and dir: "(direction, col) \<in> set [(''In'', in_col), (''Out'', out_col), (''Total'', total_col)]"
    from traffic_routes_row_fields [OF assms res row dir]
    obtain ev tied where
      f: "row_bucket (traffic_routes_filtered_df df sy sm ey em) row \<noteq> []"
        "extreme_value traffic_level
               (groupby_sum Route [in_col, out_col, total_col]
                  (row_bucket (traffic_routes_filtered_df df sy sm ey em) row)) col = Some ev"
        "ev = (if traffic_level = ''Most''
               then Max (route_total col (row_bucket (traffic_routes_filtered_df df sy sm ey em) row)
                     ` Route ` set (row_bucket (traffic_routes_filtered_df df sy sm ey em) row))
               else Min (route_total col (row_bucket (traffic_routes_filtered_df df sy sm ey em) row)
                     ` Route ` set (row_bucket (traffic_routes_filtered_df df sy sm ey em) row)))"
        "tied = tied_routes
               (groupby_sum Route [in_col, out_col, total_col]
                  (row_bucket (traffic_routes_filtered_df df sy sm ey em) row)) col ev"
        "set tied =
               {k \<in> Route ` set (row_bucket (traffic_routes_filtered_df df sy sm ey em) row).
                  route_total col (row_bucket (traffic_routes_filtered_df df sy sm ey em) row) k
                    = ev}"
        "tied \<noteq> []" "sorted_wrt (<) tied"
        "get_field (direction @ ''_Route'') row = Some (str_join '', '' tied)"
      by blast
    show "\<exists>ev tied.
             row_bucket (traffic_routes_filtered_df df sy sm ey em) row \<noteq> []
           \<and> extreme_value traffic_level
               (groupby_sum Route [in_col, out_col, total_col]
                  (row_bucket (traffic_routes_filtered_df df sy sm ey em) row)) col = Some ev
           \<and> ev = (if traffic_level = ''Most''
               then Max (route_total col (row_bucket (traffic_routes_filtered_df df sy sm ey em) row)
                     ` Route ` set (row_bucket (traffic_routes_filtered_df df sy sm ey em) row))
               else Min (route_total col (row_bucket (traffic_routes_filtered_df df sy sm ey em) row)
                     ` Route ` set (row_bucket (traffic_routes_filtered_df df sy sm ey em) row)))
           \<and> tied = tied_routes
               (groupby_sum Route [in_col, out_col, total_col]
                  (row_bucket (traffic_routes_filtered_df df sy sm ey em) row)) col ev
           \<and> set tied =
               {k \<in> Route ` set (row_bucket (traffic_routes_filtered_df df sy sm ey em) row).
                  route_total col (row_bucket (traffic_routes_filtered_df df sy sm ey em) row) k
                    = ev}
           \<and> tied \<noteq> [] \<and> sorted_wrt (<) tied
           \<and> get_field (direction @ ''_Route'') row = Some (str_join '', '' tied)"
      by (intro exI [of _ ev] exI [of _ tied] conjI f)
  qed
  show ?thesis
    by (intro exI [of _ out] conjI res cover fields)
qed

text \<open>
  Three routes in January 1985, two of them with 180 passengers in total: the one row of
  the month reports both, in ascending order of their names.
\<close>

theorem route_extremes_ties_witness:
  "col_mapping ''Passengers'' = Some (C_Passengers_In, C_Passengers_Out, C_Passengers_Total, [])
   \<and> ''Most'' \<in> {''Most'', ''Least''} \<and> ''Month'' \<in> {''Month'', ''Year''}
   \<and> (\<exists>row. analyze_traffic_routes tie_bucket 1985 1 1985 12 ''Most'' ''Passengers'' ''Month''
              = Inr [row]
          \<and> row_year row = 1985 \<and> row_month row = Some 1
          \<and> row_bucket (traffic_routes_filtered_df tie_bucket 1985 1 1985 12) row = tie_bucket
          \<and> extreme_value ''Most''
               (groupby_sum Route [C_Passengers_In, C_Passengers_Out, C_Passengers_Total]
                  tie_bucket) C_Passengers_Total = Some 180
          \<and> Max (route_total C_Passengers_Total tie_bucket ` Route ` set tie_bucket) = 180
          \<and> tied_routes
               (groupby_sum Route [C_Passengers_In, C_Passengers_Out, C_Passengers_Total]
                  tie_bucket) C_Passengers_Total 180 = [''Perth-Auckland'', ''Sydney-London'']
          \<and> get_field ''Total_Route'' row = Some ''Perth-Auckland, Sydney-London'')"
proof -
  let ?t = "groupby_sum Route [C_Passengers_In, C_Passengers_Out, C_Passengers_Total] tie_bucket"
  have h1: "col_mapping ''Passengers'' =
      Some (C_Passengers_In, C_Passengers_Out, C_Passengers_Total, [])"
    by (simp add: col_mapping_def)
  have h2: "''Most'' \<in> {''Most'', ''Least''}" and h3: "''Month'' \<in> {''Month'', ''Year''}"
    by simp_all
  from route_extremes_ties [OF h1 h2 h3, of tie_bucket 1985 1 1985 12]
  obtain out where
    res: "analyze_traffic_routes tie_bucket 1985 1 1985 12 ''Most'' ''Passengers'' ''Month''
            = Inr out"
    and fields: "\<forall>row \<in> set out.
         \<forall>(direction, col) \<in> set [(''In'', C_Passengers_In), (''Out'', C_Passengers_Out),
             (''Total'', C_Passengers_Total)].
          \<exists>ev tied.
             row_bucket (traffic_routes_filtered_df tie_bucket 1985 1 1985 12) row \<noteq> []
           \<and> extreme_value ''Most''
               (groupby_sum Route [C_Passengers_In, C_Passengers_Out, C_Passengers_Total]
                  (row_bucket (traffic_routes_filtered_df tie_bucket 1985 1 1985 12) row)) col
                = Some ev
           \<and> ev = (if ''Most'' = ''Most''
               then Max (route_total col
                       (row_bucket (traffic_routes_filtered_df tie_bucket 1985 1 1985 12) row)
                     ` Route ` set (row_bucket (traffic_routes_filtered_df tie_bucket 1985 1 1985 12) row))
               else Min (route_total col
                       (row_bucket (traffic_routes_filtered_df tie_bucket 1985 1 1985 12) row)
                     ` Route ` set (row_bucket (traffic_routes_filtered_df tie_bucket 1985 1 1985 12) row)))
           \<and> tied = tied_routes
               (groupby_sum Route [C_Passengers_In, C_Passengers_Out, C_Passengers_Total]
                  (row_bucket (traffic_routes_filtered_df tie_bucket 1985 1 1985 12) row)) col ev
           \<and> set tied =
               {k \<in> Route ` set (row_bucket (traffic_routes_filtered_df tie_bucket 1985 1 1985 12) row).
                  route_total col
                    (row_bucket (traffic_routes_filtered_df tie_bucket 1985 1 1985 12) row) k
                    = ev}
           \<and> tied \<noteq> [] \<and> sorted_wrt (<) tied
           \<and> get_field (direction @ ''_Route'') row = Some (str_join '', '' tied)"
    by blast
  have keys: "map_sum id (map (\<lambda>row. (row_year row, row_month row)))
      (analyze_traffic_routes tie_bucket 1985 1 1985 12 ''Most'' ''Passengers'' ''Month'')
      = Inr [(1985, Some 1)]"
    by code_simp
  with res have "map (\<lambda>row. (row_year row, row_month row)) out = [(1985, Some 1)]"
    by simp
  then obtain row where out: "out = [row]" and y: "row_year row = 1985"
    and m: "row_month row = Some 1"
    by auto
  have b: "row_bucket (traffic_routes_filtered_df tie_bucket 1985 1 1985 12) row = tie_bucket"
    unfolding row_bucket_def y m by code_simp
  have ev: "extreme_value ''Most'' ?t C_Passengers_Total = Some 180"
    by code_simp
  have tr: "tied_routes ?t C_Passengers_Total 180 = [''Perth-Auckland'', ''Sydney-London'']"
    by code_simp
  have join: "str_join '', '' [''Perth-Auckland'', ''Sydney-London'']
      = ''Perth-Auckland, Sydney-London''"
    by simp
  have app: "''Total'' @ ''_Route'' = ''Total_Route''" by simp
  have rin: "row \<in> set out" using out by simp
  have din: "(''Total'', C_Passengers_Total) \<in> set [(''In'', C_Passengers_In),
      (''Out'', C_Passengers_Out), (''Total'', C_Passengers_Total)]"
    by simp
  note inst = fields [THEN bspec, OF rin, THEN bspec, OF din, unfolded b prod.case]
  from inst have "\<exists>ev tied.
        extreme_value ''Most'' ?t C_Passengers_Total = Some ev
      \<and> ev = Max (route_total C_Passengers_Total tie_bucket ` Route ` set tie_bucket)
      \<and> tied = tied_routes ?t C_Passengers_Total ev
      \<and> get_field (''Total'' @ ''_Route'') row = Some (str_join '', '' tied)"
    by fastforce
  then have mx: "Max (route_total C_Passengers_Total tie_bucket ` Route ` set tie_bucket) = 180"
    and gf: "get_field ''Total_Route'' row = Some ''Perth-Auckland, Sydney-London''"
    unfolding app using ev tr join by auto
  show ?thesis
    by (intro conjI h1 h2 h3 exI [of _ row] res [unfolded out] y m b ev mx tr gf)
qed

subsection \<open>The formatted value of a row\<close>

text \<open>
  C5. With valid parameters \<open>analyze_traffic_routes\<close> returns rows, and in every row, for
  each of the three directions with its metric column, the \<open>_Value\<close> field renders the
  extreme \<open>ev\<close> that the code takes from the grouped table of the records of the row's
  period (the maximum of the route totals for \<open>Most\<close>, the minimum for \<open>Least\<close>). For the
  traffic type \<open>Passengers\<close> the unit suffix is empty and the field is the decimal numeral
  of the extreme with its fractional part cut off (towards zero). For \<open>Freight\<close> and
  \<open>Mail\<close> the unit suffix is \<open>t\<close> and the field is an optional minus sign, the digits of
  the integer part, a point, exactly one digit, and then the suffix with nothing in
  between, where the digits are those of the extreme rounded to one decimal place.
\<close>

theorem formatted_value_rendering:
  assumes "col_mapping traffic_type = Some (in_col, out_col, total_col, unit_suffix)"
    and "traffic_level \<in> {''Most'', ''Least''}"
    and "aggregate_by \<in> {''Month'', ''Year''}"
  shows "\<exists>out.
       analyze_traffic_routes df sy sm ey em traffic_level traffic_type aggregate_by = Inr out
     \<and> (traffic_type = ''Passengers'' \<longrightarrow> unit_suffix = [])
     \<and> (traffic_type \<noteq> ''Passengers'' \<longrightarrow> unit_suffix = ''t'')
     \<and> (\<forall>row \<in> set out.
         \<forall>(direction, col) \<in> set [(''In'', in_col), (''Out'', out_col), (''Total'', total_col)].
          \<exists>ev.
             extreme_value traffic_level
               (groupby_sum Route [in_col, out_col, total_col]
                  (row_bucket (traffic_routes_filtered_df df sy sm ey em) row)) col = Some ev
           \<and> ev = (if traffic_level = ''Most''
               then Max (route_total col (row_bucket (traffic_routes_filtered_df df sy sm ey em) row)
                     ` Route ` set (row_bucket (traffic_routes_filtered_df df sy sm ey em) row))
               else Min (route_total col (row_bucket (traffic_routes_filtered_df df sy sm ey em) row)
                     ` Route ` set (row_bucket (traffic_routes_filtered_df df sy sm ey em) row)))
           \<and> get_field (direction @ ''_Value'') row = Some (formatted_value unit_suffix ev)
           \<and> (unit_suffix = [] \<longrightarrow>
                 get_field (direction @ ''_Value'') row = Some (str_int (int_of_number ev))
               \<and> int_of_str (str_int (int_of_number ev)) = int_of_number ev
               \<and> \<bar>of_int (int_of_number ev)\<bar> \<le> \<bar>ev\<bar>
               \<and> \<bar>ev - of_int (int_of_number ev)\<bar> < 1)
           \<and> (unit_suffix \<noteq> [] \<longrightarrow>
                (\<exists>q. get_field (direction @ ''_Value'') row =
                       Some ((if ev < 0 then ''-'' else []) @ str_nat (q div 10) @ ''.'' @
                             [digit_char (q mod 10)] @ unit_suffix)
                   \<and> \<bar>\<bar>ev\<bar> * 10 - of_nat q\<bar> \<le> 1 / 2
                   \<and> nat_of_str (str_nat (q div 10)) = q div 10
                   \<and> digit_val (digit_char (q mod 10)) = q mod 10
                   \<and> set (str_nat (q div 10)) \<subseteq> set ''0123456789''
                   \<and> digit_char (q mod 10) \<in> set ''0123456789'')))"
proof -
  from traffic_routes_returns [OF assms, of df sy sm ey em] obtain out where
    res: "analyze_traffic_routes df sy sm ey em traffic_level traffic_type aggregate_by = Inr out"
    by blast
  have s1: "traffic_type = ''Passengers'' \<longrightarrow> unit_suffix = []"
    and s2: "traffic_type \<noteq> ''Passengers'' \<longrightarrow> unit_suffix = ''t''"
    using formatted_value_shape [of traffic_type in_col out_col total_col unit_suffix 0 "''t''"]
      assms(1) by blast+
  have fields: "\<forall>row \<in> set out.
         \<forall>(direction, col) \<in> set [(''In'', in_col), (''Out'', out_col), (''Total'', total_col)].
          \<exists>ev.
             extreme_value traffic_level
               (groupby_sum Route [in_col, out_col, total_col]
                  (row_bucket (traffic_routes_filtered_df df sy sm ey em) row)) col = Some ev
           \<and> ev = (if traffic_level = ''Most''
               then Max (route_total col (row_bucket (traffic_routes_filtered_df df sy sm ey em) row)
                     ` Route ` set (row_bucket (traffic_routes_filtered_df df sy sm ey em) row))
               else Min (route_total col (row_bucket (traffic_routes_filtered_df df sy sm ey em) row)
                     ` Route ` set (row_bucket (traffic_routes_filtered_df df sy sm ey em) row)))
           \<and> get_field (direction @ ''_Value'') row = Some (formatted_value unit_suffix ev)
           \<and> (unit_suffix = [] \<longrightarrow>
                 get_field (direction @ ''_Value'') row = Some (str_int (int_of_number ev))
               \<and> int_of_str (str_int (int_of_number ev)) = int_of_number ev
               \<and> \<bar>of_int (int_of_number ev)\<bar> \<le> \<bar>ev\<bar>
               \<and> \<bar>ev - of_int (int_of_number ev)\<bar> < 1)
           \<and> (unit_suffix \<noteq> [] \<longrightarrow>
                (\<exists>q. get_field (direction @ ''_Value'') row =
                       Some ((if ev < 0 then ''-'' else []) @ str_nat (q div 10) @ ''.'' @
                             [digit_char (q mod 10)] @ unit_suffix)
                   \<and> \<bar>\<bar>ev\<bar> * 10 - of_nat q\<bar> \<le> 1 / 2
                   \<and> nat_of_str (str_nat (q div 10)) = q div 10
                   \<and> digit_val (digit_char (q mod 10)) = q mod 10
                   \<and> set (str_nat (q div 10)) \<subseteq> set ''0123456789''
                   \<and> digit_char (q mod 10) \<in> set ''0123456789''))"
  proof (intro ballI, clarify)
    fix row direction col
    assume row: "row \<in> set out"
      and dir: "(direction, col) \<in> set [(''In'', in_col), (''Out'', out_col), (''Total'', total_col)]"
    from traffic_routes_row_fields [OF assms res row dir]
    obtain ev where
      e: "extreme_value traffic_level
               (groupby_sum Route [in_col, out_col, total_col]
                  (row_bucket (traffic_routes_filtered_df df sy sm ey em) row)) col = Some ev"
      and mx: "ev = (if traffic_level = ''Most''
               then Max (route_total col (row_bucket (traffic_routes_filtered_df df sy sm ey em) row)
                     ` Route ` set (row_bucket (traffic_routes_filtered_df df sy sm ey em) row))
               else Min (route_total col (row_bucket (traffic_routes_filtered_df df sy sm ey em) row)
                     ` Route ` set (row_bucket (traffic_routes_filtered_df df sy sm ey em) row)))"
      and fv: "get_field (direction @ ''_Value'') row = Some (formatted_value unit_suffix ev)"
      by blast
    note sh = formatted_value_shape [of traffic_type in_col out_col total_col unit_suffix ev
        unit_suffix]
    have p: "unit_suffix = [] \<longrightarrow>
                 get_field (direction @ ''_Value'') row = Some (str_int (int_of_number ev))
               \<and> int_of_str (str_int (int_of_number ev)) = int_of_number ev
               \<and> \<bar>of_int (int_of_number ev)\<bar> \<le> \<bar>ev\<bar>
               \<and> \<bar>ev - of_int (int_of_number ev)\<bar> < 1"
    proof
      assume u: "unit_suffix = []"
      from sh have a: "formatted_value [] ev = str_int (int_of_number ev)"
        and b: "int_of_str (formatted_value [] ev) = int_of_number ev"
        and c: "\<bar>of_int (int_of_number ev)\<bar> \<le> \<bar>ev\<bar>"
        and d: "\<bar>ev - of_int (int_of_number ev)\<bar> < 1"
        by blast+
      from fv u a have g: "get_field (direction @ ''_Value'') row =
          Some (str_int (int_of_number ev))"
        by simp
      from b a have b': "int_of_str (str_int (int_of_number ev)) = int_of_number ev" by simp
      show "get_field (direction @ ''_Value'') row = Some (str_int (int_of_number ev))
               \<and> int_of_str (str_int (int_of_number ev)) = int_of_number ev
               \<and> \<bar>of_int (int_of_number ev)\<bar> \<le> \<bar>ev\<bar>
               \<and> \<bar>ev - of_int (int_of_number ev)\<bar> < 1"
        by (intro conjI g b' c d)
    qed
    have f: "unit_suffix \<noteq> [] \<longrightarrow>
                (\<exists>q. get_field (direction @ ''_Value'') row =
                       Some ((if ev < 0 then ''-'' else []) @ str_nat (q div 10) @ ''.'' @
                             [digit_char (q mod 10)] @ unit_suffix)
                   \<and> \<bar>\<bar>ev\<bar> * 10 - of_nat q\<bar> \<le> 1 / 2
                   \<and> nat_of_str (str_nat (q div 10)) = q div 10
                   \<and> digit_val (digit_char (q mod 10)) = q mod 10
                   \<and> set (str_nat (q div 10)) \<subseteq> set ''0123456789''
                   \<and> digit_char (q mod 10) \<in> set ''0123456789'')"
    proof
      assume u: "unit_suffix \<noteq> []"
      from sh u obtain q where
        q: "formatted_value unit_suffix ev =
               (if ev < 0 then ''-'' else []) @ str_nat (q div 10) @ ''.'' @
               [digit_char (q mod 10)] @ unit_suffix"
          "\<bar>\<bar>ev\<bar> * 10 - of_nat q\<bar> \<le> 1 / 2"
          "nat_of_str (str_nat (q div 10)) = q div 10"
          "digit_val (digit_char (q mod 10)) = q mod 10"
          "set (str_nat (q div 10)) \<subseteq> set ''0123456789''"
          "digit_char (q mod 10) \<in> set ''0123456789''"
        by blast
      have g: "get_field (direction @ ''_Value'') row =
                       Some ((if ev < 0 then ''-'' else []) @ str_nat (q div 10) @ ''.'' @
                             [digit_char (q mod 10)] @ unit_suffix)"
        using fv q(1) by simp
      show "\<exists>q. get_field (direction @ ''_Value'') row =
                       Some ((if ev < 0 then ''-'' else []) @ str_nat (q div 10) @ ''.'' @
                             [digit_char (q mod 10)] @ unit_suffix)
                   \<and> \<bar>\<bar>ev\<bar> * 10 - of_nat q\<bar> \<le> 1 / 2
                   \<and> nat_of_str (str_nat (q div 10)) = q div 10
                   \<and> digit_val (digit_char (q mod 10)) = q mod 10
                   \<and> set (str_nat (q div 10)) \<subseteq> set ''0123456789''
                   \<and> digit_char (q mod 10) \<in> set ''0123456789''"
        by (intro exI [of _ q] conjI g q(2-))
    qed
    show "\<exists>ev.
             extreme_value traffic_level
               (groupby_sum Route [in_col, out_col, total_col]
                  (row_bucket (traffic_routes_filtered_df df sy sm ey em) row)) col = Some ev
           \<and> ev = (if traffic_level = ''Most''
               then Max (route_total col (row_bucket (traffic_routes_filtered_df df sy sm ey em) row)
                     ` Route ` set (row_bucket (traffic_routes_filtered_df df sy sm ey em) row))
               else Min (route_total col (row_bucket (traffic_routes_filtered_df df sy sm ey em) row)
                     ` Route ` set (row_bucket (traffic_routes_filtered_df df sy sm ey em) row)))
           \<and> get_field (direction @ ''_Value'') row = Some (formatted_value unit_suffix ev)
           \<and> (unit_suffix = [] \<longrightarrow>
                 get_field (direction @ ''_Value'') row = Some (str_int (int_of_number ev))
               \<and> int_of_str (str_int (int_of_number ev)) = int_of_number ev
               \<and> \<bar>of_int (int_of_number ev)\<bar> \<le> \<bar>ev\<bar>
               \<and> \<bar>ev - of_int (int_of_number ev)\<bar> < 1)
           \<and> (unit_suffix \<noteq> [] \<longrightarrow>
                (\<exists>q. get_field (direction @ ''_Value'') row =
                       Some ((if ev < 0 then ''-'' else []) @ str_nat (q div 10) @ ''.'' @
                             [digit_char (q mod 10)] @ unit_suffix)
                   \<and> \<bar>\<bar>ev\<bar> * 10 - of_nat q\<bar> \<le> 1 / 2
                   \<and> nat_of_str (str_nat (q div 10)) = q div 10
                   \<and> digit_val (digit_char (q mod 10)) = q mod 10
                   \<and> set (str_nat (q div 10)) \<subseteq> set ''0123456789''
                   \<and> digit_char (q mod 10) \<in> set ''0123456789''))"
      by (intro exI [of _ ev] conjI e mx fv p f)
  qed
  show ?thesis
    by (intro exI [of _ out] conjI res s1 s2 fields)
qed

text \<open>
  One year with two routes. The largest freight total, 123.25 tonnes, is shown as
  \<open>123.2t\<close> and the largest incoming freight, 0.75 tonnes, as \<open>0.8t\<close>; the smallest
  passenger total, 80.5, is shown as \<open>80\<close>.
\<close>

theorem formatted_value_rendering_witness:
  "col_mapping ''Freight'' = Some (C_Freight_In, C_Freight_Out, C_Freight_Total, ''t'')
   \<and> col_mapping ''Passengers'' =
       Some (C_Passengers_In, C_Passengers_Out, C_Passengers_Total, [])
   \<and> ''Most'' \<in> {''Most'', ''Least''} \<and> ''Least'' \<in> {''Most'', ''Least''}
   \<and> ''Year'' \<in> {''Month'', ''Year''}
   \<and> (\<exists>row. analyze_traffic_routes freight_table 1985 1 1985 12 ''Most'' ''Freight'' ''Year''
              = Inr [row]
          \<and> row_bucket (traffic_routes_filtered_df freight_table 1985 1 1985 12) row
              = freight_table
          \<and> extreme_value ''Most''
               (groupby_sum Route [C_Freight_In, C_Freight_Out, C_Freight_Total] freight_table)
               C_Freight_Total = Some (493 / 4)
          \<and> extreme_value ''Most''
               (groupby_sum Route [C_Freight_In, C_Freight_Out, C_Freight_Total] freight_table)
               C_Freight_In = Some (3 / 4)
          \<and> get_field ''Total_Value'' row = Some ''123.2t''
          \<and> get_field ''In_Value'' row = Some ''0.8t'')
   \<and> (\<exists>row. analyze_traffic_routes freight_table 1985 1 1985 12 ''Least'' ''Passengers'' ''Year''
              = Inr [row]
          \<and> row_bucket (traffic_routes_filtered_df freight_table 1985 1 1985 12) row
              = freight_table
          \<and> extreme_value ''Least''
               (groupby_sum Route [C_Passengers_In, C_Passengers_Out, C_Passengers_Total]
                  freight_table) C_Passengers_Total = Some (161 / 2)
          \<and> get_field ''Total_Value'' row = Some ''80'')"
proof -
  let ?tf = "groupby_sum Route [C_Freight_In, C_Freight_Out, C_Freight_Total] freight_table"
  let ?tp = "groupby_sum Route [C_Passengers_In, C_Passengers_Out, C_Passengers_Total]
      freight_table"
  have h1: "col_mapping ''Freight'' = Some (C_Freight_In, C_Freight_Out, C_Freight_Total, ''t'')"
    by (simp add: col_mapping_def)
  have h1': "col_mapping ''Passengers'' =
      Some (C_Passengers_In, C_Passengers_Out, C_Passengers_Total, [])"
    by (simp add: col_mapping_def)
  have h2: "''Most'' \<in> {''Most'', ''Least''}" and h2': "''Least'' \<in> {''Most'', ''Least''}"
    and h3: "''Year'' \<in> {''Month'', ''Year''}"
    by simp_all
  have bk: "row_year row = 1985 \<Longrightarrow> row_month row = None \<Longrightarrow>
      row_bucket (traffic_routes_filtered_df freight_table 1985 1 1985 12) row = freight_table"
    for row
  proof -
    assume y: "row_year row = 1985" and m: "row_month row = None"
    show ?thesis unfolding row_bucket_def y m by code_simp
  qed
  have app: "''Total'' @ ''_Value'' = ''Total_Value''" "''In'' @ ''_Value'' = ''In_Value''"
    by simp_all
  have ef: "extreme_value ''Most'' ?tf C_Freight_Total = Some (493 / 4)" by code_simp
  have ei: "extreme_value ''Most'' ?tf C_Freight_In = Some (3 / 4)" by code_simp
  have ep: "extreme_value ''Least'' ?tp C_Passengers_Total = Some (161 / 2)" by code_simp
  have ff: "formatted_value ''t'' (493 / 4) = ''123.2t''" by code_simp
  have fi: "formatted_value ''t'' (3 / 4) = ''0.8t''" by code_simp
  have fp: "formatted_value [] (161 / 2) = ''80''" by code_simp
  have freight: "\<exists>row. analyze_traffic_routes freight_table 1985 1 1985 12 ''Most'' ''Freight''
              ''Year'' = Inr [row]
          \<and> row_bucket (traffic_routes_filtered_df freight_table 1985 1 1985 12) row
              = freight_table
          \<and> extreme_value ''Most'' ?tf C_Freight_Total = Some (493 / 4)
          \<and> extreme_value ''Most'' ?tf C_Freight_In = Some (3 / 4)
          \<and> get_field ''Total_Value'' row = Some ''123.2t''
          \<and> get_field ''In_Value'' row = Some ''0.8t''"
  proof -
    from formatted_value_rendering [OF h1 h2 h3, of freight_table 1985 1 1985 12]
    obtain out where
      res: "analyze_traffic_routes freight_table 1985 1 1985 12 ''Most'' ''Freight'' ''Year''
            = Inr out"
      and fields: "\<forall>row \<in> set out.
         \<forall>(direction, col) \<in> set [(''In'', C_Freight_In), (''Out'', C_Freight_Out),
             (''Total'', C_Freight_Total)].
          \<exists>ev.
             extreme_value ''Most''
               (groupby_sum Route [C_Freight_In, C_Freight_Out, C_Freight_Total]
                  (row_bucket (traffic_routes_filtered_df freight_table 1985 1 1985 12) row)) col = Some ev
           \<and> ev = (if ''Most'' = ''Most''
               then Max (route_total col (row_bucket (traffic_routes_filtered_df freight_table 1985 1 1985 12) row)
                     ` Route ` set (row_bucket (traffic_routes_filtered_df freight_table 1985 1 1985 12) row))
               else Min (route_total col (row_bucket (traffic_routes_filtered_df freight_table 1985 1 1985 12) row)
                     ` Route ` set (row_bucket (traffic_routes_filtered_df freight_table 1985 1 1985 12) row)))
           \<and> get_field (direction @ ''_Value'') row = Some (formatted_value ''t'' ev)
           \<and> (''t'' = [] \<longrightarrow>
                 get_field (direction @ ''_Value'') row = Some (str_int (int_of_number ev))
               \<and> int_of_str (str_int (int_of_number ev)) = int_of_number ev
               \<and> \<bar>of_int (int_of_number ev)\<bar> \<le> \<bar>ev\<bar>
               \<and> \<bar>ev - of_int (int_of_number ev)\<bar> < 1)
           \<and> (''t'' \<noteq> [] \<longrightarrow>
                (\<exists>q. get_field (direction @ ''_Value'') row =
                       Some ((if ev < 0 then ''-'' else []) @ str_nat (q div 10) @ ''.'' @
                             [digit_char (q mod 10)] @ ''t'')
                   \<and> \<bar>\<bar>ev\<bar> * 10 - of_nat q\<bar> \<le> 1 / 2
                   \<and> nat_of_str (str_nat (q div 10)) = q div 10
                   \<and> digit_val (digit_char (q mod 10)) = q mod 10
                   \<and> set (str_nat (q div 10)) \<subseteq> set ''0123456789''
                   \<and> digit_char (q mod 10) \<in> set ''0123456789''))"
      by blast
    have "map_sum id (map (\<lambda>row. (row_year row, row_month row)))
        (analyze_traffic_routes freight_table 1985 1 1985 12 ''Most'' ''Freight'' ''Year'')
        = Inr [(1985, None)]"
      by code_simp
    with res have "map (\<lambda>row. (row_year row, row_month row)) out = [(1985, None)]"
      by simp
    then obtain row where out: "out = [row]" and y: "row_year row = 1985"
      and m: "row_month row = None"
      by auto
    note b = bk [OF y m]
    have rin: "row \<in> set out" using out by simp
    have d1: "(''Total'', C_Freight_Total) \<in> set [(''In'', C_Freight_In),
        (''Out'', C_Freight_Out), (''Total'', C_Freight_Total)]"
      and d2: "(''In'', C_Freight_In) \<in> set [(''In'', C_Freight_In),
        (''Out'', C_Freight_Out), (''Total'', C_Freight_Total)]"
      by simp_all
    from fields [THEN bspec, OF rin, THEN bspec, OF d1, unfolded b prod.case app]
    obtain ev where e: "extreme_value ''Most'' ?tf C_Freight_Total = Some ev"
      and g: "get_field ''Total_Value'' row = Some (formatted_value ''t'' ev)"
      by blast
    from e have "Some ev = Some (493 / 4 :: rat)" by (simp only: ef)
    then have "ev = 493 / 4" by (simp only: option.inject)
    with g have g1: "get_field ''Total_Value'' row = Some ''123.2t''" by (simp only: ff)
    from fields [THEN bspec, OF rin, THEN bspec, OF d2, unfolded b prod.case app]
    obtain ev' where e': "extreme_value ''Most'' ?tf C_Freight_In = Some ev'"
      and g': "get_field ''In_Value'' row = Some (formatted_value ''t'' ev')"
      by blast
    from e' have "Some ev' = Some (3 / 4 :: rat)" by (simp only: ei)
    then have "ev' = 3 / 4" by (simp only: option.inject)
    with g' have g2: "get_field ''In_Value'' row = Some ''0.8t''" by (simp only: fi)
    show ?thesis
      by (intro exI [of _ row] conjI res [unfolded out] b ef ei g1 g2)
  qed
  have passengers: "\<exists>row. analyze_traffic_routes freight_table 1985 1 1985 12 ''Least''
              ''Passengers'' ''Year'' = Inr [row]
          \<and> row_bucket (traffic_routes_filtered_df freight_table 1985 1 1985 12) row
              = freight_table
          \<and> extreme_value ''Least'' ?tp C_Passengers_Total = Some (161 / 2)
          \<and> get_field ''Total_Value'' row = Some ''80''"
  proof -
    from formatted_value_rendering [OF h1' h2' h3, of freight_table 1985 1 1985 12]
    obtain out where
      res: "analyze_traffic_routes freight_table 1985 1 1985 12 ''Least'' ''Passengers'' ''Year''
            = Inr out"
      and fields: "\<forall>row \<in> set out.
         \<forall>(direction, col) \<in> set [(''In'', C_Passengers_In), (''Out'', C_Passengers_Out),
             (''Total'', C_Passengers_Total)].
          \<exists>ev.
             extreme_value ''Least''
               (groupby_sum Route [C_Passengers_In, C_Passengers_Out, C_Passengers_Total]
                  (row_bucket (traffic_routes_filtered_df freight_table 1985 1 1985 12) row)) col = Some ev
           \<and> ev = (if ''Least'' = ''Most''
               then Max (route_total col (row_bucket (traffic_routes_filtered_df freight_table 1985 1 1985 12) row)
                     ` Route ` set (row_bucket (traffic_routes_filtered_df freight_table 1985 1 1985 12) row))
               else Min (route_total col (row_bucket (traffic_routes_filtered_df freight_table 1985 1 1985 12) row)
                     ` Route ` set (row_bucket (traffic_routes_filtered_df freight_table 1985 1 1985 12) row)))
           \<and> get_field (direction @ ''_Value'') row = Some (formatted_value [] ev)
           \<and> ([] = [] \<longrightarrow>
                 get_field (direction @ ''_Value'') row = Some (str_int (int_of_number ev))
               \<and> int_of_str (str_int (int_of_number ev)) = int_of_number ev
               \<and> \<bar>of_int (int_of_number ev)\<bar> \<le> \<bar>ev\<bar>
               \<and> \<bar>ev - of_int (int_of_number ev)\<bar> < 1)
           \<and> ([] \<noteq> [] \<longrightarrow>
                (\<exists>q. get_field (direction @ ''_Value'') row =
                       Some ((if ev < 0 then ''-'' else []) @ str_nat (q div 10) @ ''.'' @
                             [digit_char (q mod 10)] @ [])
                   \<and> \<bar>\<bar>ev\<bar> * 10 - of_nat q\<bar> \<le> 1 / 2
                   \<and> nat_of_str (str_nat (q div 10)) = q div 10
                   \<and> digit_val (digit_char (q mod 10)) = q mod 10
                   \<and> set (str_nat (q div 10)) \<subseteq> set ''0123456789''
                   \<and> digit_char (q mod 10) \<in> set ''0123456789''))"
      by blast
    have "map_sum id (map (\<lambda>row. (row_year row, row_month row)))
        (analyze_traffic_routes freight_table 1985 1 1985 12 ''Least'' ''Passengers'' ''Year'')
        = Inr [(1985, None)]"
      by code_simp
    with res have "map (\<lambda>row. (row_year row, row_month row)) out = [(1985, None)]"
      by simp
    then obtain row where out: "out = [row]" and y: "row_year row = 1985"
      and m: "row_month row = None"
      by auto
    note b = bk [OF y m]
    have rin: "row \<in> set out" using out by simp
    have d1: "(''Total'', C_Passengers_Total) \<in> set [(''In'', C_Passengers_In),
        (''Out'', C_Passengers_Out), (''Total'', C_Passengers_Total)]"
      by simp
    from fields [THEN bspec, OF rin, THEN bspec, OF d1, unfolded b prod.case app]
    obtain ev where e: "extreme_value ''Least'' ?tp C_Passengers_Total = Some ev"
      and g: "get_field ''Total_Value'' row = Some (formatted_value [] ev)"
      by blast
    from e have "Some ev = Some (161 / 2 :: rat)" by (simp only: ep)
    then have "ev = 161 / 2" by (simp only: option.inject)
    with g have g1: "get_field ''Total_Value'' row = Some ''80''" by (simp only: fp)
    show ?thesis
      by (intro exI [of _ row] conjI res [unfolded out] b ep g1)
  qed
  show ?thesis
    by (intro conjI h1 h1' h2 h2' h3 freight passengers)
qed

subsection \<open>A frame without a metric column\<close>

text \<open>
  On a frame that has the three columns of the traffic type, the function on frames is
  the function on records.
\<close>

lemma period_row_frame_present:
  assumes "set [in_col, out_col, total_col] \<subseteq> set present"
  shows "period_row_frame present traffic_level (in_col, out_col, total_col, unit_suffix)
           result_row period_data =
         period_row traffic_level (in_col, out_col, total_col, unit_suffix) result_row period_data"
  using assms by (simp add: period_row_frame_def period_row_def groupby_route_select_def)

lemma analyze_traffic_routes_frame_present:
  assumes "col_mapping traffic_type = Some (in_col, out_col, total_col, unit_suffix)"
    and "set [in_col, out_col, total_col] \<subseteq> set (frame_columns df)"
  shows "analyze_traffic_routes_frame df sy sm ey em traffic_level traffic_type aggregate_by =
         analyze_traffic_routes (frame_records df) sy sm ey em traffic_level traffic_type
           aggregate_by"
  unfolding analyze_traffic_routes_frame_def analyze_traffic_routes_def
  by (simp only: assms(1) option.case period_row_frame_present [OF assms(2)])


subsection \<open>The ranking of the latest year\<close>

lemma shift_growth_keys:
  "map (\<lambda>row. (g_Year row, g_Country row)) (shift_growth seen ys) = map (\<lambda>(y, c, p). (y, c)) ys"
  by (induction ys arbitrary: seen) auto

lemma yearly_country_keys:
  "map (\<lambda>(y, c, p). (y, c)) (yearly_country fd) =
     sort (remdups (map (\<lambda>r. (Year r, Country r)) fd))"
  unfolding yearly_country_def by (simp add: split_def comp_def)

text \<open>There is one row for a year and a country.\<close>

lemma growth_rows_distinct:
  "distinct (map (\<lambda>row. (g_Year row, g_Country row)) (shift_growth seen (yearly_country fd)))"
  unfolding shift_growth_keys yearly_country_keys by simp

lemma growth_row_unique:
  assumes "a \<in> set (shift_growth seen (yearly_country fd))"
    and "b \<in> set (shift_growth seen (yearly_country fd))"
    and "g_Year a = g_Year b" and "g_Country a = g_Country b"
  shows "a = b"
proof -
  from growth_rows_distinct [of seen fd]
  have "inj_on (\<lambda>row. (g_Year row, g_Country row)) (set (shift_growth seen (yearly_country fd)))"
    by (simp only: distinct_map)
  then show ?thesis using assms by (auto dest: inj_onD)
qed

text \<open>
  A row with a baseline is the row of its country for its year \<open>L\<close> and the latest year
  \<open>B\<close> before \<open>L\<close> in which the country has a record.
\<close>

lemma growth_row_form:
  assumes mem: "row \<in> set (shift_growth Map.empty (yearly_country fd))"
    and prev: "prev_year_passengers row \<noteq> None"
  shows "\<exists>B. (\<exists>r \<in> set fd. Year r = g_Year row \<and> Country r = g_Country row)
       \<and> (\<exists>b \<in> set fd. Year b = B \<and> Country b = g_Country row)
       \<and> B < g_Year row
       \<and> (\<forall>x \<in> set fd. Country x = g_Country row \<longrightarrow> Year x \<le> B \<or> g_Year row \<le> Year x)
       \<and> row = \<lparr>g_Year = g_Year row, g_Country = g_Country row,
                 g_Passengers_Total = country_year_total fd (g_Year row) (g_Country row),
                 prev_year_passengers = Some (country_year_total fd B (g_Country row)),
                 growth_rate = growth_of (country_year_total fd (g_Year row) (g_Country row))
                                 (Some (country_year_total fd B (g_Country row)))\<rparr>"
proof -
  define L where "L = g_Year row"
  define c where "c = g_Country row"
  define S where "S = Year ` {x \<in> set fd. Country x = c \<and> Year x < L}"
  define B where "B = Max S"
  from growth_row_observed [OF mem] obtain r where
    r: "r \<in> set fd" "Year r = L" "Country r = c"
    unfolding L_def c_def by blast
  from growth_row_baseline [OF mem prev] obtain b0 where
    "b0 \<in> set fd" "Country b0 = c" "Year b0 < L"
    unfolding L_def c_def by blast
  then have ne: "S \<noteq> {}" unfolding S_def by blast
  have fin: "finite S" unfolding S_def by simp
  from Max_in [OF fin ne] have "B \<in> S" unfolding B_def .
  then obtain b where b: "b \<in> set fd" "Year b = B" "Country b = c" and lt: "B < L"
    unfolding S_def by auto
  have gap: "\<forall>x \<in> set fd. Country x = c \<longrightarrow> Year x \<le> B \<or> L \<le> Year x"
  proof (intro ballI impI)
    fix x assume x: "x \<in> set fd" "Country x = c"
    show "Year x \<le> B \<or> L \<le> Year x"
    proof (cases "Year x < L")
      case True
      with x have "Year x \<in> S" unfolding S_def by blast
      then have "Year x \<le> B" unfolding B_def using fin by simp
      then show ?thesis by simp
    next
      case False
      then show ?thesis by simp
    qed
  qed
  let ?e = "\<lparr>g_Year = L, g_Country = c, g_Passengers_Total = country_year_total fd L c,
           prev_year_passengers = Some (country_year_total fd B c),
           growth_rate = growth_of (country_year_total fd L c)
                           (Some (country_year_total fd B c))\<rparr>"
  have e: "?e \<in> set (shift_growth Map.empty (yearly_country fd))"
    by (rule baseline_previous_observed [OF r b lt gap])
  have "row = ?e"
    by (rule growth_row_unique [OF mem e]) (simp_all add: L_def c_def)
  with r b lt gap show ?thesis
    unfolding L_def c_def
    by (intro exI [of _ B] conjI) (blast, blast, assumption, assumption, assumption)
qed

text \<open>
  The rows that are ranked: one for every country that has a record in the latest year,
  a record in an earlier year, and a growth rate that is not NaN.
\<close>

lemma latest_growth_rows:
  "row \<in> set (latest_growth (shift_growth Map.empty (yearly_country fd))) \<longleftrightarrow>
     (\<exists>c B. (\<exists>r \<in> set fd. Year r = Max (Year ` set fd) \<and> Country r = c)
           \<and> (\<exists>b \<in> set fd. Year b = B \<and> Country b = c)
           \<and> B < Max (Year ` set fd)
           \<and> (\<forall>x \<in> set fd. Country x = c \<longrightarrow> Year x \<le> B \<or> Max (Year ` set fd) \<le> Year x)
           \<and> row = \<lparr>g_Year = Max (Year ` set fd), g_Country = c,
                     g_Passengers_Total = country_year_total fd (Max (Year ` set fd)) c,
                     prev_year_passengers = Some (country_year_total fd B c),
                     growth_rate = growth_of (country_year_total fd (Max (Year ` set fd)) c)
                                     (Some (country_year_total fd B c))\<rparr>
           \<and> growth_rate row \<noteq> NaN)"
  (is "?lhs \<longleftrightarrow> ?rhs")
proof
  let ?gs = "shift_growth Map.empty (yearly_country fd)"
  have yrs: "g_Year ` set ?gs = Year ` set fd" by (rule growth_years)
  assume ?lhs
  then have mem: "row \<in> set ?gs" and latest: "g_Year row = Max (Year ` set fd)"
    and prev: "prev_year_passengers row \<noteq> None" and nn: "growth_rate row \<noteq> NaN"
    by (simp_all add: latest_growth_mem yrs)
  from growth_row_form [OF mem prev] obtain B where
    f: "\<exists>r \<in> set fd. Year r = g_Year row \<and> Country r = g_Country row"
      "\<exists>b \<in> set fd. Year b = B \<and> Country b = g_Country row"
      "B < g_Year row"
      "\<forall>x \<in> set fd. Country x = g_Country row \<longrightarrow> Year x \<le> B \<or> g_Year row \<le> Year x"
      "row = \<lparr>g_Year = g_Year row, g_Country = g_Country row,
                 g_Passengers_Total = country_year_total fd (g_Year row) (g_Country row),
                 prev_year_passengers = Some (country_year_total fd B (g_Country row)),
                 growth_rate = growth_of (country_year_total fd (g_Year row) (g_Country row))
                                 (Some (country_year_total fd B (g_Country row)))\<rparr>"
    by blast
  show ?rhs
    by (intro exI [of _ "g_Country row"] exI [of _ B] conjI f [unfolded latest] nn)
next
  let ?gs = "shift_growth Map.empty (yearly_country fd)"
  have yrs: "g_Year ` set ?gs = Year ` set fd" by (rule growth_years)
  assume ?rhs
  then obtain c B r b where
    r: "r \<in> set fd" "Year r = Max (Year ` set fd)" "Country r = c"
    and b: "b \<in> set fd" "Year b = B" "Country b = c"
    and lt: "B < Max (Year ` set fd)"
    and gap: "\<forall>x \<in> set fd. Country x = c \<longrightarrow> Year x \<le> B \<or> Max (Year ` set fd) \<le> Year x"
    and row: "row = \<lparr>g_Year = Max (Year ` set fd), g_Country = c,
                     g_Passengers_Total = country_year_total fd (Max (Year ` set fd)) c,
                     prev_year_passengers = Some (country_year_total fd B c),
                     growth_rate = growth_of (country_year_total fd (Max (Year ` set fd)) c)
                                     (Some (country_year_total fd B c))\<rparr>"
    and nn: "growth_rate row \<noteq> NaN"
    by blast
  have mem: "row \<in> set ?gs"
    unfolding row by (rule baseline_previous_observed [OF r b lt gap])
  have latest: "g_Year row = Max (g_Year ` set ?gs)" unfolding yrs row by simp
  have prev: "prev_year_passengers row \<noteq> None" unfolding row by simp
  show ?lhs
    unfolding latest_growth_mem by (intro conjI mem latest prev nn)
qed

lemma latest_growth_countries:
  "distinct (map g_Country (latest_growth (shift_growth seen (yearly_country fd))))"
proof -
  let ?gs = "shift_growth seen (yearly_country fd)"
  let ?lg = "latest_growth ?gs"
  have sub: "set ?lg \<subseteq> set ?gs" by (auto simp: latest_growth_mem)
  have same: "\<forall>a \<in> set ?lg. \<forall>b \<in> set ?lg. g_Year a = g_Year b"
    by (simp add: latest_growth_mem)
  have d: "distinct ?lg"
  proof -
    have "distinct ?gs" using growth_rows_distinct [of seen fd] by (simp only: distinct_map)
    then show ?thesis
      by (cases ?gs) (simp_all add: latest_growth_def Let_def)
  qed
  have "inj_on g_Country (set ?lg)"
  proof (rule inj_onI)
    fix a b
    assume a: "a \<in> set ?lg" and b: "b \<in> set ?lg" and eq: "g_Country a = g_Country b"
    from same a b have "g_Year a = g_Year b" by blast
    with growth_row_unique [of a seen fd b] a b sub eq show "a = b" by blast
  qed
  with d show ?thesis by (simp only: distinct_map)
qed

lemma distinct_map_sort_values_desc:
  "distinct (map g (sort_values_desc f xs)) \<longleftrightarrow> distinct (map g xs)"
  by (simp add: distinct_map sort_values_desc_def set_sort_values_desc)

lemma head_prefix: "\<exists>rest. xs = head n xs @ rest"
proof (cases "0 \<le> n")
  case True
  then have "xs = head n xs @ drop (nat n) xs" by (simp add: head_def)
  then show ?thesis ..
next
  case False
  then have "xs = head n xs @ drop (length xs - nat (- n)) xs" by (simp add: head_def)
  then show ?thesis ..
qed

lemma length_head_exact:
  "length (head n xs) =
     (if 0 \<le> n then min (nat n) (length xs) else length xs - nat (- n))"
  unfolding head_def by (simp add: min.commute)

text \<open>
  C8, as the code computes it. With the pattern type \<open>regional_growth\<close> the function
  returns \<open>head top_n\<close> of a ranking of rows. The rows of the ranking are exactly these:
  for every country with a record in the latest year \<open>L\<close> of the filtered records and a
  record in an earlier year, the row of the year \<open>L\<close> with the country's total of \<open>L\<close>,
  its total of the latest earlier year \<open>B\<close> in which it has a record, and the growth rate
  from the one to the other, unless that rate is NaN. So every row is of the latest year,
  there is one row for a country, and a country whose records are all in the latest year
  has no row. The ranking is in descending order of the growth rate, and the output is a
  prefix of it: its first \<open>top_n\<close> rows (all when there are fewer) when \<open>top_n\<close> is not
  negative, and all but its last \<open>- top_n\<close> rows when \<open>top_n\<close> is negative. It has at
  most \<open>top_n\<close> rows when \<open>top_n\<close> is not negative.
\<close>

theorem regional_growth_ranking:
  assumes "fd = filter_data_by_period df sy sm ey em"
  shows "\<exists>ranked.
       analyze_geographical_patterns df sy sm ey em ''regional_growth'' top_n
         = Inr (RegionalGrowth (head top_n ranked))
     \<and> (\<forall>row. row \<in> set ranked \<longleftrightarrow>
          (\<exists>c B. (\<exists>r \<in> set fd. Year r = Max (Year ` set fd) \<and> Country r = c)
              \<and> (\<exists>b \<in> set fd. Year b = B \<and> Country b = c)
              \<and> B < Max (Year ` set fd)
              \<and> (\<forall>x \<in> set fd. Country x = c \<longrightarrow>
                    Year x \<le> B \<or> Max (Year ` set fd) \<le> Year x)
              \<and> row = \<lparr>g_Year = Max (Year ` set fd), g_Country = c,
                    g_Passengers_Total = country_year_total fd (Max (Year ` set fd)) c,
                    prev_year_passengers = Some (country_year_total fd B c),
                    growth_rate = growth_of (country_year_total fd (Max (Year ` set fd)) c)
                                    (Some (country_year_total fd B c))\<rparr>
              \<and> growth_rate row \<noteq> NaN))
     \<and> (\<forall>row \<in> set ranked. g_Year row = Max (Year ` set fd))
     \<and> distinct (map g_Country ranked)
     \<and> (\<forall>c. (\<forall>r \<in> set fd. Country r = c \<longrightarrow> Year r = Max (Year ` set fd)) \<longrightarrow>
             (\<forall>row \<in> set ranked. g_Country row \<noteq> c))
     \<and> sorted_wrt (\<lambda>a b. fkey (growth_rate a) \<ge> fkey (growth_rate b)) ranked
     \<and> (\<exists>rest. ranked = head top_n ranked @ rest)
     \<and> length (head top_n ranked) =
         (if 0 \<le> top_n then min (nat top_n) (length ranked)
          else length ranked - nat (- top_n))
     \<and> (0 \<le> top_n \<longrightarrow> int (length (head top_n ranked)) \<le> top_n)"
proof -
  let ?gs = "shift_growth Map.empty (yearly_country fd)"
  let ?ranked = "sort_values_desc (\<lambda>r. fkey (growth_rate r)) (latest_growth ?gs)"
  let ?L = "Max (Year ` set fd)"
  have res: "analyze_geographical_patterns df sy sm ey em ''regional_growth'' top_n
      = Inr (RegionalGrowth (head top_n ?ranked))"
    unfolding assms by (rule regional_growth_unfold)
  have st: "set ?ranked = set (latest_growth ?gs)" by (rule set_sort_values_desc)
  have rows: "\<forall>row. row \<in> set ?ranked \<longleftrightarrow>
          (\<exists>c B. (\<exists>r \<in> set fd. Year r = ?L \<and> Country r = c)
              \<and> (\<exists>b \<in> set fd. Year b = B \<and> Country b = c)
              \<and> B < ?L
              \<and> (\<forall>x \<in> set fd. Country x = c \<longrightarrow> Year x \<le> B \<or> ?L \<le> Year x)
              \<and> row = \<lparr>g_Year = ?L, g_Country = c,
                    g_Passengers_Total = country_year_total fd ?L c,
                    prev_year_passengers = Some (country_year_total fd B c),
                    growth_rate = growth_of (country_year_total fd ?L c)
                                    (Some (country_year_total fd B c))\<rparr>
              \<and> growth_rate row \<noteq> NaN)"
    unfolding st by (intro allI) (rule latest_growth_rows)
  have yrs: "g_Year ` set ?gs = Year ` set fd" by (rule growth_years)
  have latest: "\<forall>row \<in> set ?ranked. g_Year row = ?L"
    unfolding st by (simp add: latest_growth_mem yrs)
  have dist: "distinct (map g_Country ?ranked)"
    unfolding distinct_map_sort_values_desc by (rule latest_growth_countries)
  have only_latest: "\<forall>c. (\<forall>r \<in> set fd. Country r = c \<longrightarrow> Year r = ?L) \<longrightarrow>
             (\<forall>row \<in> set ?ranked. g_Country row \<noteq> c)"
  proof (intro allI impI ballI notI)
    fix c row
    assume all: "\<forall>r \<in> set fd. Country r = c \<longrightarrow> Year r = ?L"
      and row: "row \<in> set ?ranked" and c: "g_Country row = c"
    from row st have mem: "row \<in> set ?gs" and prev: "prev_year_passengers row \<noteq> None"
      and ly: "g_Year row = ?L"
      by (simp_all add: latest_growth_mem yrs)
    from growth_row_baseline [OF mem prev] obtain r where
      "r \<in> set fd" "Country r = g_Country row" "Year r < g_Year row"
      by blast
    with all c ly show False by auto
  qed
  have srt: "sorted_wrt (\<lambda>a b. fkey (growth_rate a) \<ge> fkey (growth_rate b)) ?ranked"
    by (rule sort_values_desc_sorted)
  have pre: "\<exists>rest. ?ranked = head top_n ?ranked @ rest" by (rule head_prefix)
  have len: "length (head top_n ?ranked) =
         (if 0 \<le> top_n then min (nat top_n) (length ?ranked)
          else length ?ranked - nat (- top_n))"
    by (rule length_head_exact)
  have bound: "0 \<le> top_n \<longrightarrow> int (length (head top_n ?ranked)) \<le> top_n"
    using length_head by blast
  show ?thesis
    by (intro exI [of _ ?ranked] conjI res rows latest dist only_latest srt pre len bound)
qed

text \<open>
  The statement of C8 in the words of the specification fails for a negative \<open>top_n\<close>:
  with \<open>top_n = -1\<close> the table of three countries gives the row of the United Kingdom,
  which is one row and not at most \<open>-1\<close>.
\<close>

theorem regional_growth_negative_top_n_counterexample:
  "analyze_geographical_patterns growth_table 1985 1 1990 12 ''regional_growth'' (- 1)
     = Inr (RegionalGrowth [uk_growth_row])
   \<and> \<not> int (length [uk_growth_row]) \<le> - 1"
proof -
  have a: "analyze_geographical_patterns growth_table 1985 1 1990 12 ''regional_growth'' (- 1)
     = Inr (RegionalGrowth [uk_growth_row])"
    by code_simp
  have b: "\<not> int (length [uk_growth_row]) \<le> - 1" by simp
  show ?thesis by (intro conjI a b)
qed

text \<open>
  The table of three countries over 1985 to 1990 with \<open>top_n = 1\<close>: the United Kingdom
  (80 per cent, from 1985) and Japan (25 per cent, from 1987) are ranked, New Zealand
  with records in 1990 only is not, and the output is the row of the United Kingdom.
\<close>

theorem regional_growth_ranking_witness:
  "growth_table = filter_data_by_period growth_table 1985 1 1990 12
   \<and> (0::int) \<le> 1
   \<and> list_all (\<lambda>r. Country r = ''New Zealand'' \<longrightarrow> Year r = Max (Year ` set growth_table))
       growth_table
   \<and> (\<exists>ranked.
         analyze_geographical_patterns growth_table 1985 1 1990 12 ''regional_growth'' 1
           = Inr (RegionalGrowth (head 1 ranked))
       \<and> head 1 ranked = [uk_growth_row]
       \<and> uk_growth_row \<in> set ranked \<and> japan_growth_row \<in> set ranked
       \<and> list_all (\<lambda>row. g_Country row \<noteq> ''New Zealand'') ranked
       \<and> list_all (\<lambda>row. g_Year row = 1990) ranked
       \<and> distinct (map g_Country ranked)
       \<and> sorted_wrt (\<lambda>a b. fkey (growth_rate a) \<ge> fkey (growth_rate b)) ranked
       \<and> int (length (head 1 ranked)) \<le> 1)"
proof -
  let ?L = "Max (Year ` set growth_table)"
  have fd: "growth_table = filter_data_by_period growth_table 1985 1 1990 12"
    by (simp add: filter_data_by_period_def growth_table_def japan_87_def japan_90_def
        mk_record_def)
  have h1: "(0::int) \<le> 1" by simp
  have mx: "?L = 1990"
    by (simp add: growth_table_def japan_87_def japan_90_def mk_record_def)
  have nzh: "\<forall>r \<in> set growth_table. Country r = ''New Zealand'' \<longrightarrow> Year r = ?L"
    unfolding mx by (simp add: growth_table_def japan_87_def japan_90_def mk_record_def)
  from regional_growth_ranking [OF fd, of 1]
  obtain ranked where
    res: "analyze_geographical_patterns growth_table 1985 1 1990 12 ''regional_growth'' 1
          = Inr (RegionalGrowth (head 1 ranked))"
    and rows: "\<forall>row. row \<in> set ranked \<longleftrightarrow>
          (\<exists>c B. (\<exists>r \<in> set growth_table. Year r = ?L \<and> Country r = c)
              \<and> (\<exists>b \<in> set growth_table. Year b = B \<and> Country b = c)
              \<and> B < ?L
              \<and> (\<forall>x \<in> set growth_table. Country x = c \<longrightarrow> Year x \<le> B \<or> ?L \<le> Year x)
              \<and> row = \<lparr>g_Year = ?L, g_Country = c,
                    g_Passengers_Total = country_year_total growth_table ?L c,
                    prev_year_passengers = Some (country_year_total growth_table B c),
                    growth_rate = growth_of (country_year_total growth_table ?L c)
                                    (Some (country_year_total growth_table B c))\<rparr>
              \<and> growth_rate row \<noteq> NaN)"
    and latest: "\<forall>row \<in> set ranked. g_Year row = ?L"
    and dist: "distinct (map g_Country ranked)"
    and only_latest: "\<forall>c. (\<forall>r \<in> set growth_table. Country r = c \<longrightarrow> Year r = ?L) \<longrightarrow>
             (\<forall>row \<in> set ranked. g_Country row \<noteq> c)"
    and srt: "sorted_wrt (\<lambda>a b. fkey (growth_rate a) \<ge> fkey (growth_rate b)) ranked"
    and bound: "0 \<le> (1::int) \<longrightarrow> int (length (head 1 ranked)) \<le> 1"
    by blast
  have ev: "analyze_geographical_patterns growth_table 1985 1 1990 12 ''regional_growth'' 1
      = Inr (RegionalGrowth [uk_growth_row])"
    by code_simp
  from res ev have hd: "head 1 ranked = [uk_growth_row]" by simp
  have t1: "country_year_total growth_table 1990 ''UK'' = 360" by code_simp
  have t2: "country_year_total growth_table 1985 ''UK'' = 200" by code_simp
  have t3: "country_year_total growth_table 1990 ''Japan'' = 100" by code_simp
  have t4: "country_year_total growth_table 1987 ''Japan'' = 80" by code_simp
  have g1: "growth_of 360 (Some 200) = Fin 80" by code_simp
  have g2: "growth_of 100 (Some 80) = Fin 25" by code_simp
  have uk: "uk_growth_row \<in> set ranked"
  proof -
    have e1: "\<exists>r \<in> set growth_table. Year r = ?L \<and> Country r = ''UK''"
      unfolding mx by (simp add: growth_table_def japan_87_def japan_90_def mk_record_def)
    have e2: "\<exists>b \<in> set growth_table. Year b = 1985 \<and> Country b = ''UK''"
      by (simp add: growth_table_def japan_87_def japan_90_def mk_record_def)
    have e3: "1985 < ?L" unfolding mx by simp
    have e4: "\<forall>x \<in> set growth_table. Country x = ''UK'' \<longrightarrow> Year x \<le> 1985 \<or> ?L \<le> Year x"
      unfolding mx by (simp add: growth_table_def japan_87_def japan_90_def mk_record_def)
    have e5: "uk_growth_row = \<lparr>g_Year = ?L, g_Country = ''UK'',
                    g_Passengers_Total = country_year_total growth_table ?L ''UK'',
                    prev_year_passengers = Some (country_year_total growth_table 1985 ''UK''),
                    growth_rate = growth_of (country_year_total growth_table ?L ''UK'')
                                    (Some (country_year_total growth_table 1985 ''UK''))\<rparr>"
      unfolding mx t1 t2 g1 by (rule uk_growth_row_def)
    have e6: "growth_rate uk_growth_row \<noteq> NaN" by (simp add: uk_growth_row_def)
    show ?thesis
      by (rule rows [THEN spec, THEN iffD2])
        (intro exI [of _ "''UK''"] exI [of _ 1985] conjI e1 e2 e3 e4 e5 e6)
  qed
  have japan: "japan_growth_row \<in> set ranked"
  proof -
    have e1: "\<exists>r \<in> set growth_table. Year r = ?L \<and> Country r = ''Japan''"
      unfolding mx by (simp add: growth_table_def japan_87_def japan_90_def mk_record_def)
    have e2: "\<exists>b \<in> set growth_table. Year b = 1987 \<and> Country b = ''Japan''"
      by (simp add: growth_table_def japan_87_def japan_90_def mk_record_def)
    have e3: "1987 < ?L" unfolding mx by simp
    have e4: "\<forall>x \<in> set growth_table. Country x = ''Japan'' \<longrightarrow> Year x \<le> 1987 \<or> ?L \<le> Year x"
      unfolding mx by (simp add: growth_table_def japan_87_def japan_90_def mk_record_def)
    have e5: "japan_growth_row = \<lparr>g_Year = ?L, g_Country = ''Japan'',
                    g_Passengers_Total = country_year_total growth_table ?L ''Japan'',
                    prev_year_passengers = Some (country_year_total growth_table 1987 ''Japan''),
                    growth_rate = growth_of (country_year_total growth_table ?L ''Japan'')
                                    (Some (country_year_total growth_table 1987 ''Japan''))\<rparr>"
      unfolding mx t3 t4 g2 by (rule japan_growth_row_def)
    have e6: "growth_rate japan_growth_row \<noteq> NaN" by (simp add: japan_growth_row_def)
    show ?thesis
      by (rule rows [THEN spec, THEN iffD2])
        (intro exI [of _ "''Japan''"] exI [of _ 1987] conjI e1 e2 e3 e4 e5 e6)
  qed
  from only_latest nzh have "\<forall>row \<in> set ranked. g_Country row \<noteq> ''New Zealand''" by blast
  then have nz: "list_all (\<lambda>row. g_Country row \<noteq> ''New Zealand'') ranked"
    by (simp only: list_all_iff)
  from latest have ly: "list_all (\<lambda>row. g_Year row = 1990) ranked"
    unfolding mx by (simp only: list_all_iff)
  from bound h1 have len: "int (length (head 1 ranked)) \<le> 1" by blast
  have nzh': "list_all (\<lambda>r. Country r = ''New Zealand'' \<longrightarrow> Year r = ?L) growth_table"
    using nzh by (simp only: list_all_iff)
  show ?thesis
    by (intro conjI fd h1 nzh' exI [of _ ranked] res hd uk japan nz ly dist srt len)
qed

end
